theory Spec2Isabelle
  imports Complex_Main
begin

section \<open>Conventions of the embedding\<close>

text \<open>
  Every page of the application is one React component: a bag of \<open>useState\<close> fields,
  one or two \<open>useRef\<close> cells, and handlers that call the state setters. A page is
  modelled as a record of its state fields and refs, and a handler as a function from
  the page state to the page state.

  \<^item> A setter call \<open>setX(v)\<close> takes its value where it stands. An updater function
    (\<open>setX(prev => f prev)\<close>) is queued and runs when React renders, after the handler
    has returned: \<open>prev\<close> is the field as the updates queued before it left it, and a
    mutable local of the handler that the updater reads has the value the handler left
    there. The queues are run field by field in the order of the \<open>useState\<close>
    declarations. A setter called inside an updater is queued in turn: it runs in the
    same pass when its field is declared later than the one being updated, and in a
    further pass over the fields when it is not. The model applies the updates of a
    handler in an order that gives every field the same updates in the same order.
  \<^item> A variable that a handler reads from the render scope (as opposed to the argument
    of an updater function) has the value of the render in which the handler was
    created. For the callback of an interval that is the state at the moment the start
    function was called; the model stores these captured values in the closure of the
    timer.
  \<^item> \<open>new Date().toLocaleTimeString()\<close>, \<open>Date.now()\<close> and \<open>Math.random()\<close> are
    inputs of the handler that reads them.
  \<^item> JavaScript numbers that only hold integers are \<open>int\<close>; progress values, which
    are fractions, are \<open>real\<close>. A JavaScript number is a double: every sum, product
    and quotient of fractions is rounded to the nearest double. The rounding is a
    parameter \<open>fl\<close> of the functions that compute with fractions; nothing is assumed
    of it, so what is proved of them holds for the rounding of the machine.
  \<^item> Strings are byte lists; the few symbols beyond ASCII stand as their UTF-8 bytes.
\<close>

subsection \<open>Arrays and strings\<close>

text \<open>\<open>Array.prototype.slice(start)\<close> with one argument: a negative start counts from the end.\<close>

definition slice1 :: "int \<Rightarrow> 'a list \<Rightarrow> 'a list" where
  "slice1 start xs =
     (let n = int (length xs);
          k = (if start < 0 then max (n + start) 0 else min start n)
      in drop (nat k) xs)"

text \<open>The arithmetic of doubles: the exact result, rounded.\<close>

type_synonym rounding = "real \<Rightarrow> real"

definition fl_add :: "rounding \<Rightarrow> real \<Rightarrow> real \<Rightarrow> real" where
  "fl_add fl x y = fl (x + y)"

definition fl_mul :: "rounding \<Rightarrow> real \<Rightarrow> real \<Rightarrow> real" where
  "fl_mul fl x y = fl (x * y)"

definition fl_div :: "rounding \<Rightarrow> real \<Rightarrow> real \<Rightarrow> real" where
  "fl_div fl x y = fl (x / y)"

text \<open>Decimal digits of a number, as template literals print an integer.\<close>

fun show_nat :: "nat \<Rightarrow> string" where
  "show_nat n =
     (if n < 10 then [char_of (48 + n)]
      else show_nat (n div 10) @ [char_of (48 + n mod 10)])"

declare show_nat.simps [simp del]

definition show_int :: "int \<Rightarrow> string" where
  "show_int i = (if i < 0 then ''-'' @ show_nat (nat (- i)) else show_nat (nat i))"

definition check_mark :: string where
  "check_mark = [char_of (0xE2::nat), char_of (0x9C::nat), char_of (0x93::nat)]"

definition skull :: string where
  "skull = [char_of (0xF0::nat), char_of (0x9F::nat), char_of (0x92::nat), char_of (0x80::nat)]"

subsection \<open>Interval timers\<close>

text \<open>
  \<open>setInterval\<close> returns a fresh handle and keeps the callback alive until
  \<open>clearInterval\<close> is called on that handle. The callback's local variables (the
  \<open>let\<close> variables of the start function it closes over) are the closure stored with
  the handle. A handle is never \<open>null\<close>, so handles start at 1.
\<close>

type_synonym handle = nat

record 'c timers =
  next_handle :: handle
  live :: "(handle \<times> 'c) list"

definition no_timers :: "'c timers" where
  "no_timers = \<lparr>next_handle = 1, live = []\<rparr>"

definition setInterval :: "'c \<Rightarrow> 'c timers \<Rightarrow> 'c timers" where
  "setInterval c T =
     \<lparr>next_handle = Suc (next_handle T), live = (next_handle T, c) # live T\<rparr>"

definition clearInterval :: "handle \<Rightarrow> 'c timers \<Rightarrow> 'c timers" where
  "clearInterval h T = T\<lparr>live := filter (\<lambda>p. fst p \<noteq> h) (live T)\<rparr>"

definition clearRef :: "handle option \<Rightarrow> 'c timers \<Rightarrow> 'c timers" where
  \<comment> \<open>\<open>if (ref.current) clearInterval(ref.current)\<close>\<close>
  "clearRef r T = (case r of None \<Rightarrow> T | Some h \<Rightarrow> clearInterval h T)"

definition closure_of :: "'c timers \<Rightarrow> handle \<Rightarrow> 'c option" where
  "closure_of T h = map_of (live T) h"

definition set_closure :: "handle \<Rightarrow> 'c \<Rightarrow> 'c timers \<Rightarrow> 'c timers" where
  "set_closure h c T = T\<lparr>live := map (\<lambda>p. if fst p = h then (h, c) else p) (live T)\<rparr>"

definition handles :: "'c timers \<Rightarrow> handle list" where
  "handles T = map fst (live T)"

section \<open>Deadlock page\<close>

datatype dl_status = Idle | Acquired | Waiting | Deadlocked

record dl_thread =
  dlt_id :: int
  dlt_name :: string
  dlt_color :: string
  dlt_holdsLock :: "string option"
  dlt_wantsLock :: "string option"
  dlt_status :: dl_status
  dlt_x :: int
  dlt_y :: int

record dl_lock =
  dll_id :: string
  dll_name :: string
  dll_heldBy :: "int option"
  dll_x :: int
  dll_y :: int

record dl_state =
  dl_showExplanation :: bool
  dl_isRunning :: bool
  dl_isDeadlocked :: bool
  dl_step :: int
  dl_logs :: "string list"
  dl_threads :: "dl_thread list"
  dl_locks :: "dl_lock list"
  dl_intervalRef :: "handle option"
  dl_timers :: "nat timers"

definition dl_threads0 :: "dl_thread list" where
  "dl_threads0 =
     [\<lparr>dlt_id = 1, dlt_name = ''Thread A'', dlt_color = ''blue'', dlt_holdsLock = None,
       dlt_wantsLock = None, dlt_status = Idle, dlt_x = 100, dlt_y = 150\<rparr>,
      \<lparr>dlt_id = 2, dlt_name = ''Thread B'', dlt_color = ''green'', dlt_holdsLock = None,
       dlt_wantsLock = None, dlt_status = Idle, dlt_x = 400, dlt_y = 150\<rparr>]"

definition dl_locks0 :: "dl_lock list" where
  "dl_locks0 =
     [\<lparr>dll_id = ''lock1'', dll_name = ''Lock 1'', dll_heldBy = None, dll_x = 180, dll_y = 80\<rparr>,
      \<lparr>dll_id = ''lock2'', dll_name = ''Lock 2'', dll_heldBy = None, dll_x = 320, dll_y = 80\<rparr>]"

text \<open>The state the component is constructed with.\<close>

definition dl_init :: dl_state where
  "dl_init =
     \<lparr>dl_showExplanation = True, dl_isRunning = False, dl_isDeadlocked = False, dl_step = 0,
      dl_logs = [], dl_threads = dl_threads0, dl_locks = dl_locks0,
      dl_intervalRef = None, dl_timers = no_timers\<rparr>"

definition dl_line :: "string \<Rightarrow> string \<Rightarrow> string" where
  \<comment> \<open>the template \<open>[${new Date().toLocaleTimeString()}] ${message}\<close>\<close>
  "dl_line now message = ''['' @ now @ ''] '' @ message"

definition dl_addLog :: "string \<Rightarrow> string \<Rightarrow> dl_state \<Rightarrow> dl_state" where
  "dl_addLog now message s =
     s\<lparr>dl_logs := slice1 (- 8) (dl_logs s) @ [dl_line now message]\<rparr>"

definition dl_reset :: "dl_state \<Rightarrow> dl_state" where
  "dl_reset s =
     s\<lparr>dl_timers := clearRef (dl_intervalRef s) (dl_timers s),
       dl_isRunning := False, dl_isDeadlocked := False, dl_step := 0, dl_logs := [],
       dl_threads := dl_threads0, dl_locks := dl_locks0\<rparr>"

definition dl_wants :: "int \<Rightarrow> string \<Rightarrow> dl_state \<Rightarrow> dl_state" where
  \<comment> \<open>steps 1, 3, 5, 6: thread \<open>i\<close> asks for lock \<open>l\<close>\<close>
  "dl_wants i l s =
     s\<lparr>dl_threads :=
         map (\<lambda>t. if dlt_id t = i then t\<lparr>dlt_wantsLock := Some l, dlt_status := Waiting\<rparr> else t)
           (dl_threads s)\<rparr>"

definition dl_acquires :: "int \<Rightarrow> string \<Rightarrow> dl_state \<Rightarrow> dl_state" where
  \<comment> \<open>steps 2, 4: thread \<open>i\<close> gets lock \<open>l\<close>\<close>
  "dl_acquires i l s =
     s\<lparr>dl_threads :=
         map (\<lambda>t. if dlt_id t = i
                   then t\<lparr>dlt_holdsLock := Some l, dlt_wantsLock := None, dlt_status := Acquired\<rparr>
                   else t) (dl_threads s),
       dl_locks := map (\<lambda>l'. if dll_id l' = l then l'\<lparr>dll_heldBy := Some i\<rparr> else l') (dl_locks s)\<rparr>"

definition dl_steps :: "(string \<Rightarrow> dl_state \<Rightarrow> dl_state) list" where
  "dl_steps =
     [\<lambda>now s. dl_wants 1 ''lock1'' (dl_addLog now ''Thread A: Acquiring Lock 1...'' s),
      \<lambda>now s. dl_acquires 1 ''lock1''
                 (dl_addLog now (''Thread A: '' @ check_mark @ '' Acquired Lock 1'') s),
      \<lambda>now s. dl_wants 2 ''lock2'' (dl_addLog now ''Thread B: Acquiring Lock 2...'' s),
      \<lambda>now s. dl_acquires 2 ''lock2''
                 (dl_addLog now (''Thread B: '' @ check_mark @ '' Acquired Lock 2'') s),
      \<lambda>now s. dl_wants 1 ''lock2''
                 (dl_addLog now ''Thread A: Now I need Lock 2... (held by Thread B!)'' s),
      \<lambda>now s. dl_wants 2 ''lock1''
                 (dl_addLog now ''Thread B: Now I need Lock 1... (held by Thread A!)'' s),
      \<lambda>now s.
         (let s1 = dl_addLog now (skull @ '' DEADLOCK DETECTED! Both threads waiting forever!'') s;
              s2 = s1\<lparr>dl_isDeadlocked := True\<rparr>;
              s3 = s2\<lparr>dl_threads := map (\<lambda>t. t\<lparr>dlt_status := Deadlocked\<rparr>) (dl_threads s2)\<rparr>
          in s3\<lparr>dl_isRunning := False\<rparr>)]"

text \<open>
  \<open>runDeadlockScenario\<close>: reset, raise the running flag and schedule the interval,
  whose closure is the local \<open>currentStep\<close>, starting at 0.
\<close>

definition runDeadlockScenario :: "dl_state \<Rightarrow> dl_state" where
  "runDeadlockScenario s =
     (let s1 = dl_reset s;
          s2 = s1\<lparr>dl_isRunning := True\<rparr>
      in s2\<lparr>dl_intervalRef := Some (next_handle (dl_timers s2)),
             dl_timers := setInterval 0 (dl_timers s2)\<rparr>)"

text \<open>
  One firing of the interval with handle \<open>h\<close>; a handle that is not live does not fire.
\<close>

definition dl_tick :: "string \<Rightarrow> handle \<Rightarrow> dl_state \<Rightarrow> dl_state" where
  "dl_tick now h s =
     (case closure_of (dl_timers s) h of
        None \<Rightarrow> s
      | Some currentStep \<Rightarrow>
          if currentStep < length dl_steps then
            (let s1 = (dl_steps ! currentStep) now s;
                 s2 = s1\<lparr>dl_step := int currentStep + 1\<rparr>
             in s2\<lparr>dl_timers := set_closure h (currentStep + 1) (dl_timers s2)\<rparr>)
          else s\<lparr>dl_timers := clearRef (dl_intervalRef s) (dl_timers s)\<rparr>)"

definition dl_ticks :: "handle \<Rightarrow> string list \<Rightarrow> dl_state \<Rightarrow> dl_state" where
  "dl_ticks h nows s = fold (\<lambda>now. dl_tick now h) nows s"

section \<open>Locks and compare-and-swap page\<close>

datatype lk_phase = LkIdle | LkAcquiring | LkHolding | LkReleasing

record lock_demo =
  lk_active :: bool
  lk_waiting :: "int list"
  lk_currentHolder :: "int option"
  lk_completedThreads :: "int list"
  lk_phase :: lk_phase
  lk_executionLog :: "string list"

record cas_attempt =
  ca_expected :: int
  ca_actual :: int
  ca_newValue :: int
  ca_success :: bool
  ca_id :: int
  ca_threadId :: int
  ca_timestamp :: int

datatype cas_phase = CasIdle | CasReading | CasComparing | CasSwapping | CasRetrying

text \<open>The field \<open>value\<close> of \<open>CASDemo\<close> is \<open>cas_val\<close> here.\<close>

record cas_demo =
  cas_attempts :: "cas_attempt list"
  cas_val :: int
  cas_isRunning :: bool
  cas_phase :: cas_phase
  cas_currentThread :: "int option"

text \<open>
  The closure of the lock interval is its \<open>step\<close>; the closure of the CAS interval is
  \<open>(attemptIndex, currentValue)\<close>. Each demo has its own ref, and a ref only ever holds
  handles of its own demo, so each demo has its own timer table.
\<close>

record lp_state =
  lp_showExplanation :: bool
  lp_lockDemo :: lock_demo
  lp_casDemo :: cas_demo
  lp_lockInterval :: "handle option"
  lp_casInterval :: "handle option"
  lp_lockTimers :: "nat timers"
  lp_casTimers :: "(nat \<times> int) timers"

definition lock_demo0 :: lock_demo where
  "lock_demo0 =
     \<lparr>lk_active = False, lk_waiting = [], lk_currentHolder = None, lk_completedThreads = [],
      lk_phase = LkIdle, lk_executionLog = []\<rparr>"

definition cas_demo0 :: cas_demo where
  "cas_demo0 =
     \<lparr>cas_attempts = [], cas_val = 100, cas_isRunning = False, cas_phase = CasIdle,
      cas_currentThread = None\<rparr>"

definition lp_init :: lp_state where
  "lp_init =
     \<lparr>lp_showExplanation = True, lp_lockDemo = lock_demo0, lp_casDemo = cas_demo0,
      lp_lockInterval = None, lp_casInterval = None,
      lp_lockTimers = no_timers, lp_casTimers = no_timers\<rparr>"

subsection \<open>Lock demo\<close>

definition startLockDemo :: "lp_state \<Rightarrow> lp_state" where
  "startLockDemo s =
     (let initialThreads = [1, 2, 3, 4 :: int];
          s1 = s\<lparr>lp_lockDemo :=
                 \<lparr>lk_active = True, lk_waiting = slice1 1 initialThreads,
                  lk_currentHolder = Some (initialThreads ! 0), lk_completedThreads = [],
                  lk_phase = LkAcquiring,
                  lk_executionLog = [''Thread 1 acquired the lock'']\<rparr>\<rparr>
      in s1\<lparr>lp_lockInterval := Some (next_handle (lp_lockTimers s1)),
             lp_lockTimers := setInterval 0 (lp_lockTimers s1)\<rparr>)"

definition show_holder :: "int option \<Rightarrow> string" where
  \<comment> \<open>a \<open>number | null\<close> inside a template literal\<close>
  "show_holder h = (case h of None \<Rightarrow> ''null'' | Some i \<Rightarrow> show_int i)"

definition done_mark :: string where
  \<comment> \<open>the bytes in front of the completion line, as the source file holds them\<close>
  "done_mark =
     [char_of (0xE2::nat), char_of (0x80::nat), char_of (0x9A::nat), char_of (0xC3::nat),
      char_of (0xBA::nat), char_of (0xC3::nat), char_of (0x96::nat)]"

text \<open>
  One firing of the lock interval: the whole body is the updater of \<open>setLockDemo\<close>.
  \<open>phases[step % 3]\<close> cycles holding, releasing, acquiring. A holder or a next thread
  that is \<open>null\<close>, \<open>undefined\<close> or 0 is falsy.
\<close>

definition lock_tick :: "handle \<Rightarrow> lp_state \<Rightarrow> lp_state" where
  "lock_tick h s =
     (case closure_of (lp_lockTimers s) h of
        None \<Rightarrow> s
      | Some step \<Rightarrow>
          (let prev = lp_lockDemo s in
           if length (lk_completedThreads prev) \<ge> 4 then
             s\<lparr>lp_lockTimers := clearRef (lp_lockInterval s) (lp_lockTimers s),
               lp_lockDemo :=
                 prev\<lparr>lk_active := False, lk_phase := LkIdle, lk_currentHolder := None,
                      lk_executionLog := lk_executionLog prev @
                        [done_mark @ '' All threads completed successfully!'']\<rparr>\<rparr>
           else
             (let s1 = s\<lparr>lp_lockTimers := set_closure h (step + 1) (lp_lockTimers s)\<rparr> in
              if step mod 3 = 0 then
                s1\<lparr>lp_lockDemo :=
                     prev\<lparr>lk_phase := LkHolding,
                          lk_executionLog := lk_executionLog prev @
                            [''Thread '' @ show_holder (lk_currentHolder prev) @
                             '' is doing critical work...'']\<rparr>\<rparr>
              else if step mod 3 = 1 then
                (let completed = lk_currentHolder prev in
                 s1\<lparr>lp_lockDemo :=
                      prev\<lparr>lk_phase := LkReleasing,
                           lk_completedThreads :=
                             (case completed of
                                None \<Rightarrow> lk_completedThreads prev
                              | Some c \<Rightarrow> if c = 0 then lk_completedThreads prev
                                          else lk_completedThreads prev @ [c]),
                           lk_executionLog := lk_executionLog prev @
                             [''Thread '' @ show_holder completed @ '' released the lock'']\<rparr>\<rparr>)
              else
                (case lk_waiting prev of
                   [] \<Rightarrow>
                     s1\<lparr>lp_lockTimers := clearRef (lp_lockInterval s1) (lp_lockTimers s1),
                        lp_lockDemo :=
                          prev\<lparr>lk_active := False, lk_phase := LkIdle, lk_currentHolder := None\<rparr>\<rparr>
                 | nextThread # rest \<Rightarrow>
                     if nextThread = 0 then
                       s1\<lparr>lp_lockTimers := clearRef (lp_lockInterval s1) (lp_lockTimers s1),
                          lp_lockDemo :=
                            prev\<lparr>lk_active := False, lk_phase := LkIdle,
                                 lk_currentHolder := None\<rparr>\<rparr>
                     else
                       s1\<lparr>lp_lockDemo :=
                            prev\<lparr>lk_phase := LkAcquiring, lk_currentHolder := Some nextThread,
                                 lk_waiting := slice1 1 (lk_waiting prev),
                                 lk_executionLog := lk_executionLog prev @
                                   [''Thread '' @ show_int nextThread @ '' acquired the lock'']\<rparr>\<rparr>))))"

definition resetLockDemo :: "lp_state \<Rightarrow> lp_state" where
  "resetLockDemo s =
     s\<lparr>lp_lockTimers := clearRef (lp_lockInterval s) (lp_lockTimers s),
       lp_lockDemo := lock_demo0\<rparr>"

subsection \<open>CAS demo\<close>

definition cas_threads :: "(int \<times> int) list" where
  \<comment> \<open>\<open>{id, delay}\<close>; the delays are never read\<close>
  "cas_threads = [(1, 0), (2, 300), (3, 600), (1, 1500), (2, 2100)]"

definition startCASDemo :: "lp_state \<Rightarrow> lp_state" where
  "startCASDemo s =
     (let s1 = s\<lparr>lp_casDemo :=
                 \<lparr>cas_attempts = [], cas_val = 100, cas_isRunning = True, cas_phase = CasIdle,
                  cas_currentThread = None\<rparr>\<rparr>
      in s1\<lparr>lp_casInterval := Some (next_handle (lp_casTimers s1)),
             lp_casTimers := setInterval (0, 100) (lp_casTimers s1)\<rparr>)"

text \<open>
  One firing of the CAS interval; \<open>now\<close> is \<open>Date.now()\<close>. The updater of
  \<open>setCasDemo\<close> reads \<open>attemptIndex\<close> for the \<open>id\<close> of the attempt when React renders,
  after the callback has incremented it: the attempt made at index \<open>k\<close> is recorded with
  \<open>id\<close> \<open>k + 1\<close>. Everything else the updater reads is a constant of the callback.
\<close>

definition cas_tick :: "int \<Rightarrow> handle \<Rightarrow> lp_state \<Rightarrow> lp_state" where
  "cas_tick now h s =
     (case closure_of (lp_casTimers s) h of
        None \<Rightarrow> s
      | Some (attemptIndex, currentValue) \<Rightarrow>
          if attemptIndex \<ge> length cas_threads then
            (let s1 = s\<lparr>lp_casTimers := clearRef (lp_casInterval s) (lp_casTimers s)\<rparr>
             in s1\<lparr>lp_casDemo :=
                     (lp_casDemo s1)\<lparr>cas_isRunning := False, cas_phase := CasIdle,
                                     cas_currentThread := None\<rparr>\<rparr>)
          else
            (let thread = cas_threads ! attemptIndex;
                 expectedValue = currentValue;
                 actualValue =
                   (if attemptIndex > 0 \<and> attemptIndex < 3 then currentValue + 1
                    else currentValue);
                 success = (expectedValue = actualValue);
                 newValue = actualValue + 1;
                 currentValue' = (if success then newValue else currentValue);
                 prev = lp_casDemo s;
                 s1 = s\<lparr>lp_casDemo :=
                        prev\<lparr>cas_val := (if success then newValue else cas_val prev),
                             cas_phase := (if success then CasSwapping else CasRetrying),
                             cas_currentThread := Some (fst thread),
                             cas_attempts := cas_attempts prev @
                               [\<lparr>ca_expected = expectedValue, ca_actual = actualValue,
                                 ca_newValue = newValue, ca_success = success,
                                 ca_id = int (attemptIndex + 1), ca_threadId = fst thread,
                                 ca_timestamp = now\<rparr>]\<rparr>\<rparr>
             in s1\<lparr>lp_casTimers :=
                     set_closure h (attemptIndex + 1, currentValue') (lp_casTimers s1)\<rparr>))"

definition cas_ticks :: "handle \<Rightarrow> int list \<Rightarrow> lp_state \<Rightarrow> lp_state" where
  "cas_ticks h nows s = fold (\<lambda>now. cas_tick now h) nows s"

definition resetCASDemo :: "lp_state \<Rightarrow> lp_state" where
  "resetCASDemo s =
     s\<lparr>lp_casTimers := clearRef (lp_casInterval s) (lp_casTimers s),
       lp_casDemo := cas_demo0\<rparr>"

section \<open>Race condition page\<close>

text \<open>
  A JavaScript number as the unsafe script handles it: reading a thread's local value
  that was never stored gives \<open>undefined\<close>, and adding one to that gives \<open>NaN\<close>.
\<close>

datatype jsnum = Num int | NaN | Undefined

definition js_add1 :: "jsnum \<Rightarrow> jsnum" where
  "js_add1 v = (case v of Num n \<Rightarrow> Num (n + 1) | NaN \<Rightarrow> NaN | Undefined \<Rightarrow> NaN)"

definition js_ge :: "jsnum \<Rightarrow> jsnum \<Rightarrow> bool" where
  \<comment> \<open>\<open>a >= b\<close>: false when either side is not a number\<close>
  "js_ge a b = (case (a, b) of (Num x, Num y) \<Rightarrow> x \<ge> y | _ \<Rightarrow> False)"

definition show_jsnum :: "jsnum \<Rightarrow> string" where
  "show_jsnum v = (case v of Num n \<Rightarrow> show_int n | NaN \<Rightarrow> ''NaN'' | Undefined \<Rightarrow> ''undefined'')"

datatype rc_step = RcIdle | RcReading | RcComputing | RcWriting | RcDone

record rc_thread =
  rct_id :: int
  rct_step :: rc_step
  rct_localValue :: "jsnum option"
  rct_color :: string

text \<open>The field \<open>value\<close> of \<open>LogEntry\<close> is \<open>rle_val\<close> here.\<close>

record rc_log_entry =
  rle_threadId :: int
  rle_action :: string
  rle_val :: jsnum
  rle_timestamp :: int
  rle_isLostUpdate :: "bool option"

datatype rc_action = ActRead | ActCompute | ActWrite

text \<open>The local variables of \<open>runUnsafeDemo\<close> that its interval closes over.\<close>

record rc_unsafe_closure =
  ruc_counter :: jsnum
  ruc_step :: nat
  ruc_lost :: int
  ruc_threadLocalValues :: "int \<Rightarrow> jsnum"

text \<open>The closure of the atomic interval is \<open>(counter, threadIndex)\<close>.\<close>

record rc_state =
  rc_unsafeCounter :: jsnum
  rc_unsafeThreads :: "rc_thread list"
  rc_unsafeLog :: "rc_log_entry list"
  rc_unsafeRunning :: bool
  rc_lostUpdates :: int
  rc_atomicCounter :: int
  rc_atomicThreads :: "rc_thread list"
  rc_atomicLog :: "rc_log_entry list"
  rc_atomicRunning :: bool
  rc_unsafeInterval :: "handle option"
  rc_atomicInterval :: "handle option"
  rc_unsafeTimers :: "rc_unsafe_closure timers"
  rc_atomicTimers :: "(int \<times> nat) timers"

definition rc_threads0 :: "rc_thread list" where
  "rc_threads0 =
     [\<lparr>rct_id = 1, rct_step = RcIdle, rct_localValue = None, rct_color = ''blue''\<rparr>,
      \<lparr>rct_id = 2, rct_step = RcIdle, rct_localValue = None, rct_color = ''purple''\<rparr>,
      \<lparr>rct_id = 3, rct_step = RcIdle, rct_localValue = None, rct_color = ''green''\<rparr>]"

definition rc_init :: rc_state where
  "rc_init =
     \<lparr>rc_unsafeCounter = Num 0, rc_unsafeThreads = rc_threads0, rc_unsafeLog = [],
      rc_unsafeRunning = False, rc_lostUpdates = 0,
      rc_atomicCounter = 0, rc_atomicThreads = rc_threads0, rc_atomicLog = [],
      rc_atomicRunning = False,
      rc_unsafeInterval = None, rc_atomicInterval = None,
      rc_unsafeTimers = no_timers, rc_atomicTimers = no_timers\<rparr>"

definition rc_sequence :: "(int \<times> rc_action \<times> string) list" where
  \<comment> \<open>\<open>{threadId, action, desc}\<close>\<close>
  "rc_sequence =
     [(1, ActRead, ''Read counter''), (2, ActRead, ''Read counter''), (3, ActRead, ''Read counter''),
      (1, ActCompute, ''Compute +1''), (2, ActCompute, ''Compute +1''),
      (3, ActCompute, ''Compute +1''),
      (1, ActWrite, ''Write result''), (2, ActWrite, ''Write result''),
      (3, ActWrite, ''Write result'')]"

definition runUnsafeDemo :: "rc_state \<Rightarrow> rc_state" where
  "runUnsafeDemo s =
     (let s1 = s\<lparr>rc_unsafeCounter := Num 0, rc_unsafeLog := [], rc_lostUpdates := 0,
                 rc_unsafeRunning := True, rc_unsafeThreads := rc_threads0\<rparr>
      in s1\<lparr>rc_unsafeInterval := Some (next_handle (rc_unsafeTimers s1)),
             rc_unsafeTimers :=
               setInterval
                 \<lparr>ruc_counter = Num 0, ruc_step = 0, ruc_lost = 0,
                  ruc_threadLocalValues = (\<lambda>_. Undefined)\<rparr>
                 (rc_unsafeTimers s1)\<rparr>)"

text \<open>
  The updater of \<open>setUnsafeThreads\<close> inside the callback: it maps over the threads and,
  for a thread with the action's id, also stores into \<open>threadLocalValues\<close>.
\<close>

fun rc_apply ::
  "int \<Rightarrow> rc_action \<Rightarrow> jsnum \<Rightarrow> rc_thread list \<Rightarrow> (int \<Rightarrow> jsnum) \<Rightarrow> rc_thread list \<times> (int \<Rightarrow> jsnum)"
where
  "rc_apply tid act counter [] tlv = ([], tlv)"
| "rc_apply tid act counter (t # ts) tlv =
     (if rct_id t = tid then
        (case act of
           ActRead \<Rightarrow>
             (let tlv1 = tlv(rct_id t := counter);
                  (ts', tlv2) = rc_apply tid act counter ts tlv1
              in (t\<lparr>rct_step := RcReading, rct_localValue := Some counter\<rparr> # ts', tlv2))
         | ActCompute \<Rightarrow>
             (let computed = js_add1 (tlv (rct_id t));
                  tlv1 = tlv(rct_id t := computed);
                  (ts', tlv2) = rc_apply tid act counter ts tlv1
              in (t\<lparr>rct_step := RcComputing, rct_localValue := Some computed\<rparr> # ts', tlv2))
         | ActWrite \<Rightarrow>
             (let (ts', tlv2) = rc_apply tid act counter ts tlv
              in (t\<lparr>rct_step := RcWriting\<rparr> # ts', tlv2)))
      else
        (let (ts', tlv2) = rc_apply tid act counter ts tlv in (t # ts', tlv2)))"

text \<open>One firing of the unsafe interval; \<open>now\<close> is \<open>Date.now()\<close>.\<close>

definition unsafe_tick :: "int \<Rightarrow> handle \<Rightarrow> rc_state \<Rightarrow> rc_state" where
  "unsafe_tick now h s =
     (case closure_of (rc_unsafeTimers s) h of
        None \<Rightarrow> s
      | Some c \<Rightarrow>
          if ruc_step c \<ge> length rc_sequence then
            s\<lparr>rc_unsafeTimers := clearRef (rc_unsafeInterval s) (rc_unsafeTimers s),
              rc_unsafeThreads := map (\<lambda>t. t\<lparr>rct_step := RcDone\<rparr>) (rc_unsafeThreads s),
              rc_unsafeRunning := False\<rparr>
          else
            (let (tid, act, desc) = rc_sequence ! ruc_step c;
                 (threads', tlv) =
                   rc_apply tid act (ruc_counter c) (rc_unsafeThreads s) (ruc_threadLocalValues c);
                 s1 = s\<lparr>rc_unsafeThreads := threads'\<rparr>
             in if act = ActWrite then
                  (let valueToWrite = tlv tid;
                       isLost = js_ge (ruc_counter c) valueToWrite;
                       lost = (if isLost then ruc_lost c + 1 else ruc_lost c);
                       s2 = (if isLost then s1\<lparr>rc_lostUpdates := lost\<rparr> else s1);
                       counter = valueToWrite;
                       s3 = s2\<lparr>rc_unsafeCounter := counter\<rparr>;
                       s4 = s3\<lparr>rc_unsafeLog := rc_unsafeLog s3 @
                              [\<lparr>rle_threadId = tid,
                                rle_action = ''Wrote '' @ show_jsnum valueToWrite,
                                rle_val = counter, rle_timestamp = now,
                                rle_isLostUpdate = Some isLost\<rparr>]\<rparr>
                   in s4\<lparr>rc_unsafeTimers :=
                           set_closure h
                             \<lparr>ruc_counter = counter, ruc_step = ruc_step c + 1, ruc_lost = lost,
                              ruc_threadLocalValues = tlv\<rparr>
                             (rc_unsafeTimers s4)\<rparr>)
                else
                  (let s2 = s1\<lparr>rc_unsafeLog := rc_unsafeLog s1 @
                              [\<lparr>rle_threadId = tid,
                                rle_action = desc @ '' ('' @
                                  show_jsnum (if act = ActRead then ruc_counter c else tlv tid) @
                                  '')'',
                                rle_val = ruc_counter c, rle_timestamp = now,
                                rle_isLostUpdate = None\<rparr>]\<rparr>
                   in s2\<lparr>rc_unsafeTimers :=
                           set_closure h
                             \<lparr>ruc_counter = ruc_counter c, ruc_step = ruc_step c + 1,
                              ruc_lost = ruc_lost c, ruc_threadLocalValues = tlv\<rparr>
                             (rc_unsafeTimers s2)\<rparr>)))"

definition unsafe_ticks :: "handle \<Rightarrow> int list \<Rightarrow> rc_state \<Rightarrow> rc_state" where
  "unsafe_ticks h nows s = fold (\<lambda>now. unsafe_tick now h) nows s"

definition runAtomicDemo :: "rc_state \<Rightarrow> rc_state" where
  "runAtomicDemo s =
     (let s1 = s\<lparr>rc_atomicCounter := 0, rc_atomicLog := [], rc_atomicRunning := True,
                 rc_atomicThreads := rc_threads0\<rparr>
      in s1\<lparr>rc_atomicInterval := Some (next_handle (rc_atomicTimers s1)),
             rc_atomicTimers := setInterval (0, 0) (rc_atomicTimers s1)\<rparr>)"

definition rc_threadOrder :: "int list" where
  "rc_threadOrder = [1, 2, 3]"

definition right_arrow :: string where
  "right_arrow = [char_of (0xE2::nat), char_of (0x86::nat), char_of (0x92::nat)]"

text \<open>
  One firing of the atomic interval. The updater of \<open>setAtomicThreads\<close> reads
  \<open>counter + 1\<close> when React renders, after the callback's \<open>counter++\<close>.
\<close>

definition atomic_tick :: "int \<Rightarrow> handle \<Rightarrow> rc_state \<Rightarrow> rc_state" where
  "atomic_tick now h s =
     (case closure_of (rc_atomicTimers s) h of
        None \<Rightarrow> s
      | Some (counter, threadIndex) \<Rightarrow>
          if threadIndex \<ge> length rc_threadOrder then
            s\<lparr>rc_atomicTimers := clearRef (rc_atomicInterval s) (rc_atomicTimers s),
              rc_atomicThreads := map (\<lambda>t. t\<lparr>rct_step := RcDone\<rparr>) (rc_atomicThreads s),
              rc_atomicRunning := False\<rparr>
          else
            (let currentThread = rc_threadOrder ! threadIndex;
                 counter' = counter + 1;
                 s1 = s\<lparr>rc_atomicThreads :=
                        map (\<lambda>t. if rct_id t = currentThread
                                  then t\<lparr>rct_step := RcWriting,
                                         rct_localValue := Some (Num (counter' + 1))\<rparr>
                                  else t) (rc_atomicThreads s)\<rparr>;
                 s2 = s1\<lparr>rc_atomicCounter := counter'\<rparr>;
                 s3 = s2\<lparr>rc_atomicLog := rc_atomicLog s2 @
                        [\<lparr>rle_threadId = currentThread,
                          rle_action = ''Atomic increment '' @ right_arrow @ '' '' @ show_int counter',
                          rle_val = Num counter', rle_timestamp = now,
                          rle_isLostUpdate = None\<rparr>]\<rparr>
             in s3\<lparr>rc_atomicTimers :=
                     set_closure h (counter', threadIndex + 1) (rc_atomicTimers s3)\<rparr>))"

definition atomic_ticks :: "handle \<Rightarrow> int list \<Rightarrow> rc_state \<Rightarrow> rc_state" where
  "atomic_ticks h nows s = fold (\<lambda>now. atomic_tick now h) nows s"

definition resetAll :: "rc_state \<Rightarrow> rc_state" where
  "resetAll s =
     s\<lparr>rc_unsafeTimers := clearRef (rc_unsafeInterval s) (rc_unsafeTimers s),
       rc_atomicTimers := clearRef (rc_atomicInterval s) (rc_atomicTimers s),
       rc_unsafeCounter := Num 0, rc_atomicCounter := 0, rc_unsafeLog := [], rc_atomicLog := [],
       rc_lostUpdates := 0, rc_unsafeRunning := False, rc_atomicRunning := False,
       rc_unsafeThreads := rc_threads0, rc_atomicThreads := rc_threads0\<rparr>"

text \<open>The button "Run Both Demos".\<close>

definition runBothDemos :: "rc_state \<Rightarrow> rc_state" where
  "runBothDemos s = runAtomicDemo (runUnsafeDemo s)"

text \<open>A firing of one of the page's two intervals, with the reading of \<open>Date.now()\<close>.\<close>

datatype rc_event = UnsafeFires int | AtomicFires int

fun rc_fire :: "handle \<Rightarrow> handle \<Rightarrow> rc_event \<Rightarrow> rc_state \<Rightarrow> rc_state" where
  "rc_fire hu ha (UnsafeFires now) s = unsafe_tick now hu s"
| "rc_fire hu ha (AtomicFires now) s = atomic_tick now ha s"

definition rc_fires :: "handle \<Rightarrow> handle \<Rightarrow> rc_event list \<Rightarrow> rc_state \<Rightarrow> rc_state" where
  "rc_fires hu ha evs s = fold (rc_fire hu ha) evs s"

text \<open>
  The order in which the two intervals fire after "Run Both Demos": the unsafe one every
  600 ms, ten times, and the atomic one every 800 ms, four times.
\<close>

definition rc_both_schedule :: "rc_event list" where
  "rc_both_schedule =
     [UnsafeFires 600, AtomicFires 800, UnsafeFires 1200, AtomicFires 1600, UnsafeFires 1800,
      UnsafeFires 2400, AtomicFires 2400, UnsafeFires 3000, AtomicFires 3200, UnsafeFires 3600,
      UnsafeFires 4200, UnsafeFires 4800, UnsafeFires 5400, UnsafeFires 6000]"

section \<open>Producer-consumer page\<close>

datatype pc_item_status = ItProducing | ItInQueue | ItConsuming | ItConsumed

record pc_item =
  pci_id :: int
  pci_color :: string
  pci_producedBy :: int
  pci_status :: pc_item_status

datatype pc_kind = Producer | Consumer

datatype pc_status = PcIdle | PcWorking | PcBlocked | PcDone

record pc_thread =
  pct_id :: int
  pct_name :: string
  pct_type :: pc_kind
  pct_status :: pc_status
  pct_currentItem :: "int option"

definition BUFFER_SIZE :: nat where
  "BUFFER_SIZE = 5"

definition pc_COLORS :: "string list" where
  "pc_COLORS =
     [''#ef4444'', ''#f97316'', ''#eab308'', ''#22c55e'', ''#3b82f6'', ''#8b5cf6'', ''#ec4899'']"

text \<open>The local variables of \<open>runSimulation\<close> that its interval closes over.\<close>

record pc_closure =
  localItemCounter :: int
  localQueue :: "pc_item list"
  localProduced :: int
  localConsumed :: int

text \<open>
  The callbacks that the tick hands to \<open>setTimeout\<close>: a worker goes back to idle 400 ms
  after it worked, and a blocked worker 600 ms after it was blocked, if it still is.
  They wait in \<open>pc_timeouts\<close> until they fire; nothing cancels them.
\<close>

datatype pc_timeout =
  ProducerIdle int | ProducerUnblock int | ConsumerIdle int | ConsumerUnblock int

record pc_state =
  pc_isRunning :: bool
  pc_isPaused :: bool
  pc_queue :: "pc_item list"
  pc_produced :: int
  pc_consumed :: int
  pc_logs :: "string list"
  pc_itemCounter :: int
  pc_producers :: "pc_thread list"
  pc_consumers :: "pc_thread list"
  pc_intervalRef :: "handle option"
  pc_pauseRef :: bool
  pc_timers :: "pc_closure timers"
  pc_timeouts :: "pc_timeout list"

definition pc_producers0 :: "pc_thread list" where
  "pc_producers0 =
     [\<lparr>pct_id = 1, pct_name = ''Producer 1'', pct_type = Producer, pct_status = PcIdle,
       pct_currentItem = None\<rparr>,
      \<lparr>pct_id = 2, pct_name = ''Producer 2'', pct_type = Producer, pct_status = PcIdle,
       pct_currentItem = None\<rparr>]"

definition pc_consumers0 :: "pc_thread list" where
  "pc_consumers0 =
     [\<lparr>pct_id = 1, pct_name = ''Consumer 1'', pct_type = Consumer, pct_status = PcIdle,
       pct_currentItem = None\<rparr>,
      \<lparr>pct_id = 2, pct_name = ''Consumer 2'', pct_type = Consumer, pct_status = PcIdle,
       pct_currentItem = None\<rparr>]"

definition pc_init :: pc_state where
  "pc_init =
     \<lparr>pc_isRunning = False, pc_isPaused = False, pc_queue = [], pc_produced = 0,
      pc_consumed = 0, pc_logs = [], pc_itemCounter = 0,
      pc_producers = pc_producers0, pc_consumers = pc_consumers0,
      pc_intervalRef = None, pc_pauseRef = False, pc_timers = no_timers, pc_timeouts = []\<rparr>"

datatype pc_log_type = LtProduce | LtConsume | LtBlocked | LtInfo

definition pc_colors :: "pc_log_type \<Rightarrow> string" where
  "pc_colors ty =
     (case ty of LtProduce \<Rightarrow> ''text-green-400'' | LtConsume \<Rightarrow> ''text-blue-400''
      | LtBlocked \<Rightarrow> ''text-yellow-400'' | LtInfo \<Rightarrow> ''text-slate-400'')"

definition span_line :: "string \<Rightarrow> string \<Rightarrow> string \<Rightarrow> string" where
  \<comment> \<open>\<open><span class="${colour}">[${time}] ${message}</span>\<close>\<close>
  "span_line colour now message =
     ''<span class='' @ [CHR 0x22] @ colour @ [CHR 0x22] @ ''>['' @ now @ ''] '' @ message @ ''</span>''"

definition pc_addLog :: "string \<Rightarrow> string \<Rightarrow> pc_log_type \<Rightarrow> pc_state \<Rightarrow> pc_state" where
  "pc_addLog now message ty s =
     s\<lparr>pc_logs := slice1 (- 12) (pc_logs s) @ [span_line (pc_colors ty) now message]\<rparr>"

definition pc_reset :: "pc_state \<Rightarrow> pc_state" where
  "pc_reset s =
     s\<lparr>pc_timers := clearRef (pc_intervalRef s) (pc_timers s),
       pc_isRunning := False, pc_isPaused := False, pc_pauseRef := False,
       pc_queue := [], pc_produced := 0, pc_consumed := 0, pc_logs := [], pc_itemCounter := 0,
       pc_producers := pc_producers0, pc_consumers := pc_consumers0\<rparr>"

definition pc_runSimulation :: "pc_state \<Rightarrow> pc_state" where
  "pc_runSimulation s =
     (let s1 = pc_reset s;
          s2 = s1\<lparr>pc_isRunning := True\<rparr>
      in s2\<lparr>pc_intervalRef := Some (next_handle (pc_timers s2)),
             pc_timers :=
               setInterval
                 \<lparr>localItemCounter = 0, localQueue = [], localProduced = 0, localConsumed = 0\<rparr>
                 (pc_timers s2)\<rparr>)"

text \<open>The producer branch of the tick, for the producer the second draw chose.\<close>

definition pc_produce :: "string \<Rightarrow> int \<Rightarrow> pc_closure \<times> pc_state \<Rightarrow> pc_closure \<times> pc_state" where
  "pc_produce now producerId cs =
     (let c = fst cs; s = snd cs in
      if length (localQueue c) < BUFFER_SIZE then
        (let counter = localItemCounter c + 1;
             newItem = \<lparr>pci_id = counter,
                        pci_color = pc_COLORS ! nat (counter mod int (length pc_COLORS)),
                        pci_producedBy = producerId, pci_status = ItInQueue\<rparr>;
             c' = c\<lparr>localItemCounter := counter, localQueue := localQueue c @ [newItem],
                    localProduced := localProduced c + 1\<rparr>;
             s1 = s\<lparr>pc_queue := localQueue c', pc_produced := localProduced c',
                    pc_itemCounter := counter,
                    pc_producers :=
                      map (\<lambda>p. if pct_id p = producerId
                                then p\<lparr>pct_status := PcWorking, pct_currentItem := Some counter\<rparr>
                                else p) (pc_producers s)\<rparr>;
             s2 = pc_addLog now
                    (''Producer '' @ show_int producerId @ '': Produced item #'' @ show_int counter)
                    LtProduce s1
         in (c', s2\<lparr>pc_timeouts := pc_timeouts s2 @ [ProducerIdle producerId]\<rparr>))
      else
        (let s1 = s\<lparr>pc_producers :=
                      map (\<lambda>p. if pct_id p = producerId then p\<lparr>pct_status := PcBlocked\<rparr> else p)
                        (pc_producers s)\<rparr>;
             s2 = pc_addLog now
                    (''Producer '' @ show_int producerId @ '': BLOCKED - Queue full!'') LtBlocked s1
         in (c, s2\<lparr>pc_timeouts := pc_timeouts s2 @ [ProducerUnblock producerId]\<rparr>)))"

text \<open>The consumer branch of the tick, for the consumer the fourth draw chose.\<close>

definition pc_consume :: "string \<Rightarrow> int \<Rightarrow> pc_closure \<times> pc_state \<Rightarrow> pc_closure \<times> pc_state" where
  "pc_consume now consumerId cs =
     (let c = fst cs; s = snd cs in
      case localQueue c of
        item # rest \<Rightarrow>
          (let c' = c\<lparr>localQueue := slice1 1 (localQueue c),
                      localConsumed := localConsumed c + 1\<rparr>;
               s1 = s\<lparr>pc_queue := localQueue c', pc_consumed := localConsumed c',
                      pc_consumers :=
                        map (\<lambda>p. if pct_id p = consumerId
                                  then p\<lparr>pct_status := PcWorking,
                                         pct_currentItem := Some (pci_id item)\<rparr>
                                  else p) (pc_consumers s)\<rparr>;
               s2 = pc_addLog now
                      (''Consumer '' @ show_int consumerId @ '': Consumed item #'' @
                       show_int (pci_id item)) LtConsume s1
           in (c', s2\<lparr>pc_timeouts := pc_timeouts s2 @ [ConsumerIdle consumerId]\<rparr>))
      | [] \<Rightarrow>
          (let s1 = s\<lparr>pc_consumers :=
                        map (\<lambda>p. if pct_id p = consumerId then p\<lparr>pct_status := PcBlocked\<rparr> else p)
                          (pc_consumers s)\<rparr>;
               s2 = pc_addLog now
                      (''Consumer '' @ show_int consumerId @ '': BLOCKED - Queue empty!'')
                      LtBlocked s1
           in (c, s2\<lparr>pc_timeouts := pc_timeouts s2 @ [ConsumerUnblock consumerId]\<rparr>)))"

text \<open>
  The four readings of \<open>Math.random()\<close> of one firing, in the order of the code: whether
  a producer acts, which one, whether a consumer acts, which one. The second and the
  fourth are only drawn when the first and the third pass their thresholds.
\<close>

record pc_draws =
  draw_produce :: real
  draw_producer :: real
  draw_consume :: real
  draw_consumer :: real

definition pc_tick :: "string \<Rightarrow> pc_draws \<Rightarrow> handle \<Rightarrow> pc_state \<Rightarrow> pc_state" where
  "pc_tick now d h s =
     (case closure_of (pc_timers s) h of
        None \<Rightarrow> s
      | Some c \<Rightarrow>
          if pc_pauseRef s then s
          else
            (let cs1 = (if draw_produce d > 0.4
                        then pc_produce now (if draw_producer d > 0.5 then 1 else 2) (c, s)
                        else (c, s));
                 cs2 = (if draw_consume d > 0.3
                        then pc_consume now (if draw_consumer d > 0.5 then 1 else 2) cs1
                        else cs1)
             in (snd cs2)\<lparr>pc_timers := set_closure h (fst cs2) (pc_timers (snd cs2))\<rparr>))"

definition pc_togglePause :: "pc_state \<Rightarrow> pc_state" where
  "pc_togglePause s = s\<lparr>pc_isPaused := \<not> pc_isPaused s, pc_pauseRef := \<not> pc_pauseRef s\<rparr>"

definition pc_run_timeout :: "pc_timeout \<Rightarrow> pc_state \<Rightarrow> pc_state" where
  "pc_run_timeout t s =
     (case t of
        ProducerIdle i \<Rightarrow>
          s\<lparr>pc_producers :=
              map (\<lambda>p. if pct_id p = i then p\<lparr>pct_status := PcIdle, pct_currentItem := None\<rparr>
                        else p) (pc_producers s)\<rparr>
      | ProducerUnblock i \<Rightarrow>
          s\<lparr>pc_producers :=
              map (\<lambda>p. if pct_id p = i \<and> pct_status p = PcBlocked then p\<lparr>pct_status := PcIdle\<rparr>
                        else p) (pc_producers s)\<rparr>
      | ConsumerIdle i \<Rightarrow>
          s\<lparr>pc_consumers :=
              map (\<lambda>p. if pct_id p = i then p\<lparr>pct_status := PcIdle, pct_currentItem := None\<rparr>
                        else p) (pc_consumers s)\<rparr>
      | ConsumerUnblock i \<Rightarrow>
          s\<lparr>pc_consumers :=
              map (\<lambda>p. if pct_id p = i \<and> pct_status p = PcBlocked then p\<lparr>pct_status := PcIdle\<rparr>
                        else p) (pc_consumers s)\<rparr>)"

text \<open>The \<open>n\<close>-th waiting timeout fires (nothing happens when there is none).\<close>

definition pc_timeout_fires :: "nat \<Rightarrow> pc_state \<Rightarrow> pc_state" where
  "pc_timeout_fires n s =
     (if n < length (pc_timeouts s)
      then pc_run_timeout (pc_timeouts s ! n)
             (s\<lparr>pc_timeouts := take n (pc_timeouts s) @ drop (Suc n) (pc_timeouts s)\<rparr>)
      else s)"

text \<open>Everything that can happen to the page.\<close>

datatype pc_event =
  PcStart | PcReset | PcTogglePause | PcTick string pc_draws handle | PcTimeout nat

fun pc_apply :: "pc_event \<Rightarrow> pc_state \<Rightarrow> pc_state" where
  "pc_apply PcStart s = pc_runSimulation s"
| "pc_apply PcReset s = pc_reset s"
| "pc_apply PcTogglePause s = pc_togglePause s"
| "pc_apply (PcTick now d h) s = pc_tick now d h s"
| "pc_apply (PcTimeout n) s = pc_timeout_fires n s"

definition pc_exec :: "pc_event list \<Rightarrow> pc_state \<Rightarrow> pc_state" where
  "pc_exec evs s = fold pc_apply evs s"

section \<open>Semaphore page\<close>

datatype sem_status = SemWaiting | SemProcessing | SemCompleted | SemRejected

record sem_request =
  req_id :: int
  req_status :: sem_status
  req_color :: string
  req_progress :: real

definition sem_COLORS :: "string list" where
  "sem_COLORS =
     [''#ef4444'', ''#f97316'', ''#eab308'', ''#22c55e'', ''#3b82f6'', ''#8b5cf6'', ''#ec4899'']"

text \<open>
  The state values that \<open>spawnRequest\<close> and the interval callback read from the render
  scope. A handler created by a render sees that render's values: the Add Request button
  calls the \<open>spawnRequest\<close> of the current render; the interval callback, and the
  \<open>spawnRequest\<close> it calls, belong to the render in which \<open>runSimulation\<close> was called.
\<close>

record sem_view =
  v_maxPermits :: int
  v_availablePermits :: int
  v_waitingRequests :: "sem_request list"
  v_requestCounter :: int
  v_autoSpawn :: bool

record sem_state =
  sem_isRunning :: bool
  sem_isPaused :: bool
  sem_maxPermits :: int
  sem_availablePermits :: int
  sem_waitingRequests :: "sem_request list"
  sem_activeRequests :: "sem_request list"
  sem_completedCount :: int
  sem_rejectedCount :: int
  sem_logs :: "string list"
  sem_requestCounter :: int
  sem_autoSpawn :: bool
  sem_intervalRef :: "handle option"
  sem_pauseRef :: bool
  sem_timers :: "sem_view timers"

definition sem_init :: sem_state where
  "sem_init =
     \<lparr>sem_isRunning = False, sem_isPaused = False, sem_maxPermits = 3, sem_availablePermits = 3,
      sem_waitingRequests = [], sem_activeRequests = [], sem_completedCount = 0,
      sem_rejectedCount = 0, sem_logs = [], sem_requestCounter = 0, sem_autoSpawn = True,
      sem_intervalRef = None, sem_pauseRef = False, sem_timers = no_timers\<rparr>"

definition sem_render :: "sem_state \<Rightarrow> sem_view" where
  \<comment> \<open>what a handler of the current render sees\<close>
  "sem_render s =
     \<lparr>v_maxPermits = sem_maxPermits s, v_availablePermits = sem_availablePermits s,
      v_waitingRequests = sem_waitingRequests s, v_requestCounter = sem_requestCounter s,
      v_autoSpawn = sem_autoSpawn s\<rparr>"

datatype sem_log_type = SlAcquired | SlReleased | SlRejected | SlInfo

definition sem_colors :: "sem_log_type \<Rightarrow> string" where
  "sem_colors ty =
     (case ty of SlAcquired \<Rightarrow> ''text-green-400'' | SlReleased \<Rightarrow> ''text-blue-400''
      | SlRejected \<Rightarrow> ''text-red-400'' | SlInfo \<Rightarrow> ''text-slate-400'')"

definition sem_addLog :: "string \<Rightarrow> string \<Rightarrow> sem_log_type \<Rightarrow> sem_state \<Rightarrow> sem_state" where
  "sem_addLog now message ty s =
     s\<lparr>sem_logs := slice1 (- 12) (sem_logs s) @ [span_line (sem_colors ty) now message]\<rparr>"

definition sem_reset :: "sem_state \<Rightarrow> sem_state" where
  "sem_reset s =
     s\<lparr>sem_timers := clearRef (sem_intervalRef s) (sem_timers s),
       sem_isRunning := False, sem_isPaused := False, sem_pauseRef := False,
       sem_availablePermits := sem_maxPermits s, sem_waitingRequests := [],
       sem_activeRequests := [], sem_completedCount := 0, sem_rejectedCount := 0,
       sem_logs := [], sem_requestCounter := 0\<rparr>"

text \<open>
  \<open>spawnRequest\<close> as the render with the values \<open>v\<close> created it. The request counter is
  never negative, so the colour index is its remainder modulo 7.
\<close>

definition spawnRequest :: "string \<Rightarrow> sem_view \<Rightarrow> sem_state \<Rightarrow> sem_state" where
  "spawnRequest now v s =
     (let newRequest =
            \<lparr>req_id = v_requestCounter v + 1, req_status = SemWaiting,
             req_color = sem_COLORS ! nat (v_requestCounter v mod int (length sem_COLORS)),
             req_progress = 0\<rparr>;
          s1 = s\<lparr>sem_requestCounter := sem_requestCounter s + 1\<rparr>
      in if v_availablePermits v > 0 then
           (let s2 = s1\<lparr>sem_availablePermits := sem_availablePermits s1 - 1\<rparr>;
                s3 = s2\<lparr>sem_activeRequests :=
                       sem_activeRequests s2 @ [newRequest\<lparr>req_status := SemProcessing\<rparr>]\<rparr>
            in sem_addLog now
                 (''Request #'' @ show_int (req_id newRequest) @ '': Acquired permit ('' @
                  show_int (v_availablePermits v - 1) @ '' left)'') SlAcquired s3)
         else if length (v_waitingRequests v) < 10 then
           (let s2 = s1\<lparr>sem_waitingRequests := sem_waitingRequests s1 @ [newRequest]\<rparr>
            in sem_addLog now
                 (''Request #'' @ show_int (req_id newRequest) @ '': Waiting for permit...'')
                 SlInfo s2)
         else
           (let s2 = s1\<lparr>sem_rejectedCount := sem_rejectedCount s1 + 1\<rparr>
            in sem_addLog now
                 (''Request #'' @ show_int (req_id newRequest) @ '': REJECTED - Queue full!'')
                 SlRejected s2))"

text \<open>The Add Request button.\<close>

definition sem_addRequest :: "string \<Rightarrow> sem_state \<Rightarrow> sem_state" where
  "sem_addRequest now s = spawnRequest now (sem_render s) s"

definition sem_runSimulation :: "sem_state \<Rightarrow> sem_state" where
  "sem_runSimulation s =
     (let s1 = sem_reset s;
          s2 = s1\<lparr>sem_isRunning := True\<rparr>
      in s2\<lparr>sem_intervalRef := Some (next_handle (sem_timers s2)),
             sem_timers := setInterval (sem_render s) (sem_timers s2)\<rparr>)"

text \<open>
  The \<open>forEach\<close> over the active requests in the updater of \<open>setActiveRequests\<close>: the
  \<open>k\<close>-th reading of \<open>Math.random()\<close> of the firing advances a request. The result is
  \<open>(stillActive, completed)\<close>.
\<close>

fun sem_progress ::
  "rounding \<Rightarrow> (nat \<Rightarrow> real) \<Rightarrow> nat \<Rightarrow> sem_request list \<Rightarrow>
   sem_request list \<times> sem_request list"
where
  "sem_progress fl rnd k [] = ([], [])"
| "sem_progress fl rnd k (r # rs) =
     (let newProgress =
            fl_add fl (req_progress r) (fl_div fl 100 (fl_add fl (fl_mul fl (rnd k) 3) 2));
          (stillActive, completed) = sem_progress fl rnd (Suc k) rs
      in if newProgress \<ge> 100
         then (stillActive, r\<lparr>req_status := SemCompleted, req_progress := 100\<rparr> # completed)
         else (r\<lparr>req_progress := newProgress\<rparr> # stillActive, completed))"

definition sem_release :: "string \<Rightarrow> sem_view \<Rightarrow> sem_request \<Rightarrow> sem_state \<Rightarrow> sem_state" where
  \<comment> \<open>the body of \<open>completed.forEach\<close>\<close>
  "sem_release now v r s =
     (let s1 = s\<lparr>sem_availablePermits := min (sem_availablePermits s + 1) (v_maxPermits v)\<rparr>;
          s2 = s1\<lparr>sem_completedCount := sem_completedCount s1 + 1\<rparr>
      in sem_addLog now
           (''Request #'' @ show_int (req_id r) @ '': '' @ check_mark @ '' Completed, released permit'')
           SlReleased s2)"

text \<open>
  The \<open>filter\<close> over the waiting requests in the updater of \<open>setWaitingRequests\<close>, with
  its counter \<open>tempPermits\<close>. The result is \<open>(remaining, promoting, tempPermits)\<close>.
\<close>

fun sem_promote ::
  "sem_request list \<Rightarrow> int \<Rightarrow> sem_request list \<times> sem_request list \<times> int"
where
  "sem_promote [] tempPermits = ([], [], tempPermits)"
| "sem_promote (r # rs) tempPermits =
     (if tempPermits > 0 then
        (let (remaining, promoting, t) = sem_promote rs (tempPermits - 1)
         in (remaining, r\<lparr>req_status := SemProcessing\<rparr> # promoting, t))
      else
        (let (remaining, promoting, t) = sem_promote rs tempPermits
         in (r # remaining, promoting, t)))"

definition sem_promoted_log :: "string \<Rightarrow> sem_request \<Rightarrow> sem_state \<Rightarrow> sem_state" where
  \<comment> \<open>the \<open>addLog\<close> inside the \<open>filter\<close>\<close>
  "sem_promoted_log now r s =
     sem_addLog now (''Request #'' @ show_int (req_id r) @ '': Acquired permit'') SlAcquired s"

text \<open>
  One firing of the interval. \<open>rnd k\<close> is the \<open>k\<close>-th reading of \<open>Math.random()\<close>, a
  number from 0 up to but not including 1; \<open>now\<close> is the clock when React renders.

  The callback queues the updater of \<open>activeRequests\<close> and the one of
  \<open>waitingRequests\<close>, and then, with auto-spawn on, reads \<open>Math.random()\<close> and may call
  \<open>spawnRequest\<close>; this is the first reading of the firing, since the updaters run
  later. The fields are declared in the order \<open>availablePermits\<close>, \<open>waitingRequests\<close>,
  \<open>activeRequests\<close>, \<open>completedCount\<close>, \<open>rejectedCount\<close>, \<open>logs\<close>,
  \<open>requestCounter\<close>. So:

  \<^item> \<open>activeRequests\<close> receives the result of its updater, then the request
    \<open>spawnRequest\<close> admitted, then the promoted requests;
  \<^item> \<open>waitingRequests\<close> receives the result of its updater, then the request
    \<open>spawnRequest\<close> queued;
  \<^item> \<open>logs\<close> receives the line of \<open>spawnRequest\<close>, then the lines of the promoted
    requests (the updater of \<open>waitingRequests\<close> runs first), then those of the completed
    ones;
  \<^item> \<open>availablePermits\<close> receives the decrement of \<open>spawnRequest\<close> in the first pass
    and, in the second, \<open>tempPermits\<close> and then the increments for the completed
    requests.
\<close>

definition sem_tick ::
  "rounding \<Rightarrow> string \<Rightarrow> (nat \<Rightarrow> real) \<Rightarrow> handle \<Rightarrow> sem_state \<Rightarrow> sem_state"
where
  "sem_tick fl now rnd h s =
     (case closure_of (sem_timers s) h of
        None \<Rightarrow> s
      | Some v \<Rightarrow>
          if sem_pauseRef s then s
          else
            (let spawn = (v_autoSpawn v \<and> rnd 0 > 0.6);
                 k = (if v_autoSpawn v then 1 else 0);
                 (stillActive, completed) = sem_progress fl rnd k (sem_activeRequests s);
                 (remaining, promoting, tempPermits) =
                   (if sem_waitingRequests s = [] then ([], [], v_availablePermits v)
                    else sem_promote (sem_waitingRequests s) (v_availablePermits v));
                 s1 = s\<lparr>sem_activeRequests := stillActive, sem_waitingRequests := remaining\<rparr>;
                 s2 = (if spawn then spawnRequest now v s1 else s1);
                 s3 = fold (sem_promoted_log now) promoting s2;
                 s4 = (if promoting \<noteq> []
                       then s3\<lparr>sem_activeRequests := sem_activeRequests s3 @ promoting,
                               sem_availablePermits := tempPermits\<rparr>
                       else s3)
             in fold (sem_release now v) completed s4))"

definition sem_togglePause :: "sem_state \<Rightarrow> sem_state" where
  "sem_togglePause s = s\<lparr>sem_isPaused := \<not> sem_isPaused s, sem_pauseRef := \<not> sem_pauseRef s\<rparr>"

definition updateMaxPermits :: "int \<Rightarrow> sem_state \<Rightarrow> sem_state" where
  "updateMaxPermits delta s =
     (if \<not> sem_isRunning s then
        (let newMax = max 1 (min 8 (sem_maxPermits s + delta))
         in s\<lparr>sem_maxPermits := newMax, sem_availablePermits := newMax\<rparr>)
      else s)"

definition setAutoSpawn :: "bool \<Rightarrow> sem_state \<Rightarrow> sem_state" where
  "setAutoSpawn b s = s\<lparr>sem_autoSpawn := b\<rparr>"

text \<open>
  Everything that can happen to the semaphore page. The Start button is there while the
  page is not running, the pause button while it is; Add Request is disabled while the
  page is not running or paused.
\<close>

datatype sem_event =
  SemStart | SemReset | SemTogglePause | SemAddRequest string
  | SemTick string "nat \<Rightarrow> real" handle | SemMaxPermits int | SemAutoSpawn bool

fun sem_apply :: "rounding \<Rightarrow> sem_event \<Rightarrow> sem_state \<Rightarrow> sem_state" where
  "sem_apply fl SemStart s = (if \<not> sem_isRunning s then sem_runSimulation s else s)"
| "sem_apply fl SemReset s = sem_reset s"
| "sem_apply fl SemTogglePause s = (if sem_isRunning s then sem_togglePause s else s)"
| "sem_apply fl (SemAddRequest now) s =
     (if sem_isRunning s \<and> \<not> sem_isPaused s then sem_addRequest now s else s)"
| "sem_apply fl (SemTick now rnd h) s = sem_tick fl now rnd h s"
| "sem_apply fl (SemMaxPermits delta) s = updateMaxPermits delta s"
| "sem_apply fl (SemAutoSpawn b) s = setAutoSpawn b s"

definition sem_exec :: "rounding \<Rightarrow> sem_event list \<Rightarrow> sem_state \<Rightarrow> sem_state" where
  "sem_exec fl evs s = fold (sem_apply fl) evs s"

section \<open>Starvation page\<close>

datatype sv_priority = High | Medium | Low

datatype sv_status = SvRunning | SvWaiting | SvStarving

record sv_thread =
  svt_id :: int
  svt_name :: string
  svt_priority :: sv_priority
  svt_status :: sv_status
  svt_waitTime :: int
  svt_executionTime :: int
  svt_color :: string

datatype sv_scenario = Unfair | Fair

text \<open>
  The closure of the interval: the local \<open>localTick\<close>, and the values of \<open>scenario\<close>,
  \<open>lockHolder\<close> and \<open>tick\<close> (read by \<open>addLog\<close>) in the render that started the run.
\<close>

record sv_closure =
  localTick :: int
  c_scenario :: sv_scenario
  c_lockHolder :: "int option"
  c_tick :: int

record sv_state =
  sv_showExplanation :: bool
  sv_isRunning :: bool
  sv_isPaused :: bool
  sv_scenario :: sv_scenario
  sv_threads :: "sv_thread list"
  sv_currentThread :: "sv_thread option"
  sv_logs :: "string list"
  sv_lockHolder :: "int option"
  sv_tick :: int
  sv_intervalRef :: "handle option"
  sv_pauseRef :: bool
  sv_timers :: "sv_closure timers"

definition sv_init :: sv_state where
  "sv_init =
     \<lparr>sv_showExplanation = True, sv_isRunning = False, sv_isPaused = False,
      sv_scenario = Unfair, sv_threads = [], sv_currentThread = None, sv_logs = [],
      sv_lockHolder = None, sv_tick = 0,
      sv_intervalRef = None, sv_pauseRef = False, sv_timers = no_timers\<rparr>"

definition initThreads :: "sv_thread list" where
  "initThreads =
     [\<lparr>svt_id = 1, svt_name = ''High Priority 1'', svt_priority = High, svt_status = SvWaiting,
       svt_waitTime = 0, svt_executionTime = 0, svt_color = ''#ef4444''\<rparr>,
      \<lparr>svt_id = 2, svt_name = ''High Priority 2'', svt_priority = High, svt_status = SvWaiting,
       svt_waitTime = 0, svt_executionTime = 0, svt_color = ''#f97316''\<rparr>,
      \<lparr>svt_id = 3, svt_name = ''Medium Priority'', svt_priority = Medium, svt_status = SvWaiting,
       svt_waitTime = 0, svt_executionTime = 0, svt_color = ''#eab308''\<rparr>,
      \<lparr>svt_id = 4, svt_name = ''Low Priority 1'', svt_priority = Low, svt_status = SvWaiting,
       svt_waitTime = 0, svt_executionTime = 0, svt_color = ''#22c55e''\<rparr>,
      \<lparr>svt_id = 5, svt_name = ''Low Priority 2'', svt_priority = Low, svt_status = SvWaiting,
       svt_waitTime = 0, svt_executionTime = 0, svt_color = ''#3b82f6''\<rparr>]"

definition sv_addLog :: "int \<Rightarrow> string \<Rightarrow> sv_state \<Rightarrow> sv_state" where
  \<comment> \<open>\<open>tick\<close> is the value the calling handler captured\<close>
  "sv_addLog tick message s =
     s\<lparr>sv_logs := slice1 (- 12) (sv_logs s) @ [''['' @ show_int tick @ ''] '' @ message]\<rparr>"

definition sv_reset :: "sv_state \<Rightarrow> sv_state" where
  "sv_reset s =
     s\<lparr>sv_timers := clearRef (sv_intervalRef s) (sv_timers s),
       sv_isRunning := False, sv_isPaused := False, sv_pauseRef := False,
       sv_threads := initThreads, sv_currentThread := None, sv_logs := [],
       sv_lockHolder := None, sv_tick := 0\<rparr>"

definition sv_runSimulation :: "sv_state \<Rightarrow> sv_state" where
  "sv_runSimulation s =
     (let s1 = sv_reset s;
          s2 = s1\<lparr>sv_isRunning := True\<rparr>;
          s3 = s2\<lparr>sv_threads := initThreads\<rparr>
      in s3\<lparr>sv_intervalRef := Some (next_handle (sv_timers s3)),
             sv_timers :=
               setInterval
                 \<lparr>localTick = 0, c_scenario = sv_scenario s, c_lockHolder = sv_lockHolder s,
                  c_tick = sv_tick s\<rparr>
                 (sv_timers s3)\<rparr>)"

text \<open>The first \<open>map\<close> of the updater: waiting threads age, and starve after 20 ticks.\<close>

definition sv_age :: "sv_thread \<Rightarrow> sv_thread" where
  "sv_age t =
     t\<lparr>svt_waitTime :=
         (if svt_status t = SvWaiting \<or> svt_status t = SvStarving
          then svt_waitTime t + 1 else svt_waitTime t),
       svt_status :=
         (if svt_status t = SvWaiting \<and> svt_waitTime t > 20 then SvStarving else svt_status t)\<rparr>"

definition priorityOrder :: "sv_priority \<Rightarrow> int" where
  "priorityOrder p = (case p of High \<Rightarrow> 0 | Medium \<Rightarrow> 1 | Low \<Rightarrow> 2)"

text \<open>
  The comparators handed to \<open>sort\<close>. \<open>Math.floor\<close> of the quotient of two integers is
  \<open>div\<close>.
\<close>

definition sv_compare :: "sv_scenario \<Rightarrow> sv_thread \<Rightarrow> sv_thread \<Rightarrow> int" where
  "sv_compare scenario a b =
     (case scenario of
        Unfair \<Rightarrow> priorityOrder (svt_priority a) - priorityOrder (svt_priority b)
      | Fair \<Rightarrow>
          (let priorityDiff = priorityOrder (svt_priority a) - priorityOrder (svt_priority b);
               waitBonus = (svt_waitTime b - svt_waitTime a) div 10
           in priorityDiff - waitBonus))"

text \<open>
  \<open>Array.prototype.sort\<close> with a comparator is a stable sort: an insertion sort that
  puts an element in front of the first one it does not compare greater than. The
  result of the language's sort is fixed by that for the unfair comparator, which
  orders by one key; the fair comparator is not an ordering, and for it this is one of
  the results an engine may give.
\<close>

fun insort_cmp :: "('a \<Rightarrow> 'a \<Rightarrow> int) \<Rightarrow> 'a \<Rightarrow> 'a list \<Rightarrow> 'a list" where
  "insort_cmp cmp x [] = [x]"
| "insort_cmp cmp x (y # ys) = (if cmp x y \<le> 0 then x # y # ys else y # insort_cmp cmp x ys)"

definition sort_cmp :: "('a \<Rightarrow> 'a \<Rightarrow> int) \<Rightarrow> 'a list \<Rightarrow> 'a list" where
  "sort_cmp cmp xs = foldr (insort_cmp cmp) xs []"

text \<open>
  Threads are objects that the updater mutates in place after it has sorted references
  to them, so a thread is named by its index in the array. The selected thread is the
  first of the sorted threads that are not running.
\<close>

definition sv_select :: "sv_scenario \<Rightarrow> sv_thread list \<Rightarrow> nat option" where
  "sv_select scenario threads =
     (let waiting = filter (\<lambda>i. svt_status (threads ! i) \<noteq> SvRunning) [0..<length threads]
      in case sort_cmp (\<lambda>i j. sv_compare scenario (threads ! i) (threads ! j)) waiting of
           [] \<Rightarrow> None
         | i # _ \<Rightarrow> Some i)"

fun find_index :: "('a \<Rightarrow> bool) \<Rightarrow> 'a list \<Rightarrow> nat option" where
  "find_index P [] = None"
| "find_index P (x # xs) = (if P x then Some 0 else map_option Suc (find_index P xs))"

definition truthy :: "int option \<Rightarrow> bool" where
  \<comment> \<open>a \<open>number | null\<close> as a condition\<close>
  "truthy v = (case v of None \<Rightarrow> False | Some n \<Rightarrow> n \<noteq> 0)"

text \<open>
  One firing of the interval; \<open>rnd\<close> is the reading of \<open>Math.random()\<close>, drawn when a
  thread is running.
\<close>

definition sv_tick_fire :: "real \<Rightarrow> handle \<Rightarrow> sv_state \<Rightarrow> sv_state" where
  "sv_tick_fire rnd h s =
     (case closure_of (sv_timers s) h of
        None \<Rightarrow> s
      | Some c \<Rightarrow>
          if sv_pauseRef s then s
          else
            (let c' = c\<lparr>localTick := localTick c + 1\<rparr>;
                 s1 = s\<lparr>sv_tick := localTick c'\<rparr>;
                 threads = map sv_age (sv_threads s1);
                 selected = sv_select (c_scenario c) threads;
                 running = find_index (\<lambda>t. svt_status t = SvRunning) threads;
                 (threads1, s2) =
                   (case running of
                      Some r \<Rightarrow>
                        if rnd > 0.7 then
                          (threads[r := (threads ! r)\<lparr>svt_status := SvWaiting, svt_waitTime := 0\<rparr>],
                           (sv_addLog (c_tick c) (svt_name (threads ! r) @ '': Released lock'') s1)
                             \<lparr>sv_currentThread := None, sv_lockHolder := None\<rparr>)
                        else (threads, s1)
                    | None \<Rightarrow> (threads, s1));
                 (threads2, s3) =
                   (case selected of
                      Some i \<Rightarrow>
                        if \<not> truthy (c_lockHolder c) then
                          (let sel = (threads1 ! i)\<lparr>svt_status := SvRunning,
                                      svt_executionTime := svt_executionTime (threads1 ! i) + 1\<rparr>
                           in (threads1[i := sel],
                               sv_addLog (c_tick c)
                                 (svt_name sel @ '': Acquired lock'' @
                                  (if svt_waitTime sel > 20 then '' (was starving!)'' else ''''))
                                 (s2\<lparr>sv_currentThread := Some sel,
                                     sv_lockHolder := Some (svt_id sel)\<rparr>)))
                        else (threads1, s2)
                    | None \<Rightarrow> (threads1, s2))
             in s3\<lparr>sv_threads := threads2, sv_timers := set_closure h c' (sv_timers s3)\<rparr>))"

definition sv_togglePause :: "sv_state \<Rightarrow> sv_state" where
  "sv_togglePause s = s\<lparr>sv_isPaused := \<not> sv_isPaused s, sv_pauseRef := \<not> sv_pauseRef s\<rparr>"

definition sv_setScenario :: "sv_scenario \<Rightarrow> sv_state \<Rightarrow> sv_state" where
  \<comment> \<open>the two scenario buttons: \<open>!isRunning && setScenario(...)\<close>\<close>
  "sv_setScenario sc s = (if \<not> sv_isRunning s then s\<lparr>sv_scenario := sc\<rparr> else s)"

text \<open>Everything that can happen to the starvation page.\<close>

datatype sv_event =
  SvStart | SvReset | SvTogglePause | SvTick real handle | SvScenario sv_scenario

fun sv_apply :: "sv_event \<Rightarrow> sv_state \<Rightarrow> sv_state" where
  "sv_apply SvStart s = sv_runSimulation s"
| "sv_apply SvReset s = sv_reset s"
| "sv_apply SvTogglePause s = sv_togglePause s"
| "sv_apply (SvTick rnd h) s = sv_tick_fire rnd h s"
| "sv_apply (SvScenario sc) s = sv_setScenario sc s"

definition sv_exec :: "sv_event list \<Rightarrow> sv_state \<Rightarrow> sv_state" where
  "sv_exec evs s = fold sv_apply evs s"

section \<open>Thread pool page\<close>

datatype tp_task_status = TkQueued | TkProcessing | TkCompleted

record tp_task =
  tk_id :: int
  tk_duration :: int
  tk_status :: tp_task_status
  tk_assignedTo :: "int option"
  tk_progress :: real
  tk_color :: string

datatype tp_worker_status = WkIdle | WkBusy

record tp_worker =
  wk_id :: int
  wk_name :: string
  wk_status :: tp_worker_status
  wk_currentTask :: "int option"
  wk_completedTasks :: int

definition tp_COLORS :: "string list" where
  "tp_COLORS =
     [''#ef4444'', ''#f97316'', ''#eab308'', ''#22c55e'', ''#3b82f6'', ''#8b5cf6'', ''#ec4899'',
      ''#06b6d4'']"

text \<open>The interval callback of this page reads nothing from the render scope.\<close>

record tp_state =
  tp_isRunning :: bool
  tp_isPaused :: bool
  tp_workerCount :: int
  tp_taskQueue :: "tp_task list"
  tp_completedTasks :: "tp_task list"
  tp_workers :: "tp_worker list"
  tp_logs :: "string list"
  tp_taskCounter :: int
  tp_totalProcessed :: int
  tp_intervalRef :: "handle option"
  tp_pauseRef :: bool
  tp_timers :: "unit timers"

definition make_workers :: "int \<Rightarrow> tp_worker list" where
  \<comment> \<open>\<open>Array.from({ length: workerCount }, (_, i) => ...)\<close>\<close>
  "make_workers n =
     map (\<lambda>i. \<lparr>wk_id = int i + 1, wk_name = ''Worker '' @ show_int (int i + 1),
               wk_status = WkIdle, wk_currentTask = None, wk_completedTasks = 0\<rparr>)
       [0..<nat n]"

text \<open>The values the \<open>useState\<close> calls are given: the page is constructed without workers.\<close>

definition tp_constructed :: tp_state where
  "tp_constructed =
     \<lparr>tp_isRunning = False, tp_isPaused = False, tp_workerCount = 4, tp_taskQueue = [],
      tp_completedTasks = [], tp_workers = [], tp_logs = [], tp_taskCounter = 0,
      tp_totalProcessed = 0, tp_intervalRef = None, tp_pauseRef = False, tp_timers = no_timers\<rparr>"

text \<open>The effect on \<open>workerCount\<close>, which runs after mounting and after each change of it.\<close>

definition tp_workers_effect :: "tp_state \<Rightarrow> tp_state" where
  "tp_workers_effect s = s\<lparr>tp_workers := make_workers (tp_workerCount s)\<rparr>"

definition tp_init :: tp_state where
  "tp_init = tp_workers_effect tp_constructed"

definition tp_setWorkerCount :: "int \<Rightarrow> tp_state \<Rightarrow> tp_state" where
  \<comment> \<open>\<open>!isRunning && setWorkerCount(count)\<close>; the effect runs when the count changed\<close>
  "tp_setWorkerCount n s =
     (if \<not> tp_isRunning s \<and> n \<noteq> tp_workerCount s
      then tp_workers_effect (s\<lparr>tp_workerCount := n\<rparr>) else s)"

definition tp_addLog :: "string \<Rightarrow> string \<Rightarrow> tp_state \<Rightarrow> tp_state" where
  "tp_addLog now message s =
     s\<lparr>tp_logs := slice1 (- 15) (tp_logs s) @ [dl_line now message]\<rparr>"

definition tp_reset :: "tp_state \<Rightarrow> tp_state" where
  "tp_reset s =
     s\<lparr>tp_timers := clearRef (tp_intervalRef s) (tp_timers s),
       tp_isRunning := False, tp_isPaused := False, tp_pauseRef := False,
       tp_taskQueue := [], tp_completedTasks := [], tp_logs := [], tp_taskCounter := 0,
       tp_totalProcessed := 0, tp_workers := make_workers (tp_workerCount s)\<rparr>"

definition tp_new_task :: "rounding \<Rightarrow> int \<Rightarrow> real \<Rightarrow> tp_task" where
  \<comment> \<open>the task with the 0-based number \<open>k\<close>; \<open>rnd\<close> is its reading of \<open>Math.random()\<close>\<close>
  "tp_new_task fl k rnd =
     \<lparr>tk_id = k + 1, tk_duration = \<lfloor>fl_mul fl rnd 3\<rfloor> + 2, tk_status = TkQueued,
      tk_assignedTo = None,
      tk_progress = 0, tk_color = tp_COLORS ! nat (k mod int (length tp_COLORS))\<rparr>"

definition addTask :: "rounding \<Rightarrow> string \<Rightarrow> real \<Rightarrow> tp_state \<Rightarrow> tp_state" where
  "addTask fl now rnd s =
     (let newTask = tp_new_task fl (tp_taskCounter s) rnd;
          s1 = s\<lparr>tp_taskQueue := tp_taskQueue s @ [newTask]\<rparr>;
          s2 = s1\<lparr>tp_taskCounter := tp_taskCounter s1 + 1\<rparr>
      in tp_addLog now
           (''Task #'' @ show_int (tk_id newTask) @ '' added to queue ('' @
            show_int (tk_duration newTask) @ ''s)'') s2)"

definition addBatchTasks ::
  "rounding \<Rightarrow> string \<Rightarrow> (nat \<Rightarrow> real) \<Rightarrow> tp_state \<Rightarrow> tp_state"
where
  "addBatchTasks fl now rnd s =
     (let batch = map (\<lambda>i. tp_new_task fl (tp_taskCounter s + int i) (rnd i)) [0..<10];
          s1 = s\<lparr>tp_taskQueue := tp_taskQueue s @ batch\<rparr>;
          s2 = s1\<lparr>tp_taskCounter := tp_taskCounter s1 + 10\<rparr>
      in tp_addLog now ''Added batch of 10 tasks to queue'' s2)"

text \<open>\<open>runSimulation\<close> of this page raises the running flag and schedules the interval.\<close>

definition tp_runSimulation :: "tp_state \<Rightarrow> tp_state" where
  "tp_runSimulation s =
     (let s1 = s\<lparr>tp_isRunning := True\<rparr>
      in s1\<lparr>tp_intervalRef := Some (next_handle (tp_timers s1)),
             tp_timers := setInterval () (tp_timers s1)\<rparr>)"

text \<open>
  The loop state of \<open>newWorkers.forEach\<close>: the queue being rebuilt, the tasks completed
  in this firing, and the page state, which receives the log lines and the processed
  count.
\<close>

record tp_loop =
  newQueue :: "tp_task list"
  newCompleted :: "tp_task list"
  tp_page :: tp_state

text \<open>
  The body of the loop for one worker. Workers and tasks are objects changed in place;
  the worker is returned and the task is replaced in the queue at its index.
\<close>

definition tp_worker_step ::
  "rounding \<Rightarrow> string \<Rightarrow> tp_worker \<Rightarrow> tp_loop \<Rightarrow> tp_worker \<times> tp_loop"
where
  "tp_worker_step fl now w l =
     (let (w1, l1) =
            (if wk_status w = WkBusy \<and> truthy (wk_currentTask w) then
               (case find_index (\<lambda>t. Some (tk_id t) = wk_currentTask w) (newQueue l) of
                  None \<Rightarrow> (w, l)
                | Some taskIndex \<Rightarrow>
                    (let task0 = newQueue l ! taskIndex;
                         task = task0\<lparr>tk_progress :=
                                  fl_add fl (tk_progress task0)
                                    (fl_div fl (fl_div fl 100 (real_of_int (tk_duration task0))) 4)\<rparr>
                     in if tk_progress task \<ge> 100 then
                          (let done = task\<lparr>tk_status := TkCompleted, tk_progress := 100\<rparr>;
                               queue1 = (newQueue l)[taskIndex := done]
                           in (w\<lparr>wk_status := WkIdle, wk_currentTask := None,
                                 wk_completedTasks := wk_completedTasks w + 1\<rparr>,
                               l\<lparr>newCompleted := newCompleted l @ [done],
                                 newQueue := filter (\<lambda>t. tk_id t \<noteq> tk_id done) queue1,
                                 tp_page :=
                                   (let p = tp_addLog now
                                              (''Worker '' @ show_int (wk_id w) @ '': '' @ check_mark @
                                               '' Completed task #'' @ show_int (tk_id done))
                                              (tp_page l)
                                    in p\<lparr>tp_totalProcessed := tp_totalProcessed p + 1\<rparr>)\<rparr>))
                        else (w, l\<lparr>newQueue := (newQueue l)[taskIndex := task]\<rparr>)))
             else (w, l))
      in if wk_status w1 = WkIdle then
           (case find_index (\<lambda>t. tk_status t = TkQueued) (newQueue l1) of
              None \<Rightarrow> (w1, l1)
            | Some k \<Rightarrow>
                (let nextTask = (newQueue l1 ! k)\<lparr>tk_status := TkProcessing,
                                                 tk_assignedTo := Some (wk_id w1)\<rparr>
                 in (w1\<lparr>wk_status := WkBusy, wk_currentTask := Some (tk_id nextTask)\<rparr>,
                     l1\<lparr>newQueue := (newQueue l1)[k := nextTask],
                        tp_page := tp_addLog now
                                     (''Worker '' @ show_int (wk_id w1) @ '': Started task #'' @
                                      show_int (tk_id nextTask)) (tp_page l1)\<rparr>)))
         else (w1, l1))"

fun tp_workers_loop ::
  "rounding \<Rightarrow> string \<Rightarrow> tp_worker list \<Rightarrow> tp_loop \<Rightarrow> tp_worker list \<times> tp_loop"
where
  "tp_workers_loop fl now [] l = ([], l)"
| "tp_workers_loop fl now (w # ws) l =
     (let (w', l1) = tp_worker_step fl now w l;
          (ws', l2) = tp_workers_loop fl now ws l1
      in (w' # ws', l2))"

definition tp_tick :: "rounding \<Rightarrow> string \<Rightarrow> handle \<Rightarrow> tp_state \<Rightarrow> tp_state" where
  "tp_tick fl now h s =
     (case closure_of (tp_timers s) h of
        None \<Rightarrow> s
      | Some _ \<Rightarrow>
          if tp_pauseRef s then s
          else
            (let (newWorkers, l) =
                   tp_workers_loop fl now (tp_workers s)
                     \<lparr>newQueue = tp_taskQueue s, newCompleted = [], tp_page = s\<rparr>;
                 s1 = tp_page l;
                 s2 = (if newCompleted l \<noteq> []
                       then s1\<lparr>tp_completedTasks :=
                                slice1 (- 20) (tp_completedTasks s1 @ newCompleted l)\<rparr>
                       else s1);
                 s3 = s2\<lparr>tp_taskQueue := newQueue l\<rparr>
             in s3\<lparr>tp_workers := newWorkers\<rparr>))"

definition tp_togglePause :: "tp_state \<Rightarrow> tp_state" where
  "tp_togglePause s = s\<lparr>tp_isPaused := \<not> tp_isPaused s, tp_pauseRef := \<not> tp_pauseRef s\<rparr>"

text \<open>
  Everything that can happen to the thread pool page. The Start button is there while
  the page is not running, the pause button while it is; the two add buttons are
  disabled while the page is not running or paused.
\<close>

datatype tp_event =
  TpStart | TpReset | TpTogglePause | TpAddTask string real | TpAddBatch string "nat \<Rightarrow> real"
  | TpTick string handle | TpWorkerCount int

fun tp_apply :: "rounding \<Rightarrow> tp_event \<Rightarrow> tp_state \<Rightarrow> tp_state" where
  "tp_apply fl TpStart s = (if \<not> tp_isRunning s then tp_runSimulation s else s)"
| "tp_apply fl TpReset s = tp_reset s"
| "tp_apply fl TpTogglePause s = (if tp_isRunning s then tp_togglePause s else s)"
| "tp_apply fl (TpAddTask now rnd) s =
     (if tp_isRunning s \<and> \<not> tp_isPaused s then addTask fl now rnd s else s)"
| "tp_apply fl (TpAddBatch now rnd) s =
     (if tp_isRunning s \<and> \<not> tp_isPaused s then addBatchTasks fl now rnd s else s)"
| "tp_apply fl (TpTick now h) s = tp_tick fl now h s"
| "tp_apply fl (TpWorkerCount n) s = tp_setWorkerCount n s"

definition tp_exec :: "rounding \<Rightarrow> tp_event list \<Rightarrow> tp_state \<Rightarrow> tp_state" where
  "tp_exec fl evs s = fold (tp_apply fl) evs s"

section \<open>Reader-writer page\<close>

datatype rw_kind = RwReader | RwWriter

datatype rw_status = RwIdle | RwWaiting | RwActive | RwDone

record rw_thread =
  rwt_id :: int
  rwt_type :: rw_kind
  rwt_status :: rw_status
  rwt_startTime :: int

text \<open>
  The state values that \<open>addReader\<close>, \<open>addWriter\<close> and the interval callback read from
  the render scope.
\<close>

record rw_view =
  vw_activeWriter :: "rw_thread option"
  vw_activeReaders :: "rw_thread list"
  vw_waitingWriters :: "rw_thread list"
  vw_threadCounter :: int
  vw_dataVersion :: int

record rw_state =
  rw_isRunning :: bool
  rw_isPaused :: bool
  rw_activeReaders :: "rw_thread list"
  rw_activeWriter :: "rw_thread option"
  rw_waitingReaders :: "rw_thread list"
  rw_waitingWriters :: "rw_thread list"
  rw_completedReads :: int
  rw_completedWrites :: int
  rw_logs :: "string list"
  rw_threadCounter :: int
  rw_sharedData :: string
  rw_dataVersion :: int
  rw_intervalRef :: "handle option"
  rw_pauseRef :: bool
  rw_timers :: "rw_view timers"

definition rw_init :: rw_state where
  "rw_init =
     \<lparr>rw_isRunning = False, rw_isPaused = False, rw_activeReaders = [], rw_activeWriter = None,
      rw_waitingReaders = [], rw_waitingWriters = [], rw_completedReads = 0,
      rw_completedWrites = 0, rw_logs = [], rw_threadCounter = 0,
      rw_sharedData = ''Initial Value'', rw_dataVersion = 1,
      rw_intervalRef = None, rw_pauseRef = False, rw_timers = no_timers\<rparr>"

definition rw_render :: "rw_state \<Rightarrow> rw_view" where
  "rw_render s =
     \<lparr>vw_activeWriter = rw_activeWriter s, vw_activeReaders = rw_activeReaders s,
      vw_waitingWriters = rw_waitingWriters s, vw_threadCounter = rw_threadCounter s,
      vw_dataVersion = rw_dataVersion s\<rparr>"

datatype rw_log_type = RlRead | RlWrite | RlWait | RlInfo

definition rw_colors :: "rw_log_type \<Rightarrow> string" where
  "rw_colors ty =
     (case ty of RlRead \<Rightarrow> ''text-blue-400'' | RlWrite \<Rightarrow> ''text-orange-400''
      | RlWait \<Rightarrow> ''text-yellow-400'' | RlInfo \<Rightarrow> ''text-slate-400'')"

definition rw_addLog :: "string \<Rightarrow> string \<Rightarrow> rw_log_type \<Rightarrow> rw_state \<Rightarrow> rw_state" where
  "rw_addLog now message ty s =
     s\<lparr>rw_logs := slice1 (- 12) (rw_logs s) @ [span_line (rw_colors ty) now message]\<rparr>"

definition rw_reset :: "rw_state \<Rightarrow> rw_state" where
  "rw_reset s =
     s\<lparr>rw_timers := clearRef (rw_intervalRef s) (rw_timers s),
       rw_isRunning := False, rw_isPaused := False, rw_pauseRef := False,
       rw_activeReaders := [], rw_activeWriter := None, rw_waitingReaders := [],
       rw_waitingWriters := [], rw_completedReads := 0, rw_completedWrites := 0,
       rw_logs := [], rw_threadCounter := 0, rw_sharedData := ''Initial Value'',
       rw_dataVersion := 1\<rparr>"

text \<open>\<open>now\<close> is the clock as \<open>toLocaleTimeString\<close> prints it, \<open>ms\<close> is \<open>Date.now()\<close>.\<close>

definition addReader :: "string \<Rightarrow> int \<Rightarrow> rw_view \<Rightarrow> rw_state \<Rightarrow> rw_state" where
  "addReader now ms v s =
     (let newThread = \<lparr>rwt_id = vw_threadCounter v + 1, rwt_type = RwReader,
                        rwt_status = RwWaiting, rwt_startTime = ms\<rparr>;
          s1 = s\<lparr>rw_threadCounter := rw_threadCounter s + 1\<rparr>
      in if vw_activeWriter v \<noteq> None then
           rw_addLog now (''Reader #'' @ show_int (rwt_id newThread) @ '': Waiting (writer active)'')
             RlWait (s1\<lparr>rw_waitingReaders := rw_waitingReaders s1 @ [newThread]\<rparr>)
         else
           rw_addLog now (''Reader #'' @ show_int (rwt_id newThread) @ '': Started reading'') RlRead
             (s1\<lparr>rw_activeReaders :=
                   rw_activeReaders s1 @ [newThread\<lparr>rwt_status := RwActive\<rparr>]\<rparr>))"

definition addWriter :: "string \<Rightarrow> int \<Rightarrow> rw_view \<Rightarrow> rw_state \<Rightarrow> rw_state" where
  "addWriter now ms v s =
     (let newThread = \<lparr>rwt_id = vw_threadCounter v + 1, rwt_type = RwWriter,
                        rwt_status = RwWaiting, rwt_startTime = ms\<rparr>;
          s1 = s\<lparr>rw_threadCounter := rw_threadCounter s + 1\<rparr>
      in if vw_activeWriter v \<noteq> None \<or> length (vw_activeReaders v) > 0 then
           rw_addLog now
             (''Writer #'' @ show_int (rwt_id newThread) @ '': Waiting ('' @
              (if vw_activeWriter v \<noteq> None then ''writer'' else ''readers'') @ '' active)'')
             RlWait (s1\<lparr>rw_waitingWriters := rw_waitingWriters s1 @ [newThread]\<rparr>)
         else
           rw_addLog now (''Writer #'' @ show_int (rwt_id newThread) @ '': Started writing'') RlWrite
             (s1\<lparr>rw_activeWriter := Some (newThread\<lparr>rwt_status := RwActive\<rparr>)\<rparr>))"

text \<open>\<open>runSimulation\<close> of this page raises the running flag and schedules the interval.\<close>

definition rw_runSimulation :: "rw_state \<Rightarrow> rw_state" where
  "rw_runSimulation s =
     (let s1 = s\<lparr>rw_isRunning := True\<rparr>
      in s1\<lparr>rw_intervalRef := Some (next_handle (rw_timers s1)),
             rw_timers := setInterval (rw_render s) (rw_timers s1)\<rparr>)"

text \<open>
  The two \<open>filter\<close> calls over the active readers: the \<open>k\<close>-th reading of
  \<open>Math.random()\<close> decides whether the \<open>k\<close>-th reader has finished. The result is
  \<open>(completed, remaining)\<close>.
\<close>

fun rw_split :: "(nat \<Rightarrow> real) \<Rightarrow> nat \<Rightarrow> rw_thread list \<Rightarrow> rw_thread list \<times> rw_thread list" where
  "rw_split rnd k [] = ([], [])"
| "rw_split rnd k (r # rs) =
     (let (completed, remaining) = rw_split rnd (Suc k) rs
      in if rnd k > 0.7 then (r # completed, remaining) else (completed, r # remaining))"

definition rw_finish_read :: "string \<Rightarrow> rw_thread \<Rightarrow> rw_state \<Rightarrow> rw_state" where
  "rw_finish_read now r s =
     (let s1 = rw_addLog now
                 (''Reader #'' @ show_int (rwt_id r) @ '': '' @ check_mark @ '' Finished reading'')
                 RlRead s
      in s1\<lparr>rw_completedReads := rw_completedReads s1 + 1\<rparr>)"

definition rw_promote_reader :: "string \<Rightarrow> rw_thread \<Rightarrow> rw_state \<Rightarrow> rw_state" where
  "rw_promote_reader now r s =
     (let s1 = rw_addLog now (''Reader #'' @ show_int (rwt_id r) @ '': Started reading'') RlRead s
      in s1\<lparr>rw_activeReaders := rw_activeReaders s1 @ [r\<lparr>rwt_status := RwActive\<rparr>]\<rparr>)"

definition rw_writer_done :: "string \<Rightarrow> rw_view \<Rightarrow> rw_thread \<Rightarrow> rw_state \<Rightarrow> rw_state" where
  \<comment> \<open>the body of \<open>if (activeWriter && Math.random() > 0.6)\<close>\<close>
  "rw_writer_done now v w s =
     (let t1 = rw_addLog now
                 (''Writer #'' @ show_int (rwt_id w) @ '': '' @ check_mark @ '' Finished writing'')
                 RlWrite s;
          t2 = t1\<lparr>rw_dataVersion := rw_dataVersion t1 + 1\<rparr>;
          t3 = t2\<lparr>rw_sharedData := ''Modified v'' @ show_int (vw_dataVersion v + 1)\<rparr>;
          t4 = t3\<lparr>rw_completedWrites := rw_completedWrites t3 + 1\<rparr>
      in t4\<lparr>rw_activeWriter := None\<rparr>)"

definition rw_promote_writer :: "string \<Rightarrow> rw_state \<Rightarrow> rw_state" where
  \<comment> \<open>the updater of \<open>setWaitingWriters\<close> that the promotion queues\<close>
  "rw_promote_writer now s =
     (case rw_waitingWriters s of
        [] \<Rightarrow> s
      | next # rest \<Rightarrow>
          (rw_addLog now (''Writer #'' @ show_int (rwt_id next) @ '': Started writing'') RlWrite s)
            \<lparr>rw_waitingWriters := rest,
             rw_activeWriter := Some (next\<lparr>rwt_status := RwActive\<rparr>)\<rparr>)"

text \<open>
  One firing of the interval. \<open>rnd k\<close> is the \<open>k\<close>-th reading of \<open>Math.random()\<close>,
  \<open>now\<close> the clock when React renders and \<open>ms\<close> the \<open>Date.now()\<close> of the callback.

  The callback queues the updater of \<open>activeReaders\<close>; with an active writer in its
  render it reads \<open>Math.random()\<close> and may finish the writer; it queues the updaters of
  \<open>activeWriter\<close> and \<open>waitingReaders\<close>; it reads \<open>Math.random()\<close> once or twice and
  may call \<open>addReader\<close> or \<open>addWriter\<close>. The updaters run afterwards, so the readings
  that decide which readers finish are the last of the firing. The fields are declared
  in the order \<open>activeReaders\<close>, \<open>activeWriter\<close>, \<open>waitingReaders\<close>,
  \<open>waitingWriters\<close>, \<open>completedReads\<close>, \<open>completedWrites\<close>, \<open>logs\<close>,
  \<open>threadCounter\<close>, \<open>sharedData\<close>, \<open>dataVersion\<close>. So:

  \<^item> the first pass gives every field the updates of the callback in the order of
    the calls (the updater of \<open>activeWriter\<close> returns the writer it finds or \<open>null\<close>,
    which changes nothing), and \<open>logs\<close> then the lines for the readers that finished and
    the lines for the readers promoted;
  \<^item> the second pass gives \<open>activeReaders\<close> the promoted readers or, when the updater
    of \<open>activeWriter\<close> found no writer and the render had waiting writers, the updater
    that looks whether there is no reader left; if so \<open>waitingWriters\<close> loses its first
    writer and \<open>logs\<close> receives its line in this pass;
  \<^item> the third pass makes that writer the active writer.
\<close>

definition rw_tick ::
  "string \<Rightarrow> int \<Rightarrow> (nat \<Rightarrow> real) \<Rightarrow> handle \<Rightarrow> rw_state \<Rightarrow> rw_state"
where
  "rw_tick now ms rnd h s =
     (case closure_of (rw_timers s) h of
        None \<Rightarrow> s
      | Some v \<Rightarrow>
          if rw_pauseRef s then s
          else
            (let k1 = (if vw_activeWriter v \<noteq> None then 1 else 0);
                 s1 = (case vw_activeWriter v of
                         None \<Rightarrow> s
                       | Some w \<Rightarrow> if rnd 0 > 0.6 then rw_writer_done now v w s else s);
                 adding = (rnd k1 > 0.85);
                 k2 = (if adding then k1 + 2 else k1 + 1);
                 (completed, remaining) = rw_split rnd k2 (rw_activeReaders s);
                 s2 = s1\<lparr>rw_activeReaders := remaining\<rparr>;
                 writers = (rw_activeWriter s2 = None \<and> length (vw_waitingWriters v) > 0);
                 prevW = rw_waitingReaders s2;
                 readers = (prevW \<noteq> [] \<and> vw_activeWriter v = None
                            \<and> \<not> length (vw_waitingWriters v) > 0);
                 s3 = (if readers then s2\<lparr>rw_waitingReaders := drop 3 prevW\<rparr> else s2);
                 s4 = (if adding then
                         (if rnd (k1 + 1) > 0.3 then addReader now ms v s3
                          else addWriter now ms v s3)
                       else s3);
                 s5 = fold (rw_finish_read now) completed s4;
                 s6 = (if readers then fold (rw_promote_reader now) (take 3 prevW) s5 else s5)
             in if writers \<and> rw_activeReaders s6 = [] then rw_promote_writer now s6 else s6))"

definition rw_togglePause :: "rw_state \<Rightarrow> rw_state" where
  "rw_togglePause s = s\<lparr>rw_isPaused := \<not> rw_isPaused s, rw_pauseRef := \<not> rw_pauseRef s\<rparr>"

section \<open>Memory ordering page\<close>

text \<open>The field \<open>value\<close> of \<open>CacheState\<close> is \<open>cache_val\<close> here.\<close>

record cache_state =
  cache_val :: int
  cache_dirty :: bool
  cache_version :: int

record main_memory =
  mem_data :: int
  mem_ready :: bool

datatype mo_scenario = Broken | Fixed

datatype mo_result = Success | Failure

text \<open>The closure of the interval: which of the two step lists it plays, and \<open>currentStep\<close>.\<close>

record mo_state =
  mo_isRunning :: bool
  mo_step :: int
  mo_mainMemory :: main_memory
  mo_core1Cache :: cache_state
  mo_core2Cache :: cache_state
  mo_core1Action :: string
  mo_core2Action :: string
  mo_logs :: "string list"
  mo_scenario :: mo_scenario
  mo_result :: "mo_result option"
  mo_intervalRef :: "handle option"
  mo_timers :: "(mo_scenario \<times> nat) timers"

definition cache0 :: cache_state where
  "cache0 = \<lparr>cache_val = 0, cache_dirty = False, cache_version = 0\<rparr>"

definition mo_init :: mo_state where
  "mo_init =
     \<lparr>mo_isRunning = False, mo_step = 0, mo_mainMemory = \<lparr>mem_data = 0, mem_ready = False\<rparr>,
      mo_core1Cache = cache0, mo_core2Cache = cache0, mo_core1Action = [], mo_core2Action = [],
      mo_logs = [], mo_scenario = Broken, mo_result = None,
      mo_intervalRef = None, mo_timers = no_timers\<rparr>"

datatype mo_log_type = MlCore1 | MlCore2 | MlMemory | MlError

definition mo_colors :: "mo_log_type \<Rightarrow> string" where
  "mo_colors ty =
     (case ty of MlCore1 \<Rightarrow> ''text-blue-400'' | MlCore2 \<Rightarrow> ''text-green-400''
      | MlMemory \<Rightarrow> ''text-purple-400'' | MlError \<Rightarrow> ''text-red-400'')"

definition mo_addLog :: "string \<Rightarrow> mo_log_type \<Rightarrow> mo_state \<Rightarrow> mo_state" where
  \<comment> \<open>this page's log line carries no time\<close>
  "mo_addLog message ty s =
     s\<lparr>mo_logs := slice1 (- 12) (mo_logs s) @
         [''<span class='' @ [CHR 0x22] @ mo_colors ty @ [CHR 0x22] @ ''>'' @ message @ ''</span>'']\<rparr>"

definition mo_reset :: "mo_state \<Rightarrow> mo_state" where
  "mo_reset s =
     s\<lparr>mo_timers := clearRef (mo_intervalRef s) (mo_timers s),
       mo_isRunning := False, mo_step := 0,
       mo_mainMemory := \<lparr>mem_data = 0, mem_ready = False\<rparr>,
       mo_core1Cache := cache0, mo_core2Cache := cache0,
       mo_core1Action := [], mo_core2Action := [], mo_logs := [], mo_result := None\<rparr>"

definition warning_sign :: string where
  "warning_sign =
     [char_of (0xE2::nat), char_of (0x9A::nat), char_of (0xA0::nat), char_of (0xEF::nat),
      char_of (0xB8::nat), char_of (0x8F::nat)]"

definition collision :: string where
  "collision = [char_of (0xF0::nat), char_of (0x9F::nat), char_of (0x92::nat), char_of (0xA5::nat)]"

definition padlock :: string where
  "padlock = [char_of (0xF0::nat), char_of (0x9F::nat), char_of (0x94::nat), char_of (0x92::nat)]"

definition white_check :: string where
  "white_check = [char_of (0xE2::nat), char_of (0x9C::nat), char_of (0x85::nat)]"

definition mo_broken_steps :: "(mo_state \<Rightarrow> mo_state) list" where
  "mo_broken_steps =
     [\<lambda>s. mo_addLog ''[Core 1] Write data=42 to local cache'' MlCore1
            (s\<lparr>mo_core1Action := ''Writing data=42 to cache'',
               mo_core1Cache := \<lparr>cache_val = 42, cache_dirty = True, cache_version = 1\<rparr>\<rparr>),
      \<lambda>s. mo_addLog (warning_sign @ '' CPU optimized by reordering writes!'') MlError
            (mo_addLog ''[Core 1] Write ready=true (CPU reordered! flushed before data)'' MlCore1
               (s\<lparr>mo_core1Action := ''Writing ready=true'',
                  mo_mainMemory := (mo_mainMemory s)\<lparr>mem_ready := True\<rparr>\<rparr>)),
      \<lambda>s. mo_addLog ''[Core 2] Read ready=true from memory'' MlCore2
            (s\<lparr>mo_core2Action := ''Checking ready flag...''\<rparr>),
      \<lambda>s. (mo_addLog (collision @ '' RACE CONDITION: Core 2 saw ready=true but data=0!'') MlError
             (mo_addLog ''[Core 2] Read data=0 from memory (STALE!)'' MlCore2
                (s\<lparr>mo_core2Action := ''Reading data...'',
                   mo_core2Cache := \<lparr>cache_val = 0, cache_dirty = False, cache_version = 0\<rparr>\<rparr>)))
           \<lparr>mo_result := Some Failure\<rparr>,
      \<lambda>s. (mo_addLog ''[Memory] Core 1's data=42 finally visible... too late!'' MlMemory
             (s\<lparr>mo_core1Action := ''Cache flush'',
                mo_mainMemory := \<lparr>mem_data = 42, mem_ready = True\<rparr>\<rparr>))
           \<lparr>mo_isRunning := False\<rparr>]"

definition mo_fixed_steps :: "(mo_state \<Rightarrow> mo_state) list" where
  "mo_fixed_steps =
     [\<lambda>s. mo_addLog ''[Core 1] Write data=42 to local cache'' MlCore1
            (s\<lparr>mo_core1Action := ''Writing data=42'',
               mo_core1Cache := \<lparr>cache_val = 42, cache_dirty = True, cache_version = 1\<rparr>\<rparr>),
      \<lambda>s. mo_addLog ''[Memory] data=42 now visible to all cores'' MlMemory
            (mo_addLog (''[Core 1] '' @ padlock @ '' RELEASE barrier - flush all writes before ready'')
               MlCore1
               (s\<lparr>mo_core1Action := padlock @ '' RELEASE BARRIER'',
                  mo_mainMemory := (mo_mainMemory s)\<lparr>mem_data := 42\<rparr>\<rparr>)),
      \<lambda>s. mo_addLog ''[Core 1] Write ready=true (AFTER barrier)'' MlCore1
            (s\<lparr>mo_core1Action := ''Writing ready=true'',
               mo_mainMemory := (mo_mainMemory s)\<lparr>mem_ready := True\<rparr>\<rparr>),
      \<lambda>s. mo_addLog ''[Core 2] Read ready=true'' MlCore2
            (mo_addLog (''[Core 2] '' @ padlock @ '' ACQUIRE barrier - sync cache before read'')
               MlCore2 (s\<lparr>mo_core2Action := padlock @ '' ACQUIRE + check ready''\<rparr>)),
      \<lambda>s. (mo_addLog (white_check @ '' SUCCESS: Acquire-Release guarantees order!'') MlCore2
             (mo_addLog (''[Core 2] Read data=42 '' @ check_mark) MlCore2
                (s\<lparr>mo_core2Action := ''Reading data...'',
                   mo_core2Cache := \<lparr>cache_val = 42, cache_dirty = False, cache_version = 1\<rparr>\<rparr>)))
           \<lparr>mo_result := Some Success, mo_isRunning := False\<rparr>]"

definition mo_steps :: "mo_scenario \<Rightarrow> (mo_state \<Rightarrow> mo_state) list" where
  "mo_steps sc = (case sc of Broken \<Rightarrow> mo_broken_steps | Fixed \<Rightarrow> mo_fixed_steps)"

definition mo_run :: "mo_scenario \<Rightarrow> mo_state \<Rightarrow> mo_state" where
  \<comment> \<open>\<open>runBrokenScenario\<close> and \<open>runFixedScenario\<close>\<close>
  "mo_run sc s =
     (let s1 = mo_reset s;
          s2 = s1\<lparr>mo_scenario := sc\<rparr>;
          s3 = s2\<lparr>mo_isRunning := True\<rparr>
      in s3\<lparr>mo_intervalRef := Some (next_handle (mo_timers s3)),
             mo_timers := setInterval (sc, 0) (mo_timers s3)\<rparr>)"

definition runBrokenScenario :: "mo_state \<Rightarrow> mo_state" where
  "runBrokenScenario s = mo_run Broken s"

definition runFixedScenario :: "mo_state \<Rightarrow> mo_state" where
  "runFixedScenario s = mo_run Fixed s"

definition mo_tick :: "handle \<Rightarrow> mo_state \<Rightarrow> mo_state" where
  "mo_tick h s =
     (case closure_of (mo_timers s) h of
        None \<Rightarrow> s
      | Some (sc, currentStep) \<Rightarrow>
          if currentStep < length (mo_steps sc) then
            (let s1 = (mo_steps sc ! currentStep) s;
                 s2 = s1\<lparr>mo_step := int currentStep + 1\<rparr>
             in s2\<lparr>mo_timers := set_closure h (sc, currentStep + 1) (mo_timers s2)\<rparr>)
          else s\<lparr>mo_timers := clearRef (mo_intervalRef s) (mo_timers s)\<rparr>)"

section \<open>Async versus threads page\<close>

datatype av_kind = Io | Cpu

datatype av_status = AvPending | AvRunning | AvWaiting | AvCompleted

record av_task =
  at_id :: int
  at_type :: av_kind
  at_duration :: int
  at_status :: av_status
  at_startTime :: int
  at_color :: string
  at_progress :: real

definition av_COLORS :: "string list" where
  "av_COLORS = [''#ef4444'', ''#f97316'', ''#eab308'', ''#22c55e'', ''#3b82f6'', ''#8b5cf6'']"

text \<open>
  The closure of the interval: the locals \<open>tick\<close>, \<open>asyncCurrentTask\<close> and
  \<open>asyncWaitingFor\<close>, and the three task arrays of the render that started the run, which
  the callback reads to decide whether to stop.
\<close>

record av_closure =
  av_tick :: int
  asyncCurrentTask :: nat
  asyncWaitingFor :: "int list"
  cap_asyncTasks :: "av_task list"
  cap_threadTasks :: "av_task list"
  cap_parallelTasks :: "av_task list"

record av_state =
  av_asyncTasks :: "av_task list"
  av_threadTasks :: "av_task list"
  av_parallelTasks :: "av_task list"
  av_asyncTime :: int
  av_threadTime :: int
  av_parallelTime :: int
  av_isRunning :: bool
  av_logs :: "string list"
  av_intervalRef :: "handle option"
  av_timers :: "av_closure timers"

definition av_init :: av_state where
  "av_init =
     \<lparr>av_asyncTasks = [], av_threadTasks = [], av_parallelTasks = [], av_asyncTime = 0,
      av_threadTime = 0, av_parallelTime = 0, av_isRunning = False, av_logs = [],
      av_intervalRef = None, av_timers = no_timers\<rparr>"

definition av_addLog :: "string \<Rightarrow> av_state \<Rightarrow> av_state" where
  "av_addLog message s = s\<lparr>av_logs := slice1 (- 10) (av_logs s) @ [message]\<rparr>"

definition av_reset :: "av_state \<Rightarrow> av_state" where
  "av_reset s =
     s\<lparr>av_timers := clearRef (av_intervalRef s) (av_timers s),
       av_asyncTasks := [], av_threadTasks := [], av_parallelTasks := [],
       av_asyncTime := 0, av_threadTime := 0, av_parallelTime := 0,
       av_isRunning := False, av_logs := []\<rparr>"

definition createDemoTasks :: "av_task list" where
  "createDemoTasks =
     [\<lparr>at_id = 1, at_type = Io, at_duration = 3, at_status = AvPending, at_startTime = 0,
       at_color = av_COLORS ! 0, at_progress = 0\<rparr>,
      \<lparr>at_id = 2, at_type = Io, at_duration = 2, at_status = AvPending, at_startTime = 0,
       at_color = av_COLORS ! 1, at_progress = 0\<rparr>,
      \<lparr>at_id = 3, at_type = Io, at_duration = 4, at_status = AvPending, at_startTime = 0,
       at_color = av_COLORS ! 2, at_progress = 0\<rparr>,
      \<lparr>at_id = 4, at_type = Cpu, at_duration = 2, at_status = AvPending, at_startTime = 0,
       at_color = av_COLORS ! 3, at_progress = 0\<rparr>]"

definition runDemo :: "av_state \<Rightarrow> av_state" where
  "runDemo s =
     (let s1 = av_reset s;
          s2 = s1\<lparr>av_isRunning := True\<rparr>;
          s3 = s2\<lparr>av_asyncTasks := createDemoTasks, av_threadTasks := createDemoTasks,
                 av_parallelTasks := createDemoTasks\<rparr>
      in s3\<lparr>av_intervalRef := Some (next_handle (av_timers s3)),
             av_timers :=
               setInterval
                 \<lparr>av_tick = 0, asyncCurrentTask = 0, asyncWaitingFor = [],
                  cap_asyncTasks = av_asyncTasks s, cap_threadTasks = av_threadTasks s,
                  cap_parallelTasks = av_parallelTasks s\<rparr>
                 (av_timers s3)\<rparr>)"

definition av_advance :: "rounding \<Rightarrow> av_task \<Rightarrow> av_task" where
  \<comment> \<open>\<open>task.progress += 100 / task.duration / 4\<close>\<close>
  "av_advance fl t =
     t\<lparr>at_progress :=
         fl_add fl (at_progress t) (fl_div fl (fl_div fl 100 (real_of_int (at_duration t))) 4)\<rparr>"

definition av_all_done :: "av_task list \<Rightarrow> bool" where
  "av_all_done tasks = list_all (\<lambda>t. at_status t = AvCompleted) tasks"

text \<open>
  The \<open>filter\<close> over \<open>asyncWaitingFor\<close>: a waiting task advances, and its id leaves the
  list when it completes. The result is the ids that stay, the tasks and the page state.
\<close>

fun av_wait_filter ::
  "rounding \<Rightarrow> int list \<Rightarrow> av_task list \<Rightarrow> av_state \<Rightarrow>
   int list \<times> av_task list \<times> av_state"
where
  "av_wait_filter fl [] tasks s = ([], tasks, s)"
| "av_wait_filter fl (i # ids) tasks s =
     (case find_index (\<lambda>t. at_id t = i) tasks of
        None \<Rightarrow> (let (keep, tasks', s') = av_wait_filter fl ids tasks s in (i # keep, tasks', s'))
      | Some j \<Rightarrow>
          if at_status (tasks ! j) = AvWaiting then
            (let task = av_advance fl (tasks ! j) in
             if at_progress task \<ge> 100 then
               (let (keep, tasks', s') =
                      av_wait_filter fl ids (tasks[j := task\<lparr>at_status := AvCompleted\<rparr>])
                        (av_addLog (''[Async] Task '' @ show_int i @ '' completed (I/O returned)'') s)
                in (keep, tasks', s'))
             else
               (let (keep, tasks', s') = av_wait_filter fl ids (tasks[j := task]) s
                in (i # keep, tasks', s')))
          else (let (keep, tasks', s') = av_wait_filter fl ids tasks s in (i # keep, tasks', s')))"

text \<open>
  The \<open>while\<close> loop over \<open>asyncCurrentTask\<close>. Every pass either leaves the loop or
  moves to the next task. The result is the new \<open>asyncCurrentTask\<close> and
  \<open>asyncWaitingFor\<close>, the tasks and the page state.
\<close>

function av_loop ::
  "rounding \<Rightarrow> int \<Rightarrow> nat \<Rightarrow> int list \<Rightarrow> av_task list \<Rightarrow> av_state \<Rightarrow>
   nat \<times> int list \<times> av_task list \<times> av_state"
where
  "av_loop fl tick cur waiting tasks s =
     (if cur < length tasks then
        (let current0 = tasks ! cur;
             started = (at_status current0 = AvPending);
             current = (if started then current0\<lparr>at_status := AvRunning, at_startTime := tick\<rparr>
                        else current0);
             s1 = (if started
                   then av_addLog (''[Async] Started task '' @ show_int (at_id current)) s else s)
         in if at_status current = AvRunning then
              (if at_type current = Io then
                 av_loop fl tick (Suc cur) (waiting @ [at_id current])
                   (tasks[cur := current\<lparr>at_status := AvWaiting\<rparr>])
                   (av_addLog
                      (''[Async] Task '' @ show_int (at_id current) @ '' awaiting I/O (yields)'') s1)
               else
                 (let worked = av_advance fl current in
                  if at_progress worked \<ge> 100 then
                    (Suc cur, waiting, tasks[cur := worked\<lparr>at_status := AvCompleted\<rparr>],
                     av_addLog
                       (''[Async] Task '' @ show_int (at_id current) @ '' completed (CPU done)'') s1)
                  else (cur, waiting, tasks[cur := worked], s1)))
            else if at_status current = AvCompleted \<or> at_status current = AvWaiting then
              av_loop fl tick (Suc cur) waiting (tasks[cur := current]) s1
            else (cur, waiting, tasks[cur := current], s1))
      else (cur, waiting, tasks, s))"
  by pat_completeness auto
termination
  by (relation "measure (\<lambda>(fl, tick, cur, waiting, tasks, s). length tasks - cur)") auto

declare av_loop.simps [simp del]

definition av_async_step :: "rounding \<Rightarrow> av_closure \<Rightarrow> av_state \<Rightarrow> av_closure \<times> av_state" where
  \<comment> \<open>the updater of \<open>setAsyncTasks\<close>\<close>
  "av_async_step fl c s =
     (let tasks = av_asyncTasks s in
      if av_all_done tasks then (c, s\<lparr>av_asyncTime := av_tick c\<rparr>)
      else
        (let (keep, tasks1, s1) = av_wait_filter fl (asyncWaitingFor c) tasks s;
             (cur, waiting, tasks2, s2) = av_loop fl (av_tick c) (asyncCurrentTask c) keep tasks1 s1
         in (c\<lparr>asyncCurrentTask := cur, asyncWaitingFor := waiting\<rparr>,
             s2\<lparr>av_asyncTasks := tasks2\<rparr>)))"

definition av_thread_step :: "rounding \<Rightarrow> av_closure \<Rightarrow> av_state \<Rightarrow> av_state" where
  \<comment> \<open>the updater of \<open>setThreadTasks\<close>\<close>
  "av_thread_step fl c s =
     (let tasks = av_threadTasks s in
      if av_all_done tasks then s\<lparr>av_threadTime := av_tick c\<rparr>
      else
        (case find_index (\<lambda>t. at_status t \<noteq> AvCompleted) tasks of
           None \<Rightarrow> s
         | Some j \<Rightarrow>
             (let active0 = tasks ! j;
                  started = (at_status active0 = AvPending);
                  s1 = (if started
                        then av_addLog (''[Thread] Started task '' @ show_int (at_id active0)) s
                        else s);
                  active = av_advance fl (if started then active0\<lparr>at_status := AvRunning\<rparr> else active0)
              in if at_progress active \<ge> 100 then
                   (av_addLog (''[Thread] Task '' @ show_int (at_id active) @ '' completed'') s1)
                     \<lparr>av_threadTasks := tasks[j := active\<lparr>at_status := AvCompleted\<rparr>]\<rparr>
                 else s1\<lparr>av_threadTasks := tasks[j := active]\<rparr>)))"

definition av_parallel_task :: "rounding \<Rightarrow> av_task \<Rightarrow> av_task" where
  "av_parallel_task fl t0 =
     (let t = (if at_status t0 = AvPending then t0\<lparr>at_status := AvRunning\<rparr> else t0) in
      if at_status t = AvRunning then
        (let worked = av_advance fl t in
         if at_progress worked \<ge> 100 then worked\<lparr>at_status := AvCompleted\<rparr> else worked)
      else t)"

definition av_parallel_step :: "rounding \<Rightarrow> av_closure \<Rightarrow> av_state \<Rightarrow> av_state" where
  \<comment> \<open>the updater of \<open>setParallelTasks\<close>\<close>
  "av_parallel_step fl c s =
     (let tasks = av_parallelTasks s in
      if av_all_done tasks then s\<lparr>av_parallelTime := av_tick c\<rparr>
      else s\<lparr>av_parallelTasks := map (av_parallel_task fl) tasks\<rparr>)"

definition av_tick_fire :: "rounding \<Rightarrow> handle \<Rightarrow> av_state \<Rightarrow> av_state" where
  "av_tick_fire fl h s =
     (case closure_of (av_timers s) h of
        None \<Rightarrow> s
      | Some c0 \<Rightarrow>
          (let c1 = c0\<lparr>av_tick := av_tick c0 + 1\<rparr>;
               (c2, s1) = av_async_step fl c1 s;
               s2 = av_thread_step fl c2 s1;
               s3 = av_parallel_step fl c2 s2;
               s4 = s3\<lparr>av_timers := set_closure h c2 (av_timers s3)\<rparr>
           in if av_tick c2 > 100
                 \<or> (av_all_done (cap_asyncTasks c2) \<and> av_all_done (cap_threadTasks c2)
                     \<and> av_all_done (cap_parallelTasks c2))
              then s4\<lparr>av_isRunning := False,
                      av_timers := clearRef (av_intervalRef s4) (av_timers s4)\<rparr>
              else s4))"

text \<open>Everything that can happen to the other pages with a single timer.\<close>

datatype dl_event = DlStart | DlReset | DlTick string handle | DlExplanation

fun dl_apply :: "dl_event \<Rightarrow> dl_state \<Rightarrow> dl_state" where
  "dl_apply DlStart s = runDeadlockScenario s"
| "dl_apply DlReset s = dl_reset s"
| "dl_apply (DlTick now h) s = dl_tick now h s"
| "dl_apply DlExplanation s = s\<lparr>dl_showExplanation := \<not> dl_showExplanation s\<rparr>"

definition dl_exec :: "dl_event list \<Rightarrow> dl_state \<Rightarrow> dl_state" where
  "dl_exec evs s = fold dl_apply evs s"

datatype mo_event = MoRun mo_scenario | MoReset | MoTick handle

fun mo_apply :: "mo_event \<Rightarrow> mo_state \<Rightarrow> mo_state" where
  "mo_apply (MoRun sc) s = mo_run sc s"
| "mo_apply MoReset s = mo_reset s"
| "mo_apply (MoTick h) s = mo_tick h s"

definition mo_exec :: "mo_event list \<Rightarrow> mo_state \<Rightarrow> mo_state" where
  "mo_exec evs s = fold mo_apply evs s"

datatype av_event = AvRun | AvReset | AvTick handle

fun av_apply :: "rounding \<Rightarrow> av_event \<Rightarrow> av_state \<Rightarrow> av_state" where
  "av_apply fl AvRun s = runDemo s"
| "av_apply fl AvReset s = av_reset s"
| "av_apply fl (AvTick h) s = av_tick_fire fl h s"

definition av_exec :: "rounding \<Rightarrow> av_event list \<Rightarrow> av_state \<Rightarrow> av_state" where
  "av_exec fl evs s = fold (av_apply fl) evs s"

text \<open>
  The reader-writer page; the two buttons call \<open>addReader\<close> and \<open>addWriter\<close> of the
  current render. The Start button is there while the page is not running, the pause
  button while it is; the two add buttons are disabled while the page is not running or
  paused.
\<close>

datatype rw_event =
  RwStart | RwReset | RwTogglePause | RwAddReader string int | RwAddWriter string int
  | RwTick string int "nat \<Rightarrow> real" handle

fun rw_apply :: "rw_event \<Rightarrow> rw_state \<Rightarrow> rw_state" where
  "rw_apply RwStart s = (if \<not> rw_isRunning s then rw_runSimulation s else s)"
| "rw_apply RwReset s = rw_reset s"
| "rw_apply RwTogglePause s = (if rw_isRunning s then rw_togglePause s else s)"
| "rw_apply (RwAddReader now ms) s =
     (if rw_isRunning s \<and> \<not> rw_isPaused s then addReader now ms (rw_render s) s else s)"
| "rw_apply (RwAddWriter now ms) s =
     (if rw_isRunning s \<and> \<not> rw_isPaused s then addWriter now ms (rw_render s) s else s)"
| "rw_apply (RwTick now ms rnd h) s = rw_tick now ms rnd h s"

definition rw_exec :: "rw_event list \<Rightarrow> rw_state \<Rightarrow> rw_state" where
  "rw_exec evs s = fold rw_apply evs s"

section \<open>Expected states and invariants\<close>

text \<open>The state after the seven scripted steps, whatever the page held before the run.\<close>

definition dl_deadlocked :: "string list \<Rightarrow> dl_state \<Rightarrow> dl_state" where
  "dl_deadlocked nows s0 =
     s0\<lparr>dl_isRunning := False, dl_isDeadlocked := True, dl_step := 7,
        dl_logs :=
          [dl_line (nows ! 0) ''Thread A: Acquiring Lock 1...'',
           dl_line (nows ! 1) (''Thread A: '' @ check_mark @ '' Acquired Lock 1''),
           dl_line (nows ! 2) ''Thread B: Acquiring Lock 2...'',
           dl_line (nows ! 3) (''Thread B: '' @ check_mark @ '' Acquired Lock 2''),
           dl_line (nows ! 4) ''Thread A: Now I need Lock 2... (held by Thread B!)'',
           dl_line (nows ! 5) ''Thread B: Now I need Lock 1... (held by Thread A!)'',
           dl_line (nows ! 6) (skull @ '' DEADLOCK DETECTED! Both threads waiting forever!'')],
        dl_threads :=
          [\<lparr>dlt_id = 1, dlt_name = ''Thread A'', dlt_color = ''blue'',
            dlt_holdsLock = Some ''lock1'', dlt_wantsLock = Some ''lock2'',
            dlt_status = Deadlocked, dlt_x = 100, dlt_y = 150\<rparr>,
           \<lparr>dlt_id = 2, dlt_name = ''Thread B'', dlt_color = ''green'',
            dlt_holdsLock = Some ''lock2'', dlt_wantsLock = Some ''lock1'',
            dlt_status = Deadlocked, dlt_x = 400, dlt_y = 150\<rparr>],
        dl_locks :=
          [\<lparr>dll_id = ''lock1'', dll_name = ''Lock 1'', dll_heldBy = Some 1, dll_x = 180, dll_y = 80\<rparr>,
           \<lparr>dll_id = ''lock2'', dll_name = ''Lock 2'', dll_heldBy = Some 2, dll_x = 320, dll_y = 80\<rparr>],
        dl_intervalRef := Some (next_handle (dl_timers s0)),
        dl_timers :=
          set_closure (next_handle (dl_timers s0)) 7
            (setInterval 0 (clearRef (dl_intervalRef s0) (dl_timers s0)))\<rparr>"

text \<open>The state after the five attempts, whatever the page held before the run.\<close>

definition cas_attempted :: "int list \<Rightarrow> lp_state \<Rightarrow> lp_state" where
  "cas_attempted nows s0 =
     s0\<lparr>lp_casInterval := Some (next_handle (lp_casTimers s0)),
        lp_casDemo :=
          \<lparr>cas_attempts =
             [\<lparr>ca_expected = 100, ca_actual = 100, ca_newValue = 101, ca_success = True,
               ca_id = 1, ca_threadId = 1, ca_timestamp = nows ! 0\<rparr>,
              \<lparr>ca_expected = 101, ca_actual = 102, ca_newValue = 103, ca_success = False,
               ca_id = 2, ca_threadId = 2, ca_timestamp = nows ! 1\<rparr>,
              \<lparr>ca_expected = 101, ca_actual = 102, ca_newValue = 103, ca_success = False,
               ca_id = 3, ca_threadId = 3, ca_timestamp = nows ! 2\<rparr>,
              \<lparr>ca_expected = 101, ca_actual = 101, ca_newValue = 102, ca_success = True,
               ca_id = 4, ca_threadId = 1, ca_timestamp = nows ! 3\<rparr>,
              \<lparr>ca_expected = 102, ca_actual = 102, ca_newValue = 103, ca_success = True,
               ca_id = 5, ca_threadId = 2, ca_timestamp = nows ! 4\<rparr>],
           cas_val = 103, cas_isRunning = True, cas_phase = CasSwapping,
           cas_currentThread = Some 2\<rparr>,
        lp_casTimers :=
          set_closure (next_handle (lp_casTimers s0)) (5, 103)
            (setInterval (0, 100) (lp_casTimers s0))\<rparr>"

text \<open>The bounded-buffer invariant of the producer-consumer page, on the state fields.\<close>

definition pc_inv :: "pc_state \<Rightarrow> bool" where
  "pc_inv s =
     (length (pc_queue s) \<le> BUFFER_SIZE \<and> pc_consumed s \<le> pc_produced s
      \<and> pc_produced s - pc_consumed s = int (length (pc_queue s)))"

text \<open>
  The only interval that can be alive is the one the ref holds, and its local queue and
  counters are the ones the state fields show.
\<close>

definition pc_synced :: "pc_state \<Rightarrow> bool" where
  "pc_synced s =
     (\<forall>h c. closure_of (pc_timers s) h = Some c \<longrightarrow>
        pc_intervalRef s = Some h \<and> pc_queue s = localQueue c
        \<and> pc_produced s = localProduced c \<and> pc_consumed s = localConsumed c)"

definition pc_pair_ok :: "handle \<Rightarrow> pc_closure \<times> pc_state \<Rightarrow> bool" where
  "pc_pair_ok h cs =
     (pc_inv (snd cs) \<and> pc_intervalRef (snd cs) = Some h \<and> pc_queue (snd cs) = localQueue (fst cs)
      \<and> pc_produced (snd cs) = localProduced (fst cs) \<and> pc_consumed (snd cs) = localConsumed (fst cs)
      \<and> (\<forall>h' c'. closure_of (pc_timers (snd cs)) h' = Some c' \<longrightarrow> h' = h))"

text \<open>A run in which a producer acts on six firings in a row and no consumer does.\<close>

definition pc_fill :: pc_draws where
  "pc_fill = \<lparr>draw_produce = 0.9, draw_producer = 0.7, draw_consume = 0.1, draw_consumer = 0.2\<rparr>"

definition pc_demo_events :: "pc_event list" where
  "pc_demo_events =
     [PcStart, PcTick ''12:00:00'' pc_fill 1, PcTick ''12:00:01'' pc_fill 1,
      PcTick ''12:00:02'' pc_fill 1, PcTick ''12:00:03'' pc_fill 1, PcTick ''12:00:04'' pc_fill 1,
      PcTick ''12:00:05'' pc_fill 1]"

text \<open>
  The semaphore page after a start and thirteen clicks on Add Request: three requests
  hold the three permits and ten wait. No interval fires, so the rounding plays no part.
\<close>

definition sem_queue_full :: sem_state where
  "sem_queue_full =
     sem_exec (\<lambda>x. x) (SemStart # replicate 13 (SemAddRequest ''12:00:00'')) sem_init"

text \<open>
  The starvation page two firings after a start in the unfair scenario: the two
  high-priority threads are running.
\<close>

definition sv_two_running :: sv_state where
  "sv_two_running = sv_exec [SvStart, SvTick 0.5 1, SvTick 0.5 1] sv_init"

text \<open>
  The order that the names of the priorities express: high is above medium and low,
  medium is above low. The code's own table is \<open>priorityOrder\<close>.
\<close>

definition higher_priority :: "sv_priority \<Rightarrow> sv_priority \<Rightarrow> bool" where
  "higher_priority p q =
     (case (p, q) of
        (High, Medium) \<Rightarrow> True | (High, Low) \<Rightarrow> True | (Medium, Low) \<Rightarrow> True
      | _ \<Rightarrow> False)"

text \<open>No interval is alive but, possibly, the one the ref holds.\<close>

definition single_timer :: "'c timers \<Rightarrow> handle option \<Rightarrow> bool" where
  "single_timer T r = (\<forall>h. closure_of T h \<noteq> None \<longrightarrow> r = Some h)"

definition no_timer :: "'c timers \<Rightarrow> bool" where
  "no_timer T = (\<forall>h. closure_of T h = None)"

text \<open>
  The thread pool and the reader-writer page as construction and \<open>reset\<close> leave them,
  whatever the number of workers chosen.
\<close>

definition tp_idle :: "tp_state \<Rightarrow> bool" where
  "tp_idle s =
     (tp_taskQueue s = [] \<and> tp_completedTasks s = [] \<and> tp_logs s = [] \<and> tp_taskCounter s = 0
      \<and> tp_totalProcessed s = 0 \<and> tp_workers s = make_workers (tp_workerCount s)
      \<and> \<not> tp_isPaused s \<and> \<not> tp_pauseRef s \<and> no_timer (tp_timers s))"

definition rw_idle :: "rw_state \<Rightarrow> bool" where
  "rw_idle s =
     (rw_activeReaders s = [] \<and> rw_activeWriter s = None \<and> rw_waitingReaders s = []
      \<and> rw_waitingWriters s = [] \<and> rw_completedReads s = 0 \<and> rw_completedWrites s = 0
      \<and> rw_logs s = [] \<and> rw_threadCounter s = 0 \<and> rw_sharedData s = ''Initial Value''
      \<and> rw_dataVersion s = 1 \<and> \<not> rw_isPaused s \<and> \<not> rw_pauseRef s
      \<and> no_timer (rw_timers s))"

section \<open>Properties\<close>

subsection \<open>Timers and arrays\<close>

lemma next_handle_clearRef [simp]: "next_handle (clearRef r T) = next_handle T"
  by (simp add: clearRef_def clearInterval_def split: option.splits)

lemma next_handle_set_closure [simp]: "next_handle (set_closure h c T) = next_handle T"
  by (simp add: set_closure_def)

lemma next_handle_setInterval [simp]: "next_handle (setInterval c T) = Suc (next_handle T)"
  by (simp add: setInterval_def)

lemma closure_of_setInterval [simp]:
  "closure_of (setInterval c T) h = (if h = next_handle T then Some c else closure_of T h)"
  by (simp add: closure_of_def setInterval_def)

lemma closure_of_set_closure [simp]:
  "closure_of (set_closure h c T) h' =
     (if h' = h then map_option (\<lambda>_. c) (closure_of T h) else closure_of T h')"
proof -
  have "map_of (map (\<lambda>p. if fst p = h then (h, c) else p) xs) h' =
        (if h' = h then map_option (\<lambda>_. c) (map_of xs h) else map_of xs h')"
    for xs :: "(handle \<times> 'a) list"
    by (induction xs) auto
  then show ?thesis by (simp add: closure_of_def set_closure_def)
qed

lemma closure_of_clearInterval [simp]:
  "closure_of (clearInterval h T) h' = (if h' = h then None else closure_of T h')"
proof -
  have "map_of (filter (\<lambda>p. fst p \<noteq> h) xs) h' = (if h' = h then None else map_of xs h')"
    for xs :: "(handle \<times> 'a) list"
    by (induction xs) auto
  then show ?thesis by (simp add: closure_of_def clearInterval_def)
qed

lemma closure_of_clearRef:
  "closure_of (clearRef r T) h = (if r = Some h then None else closure_of T h)"
  by (cases r) (auto simp: clearRef_def)

lemma closure_of_no_timers [simp]: "closure_of no_timers h = None"
  by (simp add: closure_of_def no_timers_def)

lemma set_closure_twice [simp]: "set_closure h c (set_closure h c' T) = set_closure h c T"
  by (simp add: set_closure_def comp_def)

lemma slice1_short [simp]: "int (length xs) \<le> - k \<Longrightarrow> k < 0 \<Longrightarrow> slice1 k xs = xs"
  by (simp add: slice1_def Let_def)

lemma length_slice1_neg: "k < 0 \<Longrightarrow> length (slice1 k xs) \<le> nat (- k)"
  by (auto simp: slice1_def Let_def)

subsection \<open>The deadlock script\<close>

lemma dl_tick_step:
  "closure_of (dl_timers s) h = Some k \<Longrightarrow> k < 7 \<Longrightarrow>
   dl_tick now h s =
     (let s1 = (dl_steps ! k) now s
      in s1\<lparr>dl_step := int k + 1, dl_timers := set_closure h (k + 1) (dl_timers s1)\<rparr>)"
  by (simp add: dl_tick_def dl_steps_def Let_def)

lemma dl_tick_end:
  "closure_of (dl_timers s) h = Some 7 \<Longrightarrow>
   dl_tick now h s = s\<lparr>dl_timers := clearRef (dl_intervalRef s) (dl_timers s)\<rparr>"
  by (simp add: dl_tick_def dl_steps_def)

lemma dl_tick_dead: "closure_of (dl_timers s) h = None \<Longrightarrow> dl_tick now h s = s"
  by (simp add: dl_tick_def)

lemmas dl_run_defs =
  dl_ticks_def dl_tick_step runDeadlockScenario_def dl_reset_def dl_steps_def dl_addLog_def
  dl_wants_def dl_acquires_def Let_def dl_threads0_def dl_locks0_def

lemma dl_run7:
  "dl_ticks (next_handle (dl_timers s0)) [t1, t2, t3, t4, t5, t6, t7] (runDeadlockScenario s0) =
   dl_deadlocked [t1, t2, t3, t4, t5, t6, t7] s0"
  by (simp add: dl_run_defs dl_deadlocked_def dl_line_def eval_nat_numeral)

lemma dl_run_steps:
  "map (\<lambda>k. dl_step (dl_ticks (next_handle (dl_timers s0)) (take k [t1, t2, t3, t4, t5, t6, t7])
                         (runDeadlockScenario s0))) [0, 1, 2, 3, 4, 5, 6, 7] =
   [0, 1, 2, 3, 4, 5, 6, 7]"
  by (simp add: dl_run_defs)

lemma dl_run_log_lengths:
  "map (\<lambda>k. length (dl_logs (dl_ticks (next_handle (dl_timers s0))
                                 (take k [t1, t2, t3, t4, t5, t6, t7]) (runDeadlockScenario s0))))
     [0, 1, 2, 3, 4, 5, 6, 7] =
   [0, 1, 2, 3, 4, 5, 6, 7]"
  by (simp add: dl_run_defs)

text \<open>
  C1. Started from any page state, the deadlock run applies its seven scripted steps on
  the first seven firings of its timer, one step and one log line per firing. After the
  seventh the log holds the seven lines of the script in order (each behind the time of
  its firing), from "Thread A: Acquiring Lock 1..." to the DEADLOCK DETECTED line, both
  threads are "deadlocked" and the running flag is false. The eighth firing finds the
  script exhausted: it clears the timer and changes nothing else, and the timer never
  fires again.
\<close>

theorem dl_run_to_completion:
  "(let h = next_handle (dl_timers s0);
        nows = [t1, t2, t3, t4, t5, t6, t7];
        s7 = dl_ticks h nows (runDeadlockScenario s0);
        s8 = dl_tick t8 h s7
    in map (\<lambda>k. dl_step (dl_ticks h (take k nows) (runDeadlockScenario s0)))
         [0, 1, 2, 3, 4, 5, 6, 7] = [0, 1, 2, 3, 4, 5, 6, 7]
     \<and> map (\<lambda>k. length (dl_logs (dl_ticks h (take k nows) (runDeadlockScenario s0))))
         [0, 1, 2, 3, 4, 5, 6, 7] = [0, 1, 2, 3, 4, 5, 6, 7]
     \<and> dl_logs s7 =
         [dl_line t1 ''Thread A: Acquiring Lock 1...'',
          dl_line t2 (''Thread A: '' @ check_mark @ '' Acquired Lock 1''),
          dl_line t3 ''Thread B: Acquiring Lock 2...'',
          dl_line t4 (''Thread B: '' @ check_mark @ '' Acquired Lock 2''),
          dl_line t5 ''Thread A: Now I need Lock 2... (held by Thread B!)'',
          dl_line t6 ''Thread B: Now I need Lock 1... (held by Thread A!)'',
          dl_line t7 (skull @ '' DEADLOCK DETECTED! Both threads waiting forever!'')]
     \<and> map dlt_status (dl_threads s7) = [Deadlocked, Deadlocked]
     \<and> dl_isRunning s7 = False
     \<and> dl_isDeadlocked s7 = True
     \<and> dl_step s7 = 7
     \<and> closure_of (dl_timers s7) h = Some 7
     \<and> s8 = s7\<lparr>dl_timers := clearInterval h (dl_timers s7)\<rparr>
     \<and> closure_of (dl_timers s8) h = None
     \<and> dl_tick t9 h s8 = s8)"
proof -
  let ?h = "next_handle (dl_timers s0)"
  let ?nows = "[t1, t2, t3, t4, t5, t6, t7]"
  let ?s7 = "dl_ticks ?h ?nows (runDeadlockScenario s0)"
  have s7: "?s7 = dl_deadlocked ?nows s0"
    by (rule dl_run7)
  have live7: "closure_of (dl_timers ?s7) ?h = Some 7"
    by (simp add: s7 dl_deadlocked_def)
  have ref7: "dl_intervalRef ?s7 = Some ?h"
    by (simp add: s7 dl_deadlocked_def)
  have s8: "dl_tick t8 ?h ?s7 = ?s7\<lparr>dl_timers := clearInterval ?h (dl_timers ?s7)\<rparr>"
    by (simp add: dl_tick_end [OF live7] ref7 clearRef_def)
  have dead8: "closure_of (dl_timers (dl_tick t8 ?h ?s7)) ?h = None"
    by (simp add: s8)
  have "dl_logs ?s7 = dl_logs (dl_deadlocked ?nows s0)"
    and "map dlt_status (dl_threads ?s7) = [Deadlocked, Deadlocked]"
    and "dl_isRunning ?s7 = False" and "dl_isDeadlocked ?s7 = True" and "dl_step ?s7 = 7"
    by (simp_all add: s7 dl_deadlocked_def)
  with dl_run_steps [of s0 t1 t2 t3 t4 t5 t6 t7] dl_run_log_lengths [of s0 t1 t2 t3 t4 t5 t6 t7]
    live7 s8 dead8 dl_tick_dead [OF dead8, of t9]
  show ?thesis
    unfolding Let_def by (simp add: dl_deadlocked_def)
qed

text \<open>The run from the freshly constructed page, whose first timer has handle 1.\<close>

lemma dl_init_next_handle: "next_handle (dl_timers dl_init) = 1"
  by (simp add: dl_init_def no_timers_def)

theorem dl_run_to_completion_witness:
  "closure_of (dl_timers (dl_tick ''10:00:12'' 1
     (dl_ticks 1 [''10:00:00'', ''10:00:01'', ''10:00:03'', ''10:00:04'', ''10:00:06'',
                  ''10:00:07'', ''10:00:09''] (runDeadlockScenario dl_init)))) 1 = None
   \<and> map dlt_status (dl_threads (dl_ticks 1 [''10:00:00'', ''10:00:01'', ''10:00:03'',
        ''10:00:04'', ''10:00:06'', ''10:00:07'', ''10:00:09''] (runDeadlockScenario dl_init)))
       = [Deadlocked, Deadlocked]"
  using dl_run_to_completion [of dl_init "''10:00:00''" "''10:00:01''" "''10:00:03''"
      "''10:00:04''" "''10:00:06''" "''10:00:07''" "''10:00:09''" "''10:00:12''" "[]"]
  unfolding Let_def dl_init_next_handle by simp

subsection \<open>The CAS script\<close>

lemma cas_tick_step:
  "closure_of (lp_casTimers s) h = Some (k, v) \<Longrightarrow> k < 5 \<Longrightarrow>
   cas_tick now h s =
     (let thread = cas_threads ! k;
          actualValue = (if k > 0 \<and> k < 3 then v + 1 else v);
          success = (v = actualValue);
          newValue = actualValue + 1;
          prev = lp_casDemo s
      in s\<lparr>lp_casDemo :=
             prev\<lparr>cas_val := (if success then newValue else cas_val prev),
                  cas_phase := (if success then CasSwapping else CasRetrying),
                  cas_currentThread := Some (fst thread),
                  cas_attempts := cas_attempts prev @
                    [\<lparr>ca_expected = v, ca_actual = actualValue,
                      ca_newValue = newValue, ca_success = success,
                      ca_id = int (k + 1), ca_threadId = fst thread,
                      ca_timestamp = now\<rparr>]\<rparr>,
           lp_casTimers :=
             set_closure h (k + 1, if success then newValue else v) (lp_casTimers s)\<rparr>)"
  by (simp add: cas_tick_def cas_threads_def Let_def)

lemma cas_tick_end:
  "closure_of (lp_casTimers s) h = Some (5, v) \<Longrightarrow>
   cas_tick now h s =
     s\<lparr>lp_casTimers := clearRef (lp_casInterval s) (lp_casTimers s),
       lp_casDemo := (lp_casDemo s)\<lparr>cas_isRunning := False, cas_phase := CasIdle,
                                   cas_currentThread := None\<rparr>\<rparr>"
  by (simp add: cas_tick_def cas_threads_def Let_def)

lemma cas_tick_dead: "closure_of (lp_casTimers s) h = None \<Longrightarrow> cas_tick now h s = s"
  by (simp add: cas_tick_def)

lemma cas_run5:
  "cas_ticks (next_handle (lp_casTimers s0)) [t1, t2, t3, t4, t5] (startCASDemo s0) =
   cas_attempted [t1, t2, t3, t4, t5] s0"
  by (simp add: cas_ticks_def cas_tick_step startCASDemo_def cas_threads_def Let_def
      eval_nat_numeral cas_attempted_def)

text \<open>
  C10. The CAS tick reads no random number: its only inputs are the page state and the
  clock, which is copied into the attempt's timestamp. Started from any page state, the
  demo records exactly five attempts, one on each of the first five firings. The
  attempts at the indices 1 and 2 of the list (made at \<open>attemptIndex\<close> 1 and 2, and
  recorded with the \<open>id\<close>s 2 and 3) fail, with expected 101 and actual 102; those at the
  indices 0, 3 and 4 succeed. Every attempt has \<open>success\<close> exactly when
  \<open>expected = actual\<close>; the shared value starts at 100 and ends at 103. The sixth firing
  clears the timer and the running flag and records nothing, and the timer never fires
  again.
\<close>

theorem cas_demo_run:
  "(let h = next_handle (lp_casTimers s0);
        nows = [t1, t2, t3, t4, t5];
        s5 = cas_ticks h nows (startCASDemo s0);
        s6 = cas_tick t6 h s5
    in cas_val (lp_casDemo (startCASDemo s0)) = 100
     \<and> map (\<lambda>k. length (cas_attempts (lp_casDemo (cas_ticks h (take k nows) (startCASDemo s0)))))
         [0, 1, 2, 3, 4, 5] = [0, 1, 2, 3, 4, 5]
     \<and> map (\<lambda>a. (ca_id a, ca_expected a, ca_actual a, ca_success a))
           (cas_attempts (lp_casDemo s5)) =
         [(1, 100, 100, True), (2, 101, 102, False), (3, 101, 102, False),
          (4, 101, 101, True), (5, 102, 102, True)]
     \<and> map (\<lambda>a. ca_success a = (ca_expected a = ca_actual a)) (cas_attempts (lp_casDemo s5)) =
         [True, True, True, True, True]
     \<and> cas_val (lp_casDemo s5) = 103
     \<and> closure_of (lp_casTimers s5) h = Some (5, 103)
     \<and> cas_attempts (lp_casDemo s6) = cas_attempts (lp_casDemo s5)
     \<and> cas_val (lp_casDemo s6) = 103
     \<and> cas_isRunning (lp_casDemo s6) = False
     \<and> closure_of (lp_casTimers s6) h = None
     \<and> cas_tick t7 h s6 = s6)"
proof -
  let ?h = "next_handle (lp_casTimers s0)"
  let ?nows = "[t1, t2, t3, t4, t5]"
  let ?s5 = "cas_ticks ?h ?nows (startCASDemo s0)"
  have s5: "?s5 = cas_attempted ?nows s0"
    by (rule cas_run5)
  have live5: "closure_of (lp_casTimers ?s5) ?h = Some (5, 103)"
    by (simp add: s5 cas_attempted_def)
  have s6: "cas_tick t6 ?h ?s5 =
      ?s5\<lparr>lp_casTimers := clearInterval ?h (lp_casTimers ?s5),
          lp_casDemo := (lp_casDemo ?s5)\<lparr>cas_isRunning := False, cas_phase := CasIdle,
                                        cas_currentThread := None\<rparr>\<rparr>"
    by (simp add: cas_tick_end [OF live5]) (simp add: s5 cas_attempted_def clearRef_def)
  have dead6: "closure_of (lp_casTimers (cas_tick t6 ?h ?s5)) ?h = None"
    by (simp add: s6)
  have lens: "map (\<lambda>k. length (cas_attempts (lp_casDemo (cas_ticks ?h (take k ?nows) (startCASDemo s0)))))
         [0, 1, 2, 3, 4, 5] = [0, 1, 2, 3, 4, 5]"
    by (simp add: cas_ticks_def cas_tick_step startCASDemo_def cas_threads_def Let_def)
  have start: "cas_val (lp_casDemo (startCASDemo s0)) = 100"
    by (simp add: startCASDemo_def Let_def)
  have fields:
    "map (\<lambda>a. (ca_id a, ca_expected a, ca_actual a, ca_success a)) (cas_attempts (lp_casDemo ?s5)) =
       [(1, 100, 100, True), (2, 101, 102, False), (3, 101, 102, False),
        (4, 101, 101, True), (5, 102, 102, True)]"
    "map (\<lambda>a. ca_success a = (ca_expected a = ca_actual a)) (cas_attempts (lp_casDemo ?s5)) =
       [True, True, True, True, True]"
    "cas_val (lp_casDemo ?s5) = 103"
    by (simp_all add: s5 cas_attempted_def)
  have after:
    "cas_attempts (lp_casDemo (cas_tick t6 ?h ?s5)) = cas_attempts (lp_casDemo ?s5)"
    "cas_val (lp_casDemo (cas_tick t6 ?h ?s5)) = 103"
    "cas_isRunning (lp_casDemo (cas_tick t6 ?h ?s5)) = False"
    by (simp_all add: s6) (simp add: s5 cas_attempted_def)
  show ?thesis
    unfolding Let_def
    using start lens fields live5 after dead6 cas_tick_dead [OF dead6, of t7] by simp
qed

lemma lp_init_next_handle: "next_handle (lp_casTimers lp_init) = 1"
  by (simp add: lp_init_def no_timers_def)

theorem cas_demo_run_witness:
  "cas_val (lp_casDemo (cas_ticks 1 [0, 900, 1800, 2700, 3600] (startCASDemo lp_init))) = 103
   \<and> closure_of (lp_casTimers
        (cas_tick 4500 1 (cas_ticks 1 [0, 900, 1800, 2700, 3600] (startCASDemo lp_init)))) 1 = None"
  using cas_demo_run [of lp_init 0 900 1800 2700 3600 4500 5400]
  unfolding Let_def lp_init_next_handle by simp

subsection \<open>The race-condition scripts\<close>

lemmas unsafe_run_defs =
  unsafe_ticks_def unsafe_tick_def runUnsafeDemo_def rc_sequence_def rc_threads0_def Let_def
  js_add1_def js_ge_def show_jsnum_def

lemmas atomic_run_defs =
  atomic_ticks_def atomic_tick_def runAtomicDemo_def rc_threadOrder_def

lemma unsafe_tick_dead: "closure_of (rc_unsafeTimers s) h = None \<Longrightarrow> unsafe_tick now h s = s"
  by (simp add: unsafe_tick_def)

lemma atomic_tick_dead: "closure_of (rc_atomicTimers s) h = None \<Longrightarrow> atomic_tick now h s = s"
  by (simp add: atomic_tick_def)

lemma unsafe_run9:
  "rc_unsafeCounter (unsafe_ticks (next_handle (rc_unsafeTimers s0))
      [t1, t2, t3, t4, t5, t6, t7, t8, t9] (runUnsafeDemo s0)) = Num 1"
  "rc_lostUpdates (unsafe_ticks (next_handle (rc_unsafeTimers s0))
      [t1, t2, t3, t4, t5, t6, t7, t8, t9] (runUnsafeDemo s0)) = 2"
  "map rle_isLostUpdate (rc_unsafeLog (unsafe_ticks (next_handle (rc_unsafeTimers s0))
      [t1, t2, t3, t4, t5, t6, t7, t8, t9] (runUnsafeDemo s0))) =
   [None, None, None, None, None, None, Some False, Some True, Some True]"
  "map rct_step (rc_unsafeThreads (unsafe_ticks (next_handle (rc_unsafeTimers s0))
      [t1, t2, t3, t4, t5, t6, t7, t8, t9] (runUnsafeDemo s0))) = [RcWriting, RcWriting, RcWriting]"
  "rc_unsafeRunning (unsafe_ticks (next_handle (rc_unsafeTimers s0))
      [t1, t2, t3, t4, t5, t6, t7, t8, t9] (runUnsafeDemo s0)) = True"
  by (simp_all add: unsafe_run_defs)

lemma unsafe_run10:
  "rc_unsafeCounter (unsafe_ticks (next_handle (rc_unsafeTimers s0))
      [t1, t2, t3, t4, t5, t6, t7, t8, t9, t10] (runUnsafeDemo s0)) = Num 1"
  "rc_lostUpdates (unsafe_ticks (next_handle (rc_unsafeTimers s0))
      [t1, t2, t3, t4, t5, t6, t7, t8, t9, t10] (runUnsafeDemo s0)) = 2"
  "length (rc_unsafeLog (unsafe_ticks (next_handle (rc_unsafeTimers s0))
      [t1, t2, t3, t4, t5, t6, t7, t8, t9, t10] (runUnsafeDemo s0))) = 9"
  "map rct_step (rc_unsafeThreads (unsafe_ticks (next_handle (rc_unsafeTimers s0))
      [t1, t2, t3, t4, t5, t6, t7, t8, t9, t10] (runUnsafeDemo s0))) = [RcDone, RcDone, RcDone]"
  "rc_unsafeRunning (unsafe_ticks (next_handle (rc_unsafeTimers s0))
      [t1, t2, t3, t4, t5, t6, t7, t8, t9, t10] (runUnsafeDemo s0)) = False"
  "closure_of (rc_unsafeTimers (unsafe_ticks (next_handle (rc_unsafeTimers s0))
      [t1, t2, t3, t4, t5, t6, t7, t8, t9, t10] (runUnsafeDemo s0)))
     (next_handle (rc_unsafeTimers s0)) = None"
  by (simp_all add: unsafe_run_defs clearRef_def)

lemma atomic_run4:
  "rc_atomicCounter (atomic_ticks (next_handle (rc_atomicTimers s0)) [u1, u2, u3]
      (runAtomicDemo s0)) = 3"
  "rc_atomicCounter (atomic_ticks (next_handle (rc_atomicTimers s0)) [u1, u2, u3, u4]
      (runAtomicDemo s0)) = 3"
  "length (rc_atomicLog (atomic_ticks (next_handle (rc_atomicTimers s0)) [u1, u2, u3, u4]
      (runAtomicDemo s0))) = 3"
  "map rct_step (rc_atomicThreads (atomic_ticks (next_handle (rc_atomicTimers s0))
      [u1, u2, u3, u4] (runAtomicDemo s0))) = [RcDone, RcDone, RcDone]"
  "rc_atomicRunning (atomic_ticks (next_handle (rc_atomicTimers s0)) [u1, u2, u3, u4]
      (runAtomicDemo s0)) = False"
  "closure_of (rc_atomicTimers (atomic_ticks (next_handle (rc_atomicTimers s0))
      [u1, u2, u3, u4] (runAtomicDemo s0))) (next_handle (rc_atomicTimers s0)) = None"
  by (simp_all add: atomic_run_defs rc_threads0_def Let_def clearRef_def)

lemma both_run:
  "rc_unsafeCounter (rc_fires (next_handle (rc_unsafeTimers s0)) (next_handle (rc_atomicTimers s0))
      rc_both_schedule (runBothDemos s0)) = Num 1"
  "rc_lostUpdates (rc_fires (next_handle (rc_unsafeTimers s0)) (next_handle (rc_atomicTimers s0))
      rc_both_schedule (runBothDemos s0)) = 2"
  "rc_atomicCounter (rc_fires (next_handle (rc_unsafeTimers s0)) (next_handle (rc_atomicTimers s0))
      rc_both_schedule (runBothDemos s0)) = 3"
  "map rct_step (rc_unsafeThreads (rc_fires (next_handle (rc_unsafeTimers s0))
      (next_handle (rc_atomicTimers s0)) rc_both_schedule (runBothDemos s0))) =
   [RcDone, RcDone, RcDone]"
  "map rct_step (rc_atomicThreads (rc_fires (next_handle (rc_unsafeTimers s0))
      (next_handle (rc_atomicTimers s0)) rc_both_schedule (runBothDemos s0))) =
   [RcDone, RcDone, RcDone]"
  by (simp_all add: rc_fires_def rc_both_schedule_def runBothDemos_def unsafe_run_defs
      atomic_run_defs clearRef_def)

text \<open>
  C6. Neither script of the race-condition page reads a random number; the clock only
  ends up in the timestamps of the log entries. Started from any page state and with any
  clock readings, the unsafe demo has counter 1 and two lost updates after its nine
  scripted actions (the second and the third write are the lost ones); its tenth firing
  marks all three threads "done", lowers the running flag and clears the timer, and the
  counter and the lost-update count stay 1 and 2. The atomic demo has counter 3 after
  its three increments and, after its fourth firing, all three threads "done". The same
  holds when both demos run side by side as the one button starts them.
\<close>

theorem race_scripts_deterministic:
  "(let hu = next_handle (rc_unsafeTimers s0);
        s9 = unsafe_ticks hu [t1, t2, t3, t4, t5, t6, t7, t8, t9] (runUnsafeDemo s0);
        s10 = unsafe_ticks hu [t1, t2, t3, t4, t5, t6, t7, t8, t9, t10] (runUnsafeDemo s0);
        ha = next_handle (rc_atomicTimers s0);
        a3 = atomic_ticks ha [u1, u2, u3] (runAtomicDemo s0);
        a4 = atomic_ticks ha [u1, u2, u3, u4] (runAtomicDemo s0);
        b = rc_fires hu ha rc_both_schedule (runBothDemos s0)
    in rc_unsafeCounter s9 = Num 1 \<and> rc_lostUpdates s9 = 2
     \<and> map rle_isLostUpdate (rc_unsafeLog s9) =
         [None, None, None, None, None, None, Some False, Some True, Some True]
     \<and> rc_unsafeCounter s10 = Num 1 \<and> rc_lostUpdates s10 = 2
     \<and> length (rc_unsafeLog s10) = 9
     \<and> map rct_step (rc_unsafeThreads s10) = [RcDone, RcDone, RcDone]
     \<and> rc_unsafeRunning s10 = False
     \<and> closure_of (rc_unsafeTimers s10) hu = None
     \<and> unsafe_tick t11 hu s10 = s10
     \<and> rc_atomicCounter a3 = 3 \<and> rc_atomicCounter a4 = 3
     \<and> length (rc_atomicLog a4) = 3
     \<and> map rct_step (rc_atomicThreads a4) = [RcDone, RcDone, RcDone]
     \<and> rc_atomicRunning a4 = False
     \<and> closure_of (rc_atomicTimers a4) ha = None
     \<and> atomic_tick u5 ha a4 = a4
     \<and> rc_unsafeCounter b = Num 1 \<and> rc_lostUpdates b = 2 \<and> rc_atomicCounter b = 3
     \<and> map rct_step (rc_unsafeThreads b) = [RcDone, RcDone, RcDone]
     \<and> map rct_step (rc_atomicThreads b) = [RcDone, RcDone, RcDone])"
  unfolding Let_def
  by (simp add: unsafe_run9 unsafe_run10 atomic_run4 both_run unsafe_tick_dead atomic_tick_dead)

lemma rc_init_next_handles:
  "next_handle (rc_unsafeTimers rc_init) = 1" "next_handle (rc_atomicTimers rc_init) = 1"
  by (simp_all add: rc_init_def no_timers_def)

theorem race_scripts_deterministic_witness:
  "rc_unsafeCounter (rc_fires 1 1 rc_both_schedule (runBothDemos rc_init)) = Num 1
   \<and> rc_lostUpdates (rc_fires 1 1 rc_both_schedule (runBothDemos rc_init)) = 2
   \<and> rc_atomicCounter (rc_fires 1 1 rc_both_schedule (runBothDemos rc_init)) = 3"
  using race_scripts_deterministic [of rc_init]
  unfolding Let_def rc_init_next_handles by simp

subsection \<open>The bounded buffer of the producer-consumer page\<close>

lemma pc_init_good: "pc_inv pc_init \<and> pc_synced pc_init"
  by (simp add: pc_inv_def pc_synced_def pc_init_def)

lemma pc_synced_ref:
  "pc_synced s \<Longrightarrow> closure_of (pc_timers s) h = Some c \<Longrightarrow> pc_intervalRef s = Some h"
  by (simp add: pc_synced_def)

lemma pc_synced_cleared:
  "pc_synced s \<Longrightarrow> closure_of (clearRef (pc_intervalRef s) (pc_timers s)) h = None"
  by (cases "closure_of (pc_timers s) h") (auto simp: closure_of_clearRef dest: pc_synced_ref)

lemma pc_reset_good: "pc_synced s \<Longrightarrow> pc_inv (pc_reset s) \<and> pc_synced (pc_reset s)"
  by (auto simp: pc_inv_def pc_synced_def pc_reset_def closure_of_clearRef)

lemma pc_start_good:
  "pc_synced s \<Longrightarrow> pc_inv (pc_runSimulation s) \<and> pc_synced (pc_runSimulation s)"
proof -
  assume a: "pc_synced s"
  have "pc_inv (pc_runSimulation s)"
    by (simp add: pc_inv_def pc_runSimulation_def pc_reset_def Let_def)
  moreover have "pc_synced (pc_runSimulation s)"
    unfolding pc_synced_def
    by (simp add: pc_runSimulation_def pc_reset_def Let_def pc_synced_cleared [OF a])
  ultimately show ?thesis by simp
qed

lemma pc_toggle_good:
  "pc_inv s \<Longrightarrow> pc_synced s \<Longrightarrow> pc_inv (pc_togglePause s) \<and> pc_synced (pc_togglePause s)"
  by (auto simp: pc_inv_def pc_synced_def pc_togglePause_def)

lemma pc_run_timeout_fields:
  "pc_queue (pc_run_timeout t s) = pc_queue s"
  "pc_produced (pc_run_timeout t s) = pc_produced s"
  "pc_consumed (pc_run_timeout t s) = pc_consumed s"
  "pc_timers (pc_run_timeout t s) = pc_timers s"
  "pc_intervalRef (pc_run_timeout t s) = pc_intervalRef s"
  "pc_logs (pc_run_timeout t s) = pc_logs s"
  by (cases t; simp add: pc_run_timeout_def)+

lemma pc_timeout_good:
  "pc_inv s \<Longrightarrow> pc_synced s \<Longrightarrow> pc_inv (pc_timeout_fires n s) \<and> pc_synced (pc_timeout_fires n s)"
  by (auto simp: pc_inv_def pc_synced_def pc_timeout_fires_def pc_run_timeout_fields)

lemma pc_produce_ok: "pc_pair_ok h cs \<Longrightarrow> pc_pair_ok h (pc_produce now i cs)"
  by (auto simp: pc_pair_ok_def pc_produce_def pc_inv_def pc_addLog_def Let_def BUFFER_SIZE_def)

lemma pc_consume_ok: "pc_pair_ok h cs \<Longrightarrow> pc_pair_ok h (pc_consume now i cs)"
  by (auto simp: pc_pair_ok_def pc_consume_def pc_inv_def pc_addLog_def Let_def BUFFER_SIZE_def
      slice1_def split: list.splits)

lemma pc_tick_good:
  assumes "pc_inv s" "pc_synced s"
  shows "pc_inv (pc_tick now d h s) \<and> pc_synced (pc_tick now d h s)"
proof (cases "closure_of (pc_timers s) h")
  case None
  then show ?thesis using assms by (simp add: pc_tick_def)
next
  case (Some c)
  show ?thesis
  proof (cases "pc_pauseRef s")
    case True
    then show ?thesis using assms Some by (simp add: pc_tick_def)
  next
    case False
    define cs1 where "cs1 = (if draw_produce d > 0.4
                        then pc_produce now (if draw_producer d > 0.5 then 1 else 2) (c, s)
                        else (c, s))"
    define cs2 where "cs2 = (if draw_consume d > 0.3
                        then pc_consume now (if draw_consumer d > 0.5 then 1 else 2) cs1
                        else cs1)"
    have ref: "pc_intervalRef s = Some h"
      by (rule pc_synced_ref [OF assms(2) Some])
    have uniq: "h' = h" if "closure_of (pc_timers s) h' = Some c'" for h' c'
      using pc_synced_ref [OF assms(2) that] ref by simp
    have sync: "pc_queue s = localQueue c \<and> pc_produced s = localProduced c
        \<and> pc_consumed s = localConsumed c"
      using assms(2) Some by (simp add: pc_synced_def)
    have ok0: "pc_pair_ok h (c, s)"
      unfolding pc_pair_ok_def using assms(1) ref sync uniq by auto
    have ok1: "pc_pair_ok h cs1"
      unfolding cs1_def using ok0 by (simp add: pc_produce_ok)
    have ok2: "pc_pair_ok h cs2"
      unfolding cs2_def using ok1 by (simp add: pc_consume_ok)
    have eq: "pc_tick now d h s =
        (snd cs2)\<lparr>pc_timers := set_closure h (fst cs2) (pc_timers (snd cs2))\<rparr>"
      using Some False by (simp add: pc_tick_def cs1_def cs2_def Let_def)
    show ?thesis
      unfolding eq using ok2
      by (auto simp: pc_pair_ok_def pc_inv_def pc_synced_def split: if_splits)
  qed
qed

lemma pc_apply_good:
  "pc_inv s \<and> pc_synced s \<Longrightarrow> pc_inv (pc_apply e s) \<and> pc_synced (pc_apply e s)"
  by (cases e)
    (simp_all add: pc_reset_good pc_start_good pc_toggle_good pc_tick_good pc_timeout_good)

lemma pc_exec_good:
  "pc_inv s \<and> pc_synced s \<Longrightarrow> pc_inv (pc_exec evs s) \<and> pc_synced (pc_exec evs s)"
  unfolding pc_exec_def
proof (induction evs arbitrary: s)
  case Nil
  then show ?case by simp
next
  case (Cons e evs)
  show ?case using Cons.IH [OF pc_apply_good [OF Cons.prems]] by simp
qed

lemma pc_produce_cases:
  "(let r = pc_produce now i (c, s0) in
      if length (localQueue c) < 5
      then localQueue (fst r) =
             localQueue c @
               [\<lparr>pci_id = localItemCounter c + 1,
                 pci_color = pc_COLORS ! nat ((localItemCounter c + 1) mod 7),
                 pci_producedBy = i, pci_status = ItInQueue\<rparr>]
           \<and> pc_queue (snd r) = localQueue (fst r)
           \<and> localProduced (fst r) = localProduced c + 1
           \<and> pc_produced (snd r) = localProduced c + 1
      else fst r = c
           \<and> pc_queue (snd r) = pc_queue s0 \<and> pc_produced (snd r) = pc_produced s0
           \<and> pc_consumed (snd r) = pc_consumed s0 \<and> pc_itemCounter (snd r) = pc_itemCounter s0
           \<and> pc_logs (snd r) =
               slice1 (- 12) (pc_logs s0) @
                 [span_line ''text-yellow-400'' now
                    (''Producer '' @ show_int i @ '': BLOCKED - Queue full!'')])"
  by (simp add: pc_produce_def Let_def BUFFER_SIZE_def pc_addLog_def pc_colors_def pc_COLORS_def)

lemma pc_consume_cases:
  "(let r = pc_consume now i (c, s0) in
      if localQueue c \<noteq> []
      then localQueue (fst r) = tl (localQueue c)
           \<and> pc_queue (snd r) = tl (localQueue c)
           \<and> localConsumed (fst r) = localConsumed c + 1
           \<and> pc_consumed (snd r) = localConsumed c + 1
      else fst r = c
           \<and> pc_queue (snd r) = pc_queue s0 \<and> pc_produced (snd r) = pc_produced s0
           \<and> pc_consumed (snd r) = pc_consumed s0
           \<and> pc_logs (snd r) =
               slice1 (- 12) (pc_logs s0) @
                 [span_line ''text-yellow-400'' now
                    (''Consumer '' @ show_int i @ '': BLOCKED - Queue empty!'')])"
  by (simp add: pc_consume_def Let_def pc_addLog_def pc_colors_def slice1_def split: list.splits)

lemma pc_demo_run:
  "length (pc_queue (pc_exec pc_demo_events pc_init)) = 5"
  "pc_produced (pc_exec pc_demo_events pc_init) = 5"
  "pc_consumed (pc_exec pc_demo_events pc_init) = 0"
  by (simp_all add: pc_exec_def pc_demo_events_def pc_init_def no_timers_def pc_runSimulation_def
      pc_reset_def pc_tick_def pc_produce_def pc_fill_def Let_def BUFFER_SIZE_def pc_addLog_def
      pc_COLORS_def closure_of_def setInterval_def set_closure_def clearRef_def)

text \<open>
  C9. Whatever happens to the producer-consumer page after it is constructed (starts,
  resets, pauses, firings of any timer with any random draws, timeouts), the queue never
  holds more than \<open>BUFFER_SIZE = 5\<close> items, the consumed count never exceeds the
  produced count, and produced minus consumed is the queue length. A producer action
  appends an item exactly when the local queue holds fewer than 5 items; otherwise it
  leaves queue and counters alone and logs the "BLOCKED - Queue full!" line. A consumer
  action removes the front item exactly when the local queue is not empty; otherwise it
  leaves queue and counters alone and logs the "BLOCKED - Queue empty!" line.
\<close>

theorem pc_bounded_buffer:
  "BUFFER_SIZE = 5
   \<and> (let s = pc_exec evs pc_init in
        length (pc_queue s) \<le> BUFFER_SIZE \<and> pc_consumed s \<le> pc_produced s
        \<and> pc_produced s - pc_consumed s = int (length (pc_queue s)))
   \<and> (let r = pc_produce now i (c, s0) in
        if length (localQueue c) < 5
        then localQueue (fst r) =
               localQueue c @
                 [\<lparr>pci_id = localItemCounter c + 1,
                   pci_color = pc_COLORS ! nat ((localItemCounter c + 1) mod 7),
                   pci_producedBy = i, pci_status = ItInQueue\<rparr>]
             \<and> pc_queue (snd r) = localQueue (fst r)
             \<and> localProduced (fst r) = localProduced c + 1
             \<and> pc_produced (snd r) = localProduced c + 1
        else fst r = c
             \<and> pc_queue (snd r) = pc_queue s0 \<and> pc_produced (snd r) = pc_produced s0
             \<and> pc_consumed (snd r) = pc_consumed s0 \<and> pc_itemCounter (snd r) = pc_itemCounter s0
             \<and> pc_logs (snd r) =
                 slice1 (- 12) (pc_logs s0) @
                   [span_line ''text-yellow-400'' now
                      (''Producer '' @ show_int i @ '': BLOCKED - Queue full!'')])
   \<and> (let r = pc_consume now i (c, s0) in
        if localQueue c \<noteq> []
        then localQueue (fst r) = tl (localQueue c)
             \<and> pc_queue (snd r) = tl (localQueue c)
             \<and> localConsumed (fst r) = localConsumed c + 1
             \<and> pc_consumed (snd r) = localConsumed c + 1
        else fst r = c
             \<and> pc_queue (snd r) = pc_queue s0 \<and> pc_produced (snd r) = pc_produced s0
             \<and> pc_consumed (snd r) = pc_consumed s0
             \<and> pc_logs (snd r) =
                 slice1 (- 12) (pc_logs s0) @
                   [span_line ''text-yellow-400'' now
                      (''Consumer '' @ show_int i @ '': BLOCKED - Queue empty!'')])"
proof -
  have "pc_inv (pc_exec evs pc_init)"
    using pc_exec_good [OF pc_init_good] by simp
  then have "let s = pc_exec evs pc_init in
        length (pc_queue s) \<le> BUFFER_SIZE \<and> pc_consumed s \<le> pc_produced s
        \<and> pc_produced s - pc_consumed s = int (length (pc_queue s))"
    by (simp add: pc_inv_def)
  then show ?thesis
    using pc_produce_cases [of now i c s0] pc_consume_cases [of now i c s0]
    by (simp add: BUFFER_SIZE_def)
qed

text \<open>Six producer actions in a row from the start: the sixth finds the buffer full.\<close>

theorem pc_bounded_buffer_witness:
  "length (pc_queue (pc_exec pc_demo_events pc_init)) = 5
   \<and> length (pc_queue (pc_exec pc_demo_events pc_init)) \<le> BUFFER_SIZE
   \<and> pc_produced (pc_exec pc_demo_events pc_init) - pc_consumed (pc_exec pc_demo_events pc_init) = 5"
  using pc_bounded_buffer [of pc_demo_events "''''" 1 "\<lparr>localItemCounter = 0, localQueue = [],
      localProduced = 0, localConsumed = 0\<rparr>" pc_init]
  by (simp add: Let_def pc_demo_run)

subsection \<open>Admission of a request on the semaphore page\<close>

lemma sem_queue_full_facts:
  "sem_availablePermits sem_queue_full = 0"
  "length (sem_waitingRequests sem_queue_full) = 10"
  "sem_requestCounter sem_queue_full = 13"
  "sem_rejectedCount sem_queue_full = 0"
  "length (sem_activeRequests sem_queue_full) = 3"
  by (simp_all add: sem_queue_full_def sem_exec_def eval_nat_numeral sem_addRequest_def
      sem_render_def spawnRequest_def sem_runSimulation_def sem_reset_def sem_init_def Let_def
      sem_addLog_def)

lemma spawnRequest_cases:
  "(let s' = spawnRequest now v s;
        newRequest = \<lparr>req_id = v_requestCounter v + 1, req_status = SemWaiting,
             req_color = sem_COLORS ! nat (v_requestCounter v mod 7), req_progress = 0\<rparr>
    in if v_availablePermits v > 0 then
         s' = s\<lparr>sem_requestCounter := sem_requestCounter s + 1,
                sem_availablePermits := sem_availablePermits s - 1,
                sem_activeRequests :=
                  sem_activeRequests s @ [newRequest\<lparr>req_status := SemProcessing\<rparr>],
                sem_logs := slice1 (- 12) (sem_logs s) @
                  [span_line ''text-green-400'' now
                     (''Request #'' @ show_int (v_requestCounter v + 1) @
                      '': Acquired permit ('' @ show_int (v_availablePermits v - 1) @ '' left)'')]\<rparr>
       else if length (v_waitingRequests v) < 10 then
         s' = s\<lparr>sem_requestCounter := sem_requestCounter s + 1,
                sem_waitingRequests := sem_waitingRequests s @ [newRequest],
                sem_logs := slice1 (- 12) (sem_logs s) @
                  [span_line ''text-slate-400'' now
                     (''Request #'' @ show_int (v_requestCounter v + 1) @
                      '': Waiting for permit...'')]\<rparr>
       else
         s' = s\<lparr>sem_requestCounter := sem_requestCounter s + 1,
                sem_rejectedCount := sem_rejectedCount s + 1,
                sem_logs := slice1 (- 12) (sem_logs s) @
                  [span_line ''text-red-400'' now
                     (''Request #'' @ show_int (v_requestCounter v + 1) @
                      '': REJECTED - Queue full!'')]\<rparr>)"
  by (simp add: spawnRequest_def Let_def sem_addLog_def sem_colors_def sem_COLORS_def)

lemma spawnRequest_rejected_iff:
  "(sem_rejectedCount (spawnRequest now v s) = sem_rejectedCount s + 1) =
     (v_availablePermits v \<le> 0 \<and> 10 \<le> length (v_waitingRequests v))"
  "(last (sem_logs (spawnRequest now v s)) =
      span_line ''text-red-400'' now
        (''Request #'' @ show_int (v_requestCounter v + 1) @ '': REJECTED - Queue full!'')) =
     (v_availablePermits v \<le> 0 \<and> 10 \<le> length (v_waitingRequests v))"
  using spawnRequest_cases [of now v s]
  by (auto simp: Let_def span_line_def split: if_splits)

text \<open>
  C8, as the code has it. A request spawned with the Add Request button is rejected (the
  rejected counter goes up by one and the "REJECTED - Queue full!" line is logged)
  exactly when no permit is available (\<open>availablePermits\<close> is not positive) and the
  waiting queue holds at least 10 requests. Otherwise it is admitted: with a permit it
  joins the active requests as "processing" and the permit count drops by one, without
  one it joins the waiting queue. Every spawn, the rejected one too, increments the
  request counter: a rejection changes the request counter, the rejected counter and the
  log, and nothing else.
\<close>

theorem spawnRequest_admission:
  "(sem_rejectedCount (sem_addRequest now s) = sem_rejectedCount s + 1) =
       (sem_availablePermits s \<le> 0 \<and> 10 \<le> length (sem_waitingRequests s))
   \<and> (last (sem_logs (sem_addRequest now s)) =
        span_line ''text-red-400'' now
          (''Request #'' @ show_int (sem_requestCounter s + 1) @ '': REJECTED - Queue full!'')) =
       (sem_availablePermits s \<le> 0 \<and> 10 \<le> length (sem_waitingRequests s))
   \<and> sem_requestCounter (sem_addRequest now s) = sem_requestCounter s + 1
   \<and> (let s' = sem_addRequest now s;
           newRequest = \<lparr>req_id = sem_requestCounter s + 1, req_status = SemWaiting,
             req_color = sem_COLORS ! nat (sem_requestCounter s mod 7), req_progress = 0\<rparr>
       in if sem_availablePermits s > 0 then
            s' = s\<lparr>sem_requestCounter := sem_requestCounter s + 1,
                   sem_availablePermits := sem_availablePermits s - 1,
                   sem_activeRequests :=
                     sem_activeRequests s @ [newRequest\<lparr>req_status := SemProcessing\<rparr>],
                   sem_logs := slice1 (- 12) (sem_logs s) @
                     [span_line ''text-green-400'' now
                        (''Request #'' @ show_int (sem_requestCounter s + 1) @
                         '': Acquired permit ('' @ show_int (sem_availablePermits s - 1) @
                         '' left)'')]\<rparr>
          else if length (sem_waitingRequests s) < 10 then
            s' = s\<lparr>sem_requestCounter := sem_requestCounter s + 1,
                   sem_waitingRequests := sem_waitingRequests s @ [newRequest],
                   sem_logs := slice1 (- 12) (sem_logs s) @
                     [span_line ''text-slate-400'' now
                        (''Request #'' @ show_int (sem_requestCounter s + 1) @
                         '': Waiting for permit...'')]\<rparr>
          else
            s' = s\<lparr>sem_requestCounter := sem_requestCounter s + 1,
                   sem_rejectedCount := sem_rejectedCount s + 1,
                   sem_logs := slice1 (- 12) (sem_logs s) @
                     [span_line ''text-red-400'' now
                        (''Request #'' @ show_int (sem_requestCounter s + 1) @
                         '': REJECTED - Queue full!'')]\<rparr>)"
proof -
  have v: "v_availablePermits (sem_render s) = sem_availablePermits s"
    "v_waitingRequests (sem_render s) = sem_waitingRequests s"
    "v_requestCounter (sem_render s) = sem_requestCounter s"
    by (simp_all add: sem_render_def)
  note cases = spawnRequest_cases [of now "sem_render s" s, unfolded Let_def v]
  note iff = spawnRequest_rejected_iff [of now "sem_render s" s, unfolded v]
  have "sem_requestCounter (spawnRequest now (sem_render s) s) = sem_requestCounter s + 1"
    using cases by (auto split: if_splits)
  then show ?thesis
    unfolding Let_def sem_addRequest_def using cases iff by simp
qed

text \<open>The fourteenth click after a start is rejected.\<close>

theorem spawnRequest_admission_witness:
  "sem_rejectedCount (sem_addRequest ''12:00:01'' sem_queue_full) = 1
   \<and> sem_requestCounter (sem_addRequest ''12:00:01'' sem_queue_full) = 14
   \<and> sem_waitingRequests (sem_addRequest ''12:00:01'' sem_queue_full) =
       sem_waitingRequests sem_queue_full"
  using spawnRequest_admission [of "''12:00:01''" sem_queue_full]
  by (simp add: Let_def sem_queue_full_facts)

text \<open>
  The claim as stated fails there: the rejected spawn changes the request counter, a
  tracked state field other than the rejected counter and the log.
\<close>

theorem spawnRequest_rejection_counterexample:
  "sem_availablePermits sem_queue_full = 0
   \<and> length (sem_waitingRequests sem_queue_full) = 10
   \<and> sem_rejectedCount (sem_addRequest ''12:00:01'' sem_queue_full) =
       sem_rejectedCount sem_queue_full + 1
   \<and> sem_requestCounter (sem_addRequest ''12:00:01'' sem_queue_full) \<noteq>
       sem_requestCounter sem_queue_full"
  by (simp add: sem_addRequest_def sem_render_def spawnRequest_def Let_def sem_addLog_def
      sem_queue_full_facts)

subsection \<open>Selection on the starvation page\<close>

lemma set_insort_cmp: "set (insort_cmp cmp x ys) = insert x (set ys)"
  by (induction ys) auto

lemma set_sort_cmp: "set (sort_cmp cmp xs) = set xs"
  by (induction xs) (auto simp: sort_cmp_def set_insort_cmp)

lemma sorted_insort_key:
  "sorted_wrt (\<lambda>a b. key a \<le> key b) ys \<Longrightarrow>
   sorted_wrt (\<lambda>a b. (key a :: int) \<le> key b) (insort_cmp (\<lambda>a b. key a - key b) x ys)"
  by (induction ys) (auto simp: set_insort_cmp)

lemma sorted_sort_key:
  "sorted_wrt (\<lambda>a b. (key a :: int) \<le> key b) (sort_cmp (\<lambda>a b. key a - key b) xs)"
  by (induction xs) (auto simp: sort_cmp_def intro: sorted_insort_key)

lemma sort_key_head:
  assumes "sort_cmp (\<lambda>a b. (key a :: int) - key b) xs = y # ys"
  shows "y \<in> set xs \<and> (\<forall>x \<in> set xs. key y \<le> key x)"
proof -
  have "set xs = insert y (set ys)"
    using set_sort_cmp [of "\<lambda>a b. key a - key b" xs] assms by simp
  moreover have "sorted_wrt (\<lambda>a b. key a \<le> key b) (y # ys)"
    using sorted_sort_key [of key xs] assms by simp
  ultimately show ?thesis by auto
qed

lemma sv_select_unfair:
  assumes "sv_select Unfair threads = Some i"
  shows "i < length threads \<and> svt_status (threads ! i) \<noteq> SvRunning
    \<and> (\<forall>t \<in> set threads. svt_status t \<noteq> SvRunning \<longrightarrow>
          priorityOrder (svt_priority (threads ! i)) \<le> priorityOrder (svt_priority t))"
proof -
  let ?key = "\<lambda>i. priorityOrder (svt_priority (threads ! i))"
  let ?waiting = "filter (\<lambda>i. svt_status (threads ! i) \<noteq> SvRunning) [0..<length threads]"
  have cmp: "(\<lambda>i j. sv_compare Unfair (threads ! i) (threads ! j)) = (\<lambda>a b. ?key a - ?key b)"
    by (simp add: sv_compare_def)
  obtain rest where "sort_cmp (\<lambda>a b. ?key a - ?key b) ?waiting = i # rest"
    using assms by (auto simp: sv_select_def Let_def cmp split: list.splits)
  from sort_key_head [OF this]
  have mem: "i \<in> set ?waiting" and least: "\<forall>j \<in> set ?waiting. ?key i \<le> ?key j"
    by auto
  have le: "?key i \<le> priorityOrder (svt_priority t)"
    if t: "t \<in> set threads" "svt_status t \<noteq> SvRunning" for t
  proof -
    from t(1) obtain j where j: "j < length threads" "threads ! j = t"
      unfolding in_set_conv_nth by blast
    have "j \<in> set ?waiting"
      using j t(2) by simp
    with least have "?key i \<le> ?key j"
      by blast
    then show ?thesis
      by (simp only: j(2))
  qed
  have "i < length threads" "svt_status (threads ! i) \<noteq> SvRunning"
    using mem by simp_all
  then show ?thesis
    using le by blast
qed

lemma sv_age_keeps:
  "svt_priority (sv_age t) = svt_priority t"
  "svt_id (sv_age t) = svt_id t"
  "(svt_status (sv_age t) = SvRunning) = (svt_status t = SvRunning)"
  by (auto simp: sv_age_def)

lemma find_index_Some:
  "find_index P xs = Some r \<Longrightarrow> r < length xs \<and> P (xs ! r)"
  by (induction xs arbitrary: r) (auto split: if_splits)

text \<open>The code's table puts the priorities in the order their names express.\<close>

lemma higher_priority_order: "higher_priority p q = (priorityOrder p < priorityOrder q)"
  by (cases p; cases q) (simp_all add: higher_priority_def priorityOrder_def)

text \<open>
  C7. In the unfair scenario, whenever a firing assigns the lock (a thread was selected
  and the interval's \<open>lockHolder\<close> is empty), the thread it selects is one that was not
  running when the firing began, and no thread that was not running then has a strictly
  higher priority, high being above medium and medium above low. The firing makes the
  selected thread the lock holder and the current thread and sets its status to
  "running".
\<close>

theorem sv_unfair_selects_highest:
  assumes live: "closure_of (sv_timers s) h = Some c"
    and run: "\<not> sv_pauseRef s"
    and unfair: "c_scenario c = Unfair"
    and free: "\<not> truthy (c_lockHolder c)"
    and sel: "sv_select (c_scenario c) (map sv_age (sv_threads s)) = Some i"
  shows "i < length (sv_threads s)
    \<and> svt_status (sv_threads s ! i) \<noteq> SvRunning
    \<and> (\<forall>t \<in> set (sv_threads s). svt_status t \<noteq> SvRunning \<longrightarrow>
          \<not> higher_priority (svt_priority t) (svt_priority (sv_threads s ! i)))
    \<and> sv_lockHolder (sv_tick_fire rnd h s) = Some (svt_id (sv_threads s ! i))
    \<and> svt_status (sv_threads (sv_tick_fire rnd h s) ! i) = SvRunning
    \<and> sv_currentThread (sv_tick_fire rnd h s) = Some (sv_threads (sv_tick_fire rnd h s) ! i)"
proof -
  let ?ts = "map sv_age (sv_threads s)"
  have sel: "sv_select Unfair ?ts = Some i"
    using sel unfair by simp
  from sv_select_unfair [OF sel]
  have i: "i < length (sv_threads s)" and wait: "svt_status (?ts ! i) \<noteq> SvRunning"
    and least: "\<forall>t \<in> set ?ts. svt_status t \<noteq> SvRunning \<longrightarrow>
          priorityOrder (svt_priority (?ts ! i)) \<le> priorityOrder (svt_priority t)"
    by auto
  have a: "svt_status (sv_threads s ! i) \<noteq> SvRunning"
    using wait i by (simp add: sv_age_keeps)
  have b: "priorityOrder (svt_priority (sv_threads s ! i)) \<le> priorityOrder (svt_priority t)"
    if "t \<in> set (sv_threads s)" "svt_status t \<noteq> SvRunning" for t
  proof -
    have "sv_age t \<in> set ?ts" using that(1) by simp
    moreover have "svt_status (sv_age t) \<noteq> SvRunning" using that(2) by (simp add: sv_age_keeps)
    ultimately have "priorityOrder (svt_priority (?ts ! i)) \<le> priorityOrder (svt_priority (sv_age t))"
      using least by blast
    then show ?thesis using i by (simp add: sv_age_keeps)
  qed
  have ne: "r \<noteq> i" if "find_index (\<lambda>t. svt_status t = SvRunning) ?ts = Some r" for r
    using find_index_Some [OF that] wait by auto
  have unf: "c_scenario c = Unfair" by (rule unfair)
  have c: "sv_lockHolder (sv_tick_fire rnd h s) = Some (svt_id (sv_threads s ! i))
    \<and> svt_status (sv_threads (sv_tick_fire rnd h s) ! i) = SvRunning
    \<and> sv_currentThread (sv_tick_fire rnd h s) = Some (sv_threads (sv_tick_fire rnd h s) ! i)"
  proof (cases "find_index (\<lambda>t. svt_status t = SvRunning) ?ts")
    case None
    then show ?thesis
      using i by (simp add: sv_tick_fire_def Let_def live run unf free sel sv_addLog_def sv_age_keeps)
  next
    case (Some r)
    have "r \<noteq> i" by (rule ne [OF Some])
    then show ?thesis
      using i Some
      by (simp add: sv_tick_fire_def Let_def live run unf free sel sv_addLog_def sv_age_keeps)
  qed
  have b': "\<not> higher_priority (svt_priority t) (svt_priority (sv_threads s ! i))"
    if "t \<in> set (sv_threads s)" "svt_status t \<noteq> SvRunning" for t
    using b [OF that] by (simp add: higher_priority_order)
  show ?thesis using i a b' c by auto
qed

lemma sv_two_running_facts:
  "closure_of (sv_timers sv_two_running) 1 =
     Some \<lparr>localTick = 2, c_scenario = Unfair, c_lockHolder = None, c_tick = 0\<rparr>"
  "sv_pauseRef sv_two_running = False"
  "map svt_status (sv_threads sv_two_running) =
     [SvRunning, SvRunning, SvWaiting, SvWaiting, SvWaiting]"
  "map svt_priority (sv_threads sv_two_running) = [High, High, Medium, Low, Low]"
  "map svt_id (sv_threads sv_two_running) = [1, 2, 3, 4, 5]"
  "sv_select Unfair (map sv_age (sv_threads sv_two_running)) = Some 2"
  by (simp_all add: sv_two_running_def sv_exec_def sv_runSimulation_def sv_reset_def sv_init_def
      no_timers_def sv_tick_fire_def Let_def initThreads_def sv_age_def sv_select_def
      sort_cmp_def sv_compare_def priorityOrder_def truthy_def sv_addLog_def
      closure_of_def setInterval_def set_closure_def clearRef_def upt_conv_Cons)

text \<open>
  The third firing after the start selects the medium-priority thread, while the two
  low-priority threads wait.
\<close>

theorem sv_unfair_selects_highest_witness:
  "sv_lockHolder (sv_tick_fire 0.5 1 sv_two_running) = Some (svt_id (sv_threads sv_two_running ! 2))
   \<and> svt_status (sv_threads (sv_tick_fire 0.5 1 sv_two_running) ! 2) = SvRunning
   \<and> svt_priority (sv_threads sv_two_running ! 2) = Medium
   \<and> map svt_priority (sv_threads sv_two_running) = [High, High, Medium, Low, Low]
   \<and> map svt_status (sv_threads sv_two_running) =
       [SvRunning, SvRunning, SvWaiting, SvWaiting, SvWaiting]"
proof -
  have live: "closure_of (sv_timers sv_two_running) 1 =
      Some \<lparr>localTick = 2, c_scenario = Unfair, c_lockHolder = None, c_tick = 0\<rparr>"
    by (rule sv_two_running_facts)
  have "map svt_priority (sv_threads sv_two_running) ! 2 = Medium"
    by (simp add: sv_two_running_facts)
  moreover have "length (map svt_priority (sv_threads sv_two_running)) = 5"
    by (simp add: sv_two_running_facts)
  ultimately have "svt_priority (sv_threads sv_two_running ! 2) = Medium"
    by simp
  then show ?thesis
    using sv_unfair_selects_highest [OF live, of 2 "0.5"]
    by (simp add: sv_two_running_facts truthy_def)
qed

subsection \<open>Pause\<close>

lemma pc_paused_tick: "pc_pauseRef s \<Longrightarrow> pc_tick now d h s = s"
  by (simp add: pc_tick_def split: option.split)

lemma sv_paused_tick: "sv_pauseRef s \<Longrightarrow> sv_tick_fire rnd h s = s"
  by (simp add: sv_tick_fire_def split: option.split)

lemma sem_paused_tick: "sem_pauseRef s \<Longrightarrow> sem_tick fl now rnd h s = s"
  by (simp add: sem_tick_def split: option.split)

lemma tp_paused_tick: "tp_pauseRef s \<Longrightarrow> tp_tick fl now h s = s"
  by (simp add: tp_tick_def split: option.split)

lemma rw_paused_tick: "rw_pauseRef s \<Longrightarrow> rw_tick now ms rnd h s = s"
  by (simp add: rw_tick_def split: option.split)

lemma fold_noop: "(\<And>x. f x s = s) \<Longrightarrow> fold f xs s = s"
  by (induction xs) simp_all

text \<open>
  C3. The five pages that offer pause (producer-consumer, starvation, semaphore, thread
  pool, reader-writer) keep the flag in \<open>pauseRef\<close>, which the pause button toggles and
  the interval callback reads first. While it is set, a firing of any timer of the page,
  with any clock reading, any random draws and any rounding of the arithmetic, returns
  the page state unchanged, and so does any sequence of firings.
\<close>

theorem paused_ticks_change_nothing:
  "pc_pauseRef (pc_togglePause p) = (\<not> pc_pauseRef p)
   \<and> sv_pauseRef (sv_togglePause v) = (\<not> sv_pauseRef v)
   \<and> sem_pauseRef (sem_togglePause m) = (\<not> sem_pauseRef m)
   \<and> tp_pauseRef (tp_togglePause t) = (\<not> tp_pauseRef t)
   \<and> rw_pauseRef (rw_togglePause r) = (\<not> rw_pauseRef r)
   \<and> (pc_pauseRef p \<longrightarrow>
        pc_tick now d h p = p
        \<and> fold (\<lambda>x. pc_tick (fst x) (fst (snd x)) (snd (snd x))) pticks p = p)
   \<and> (sv_pauseRef v \<longrightarrow>
        sv_tick_fire rnd1 h v = v \<and> fold (\<lambda>x. sv_tick_fire (fst x) (snd x)) vticks v = v)
   \<and> (sem_pauseRef m \<longrightarrow>
        sem_tick fl now rnd h m = m
        \<and> fold (\<lambda>x. sem_tick fl (fst x) (fst (snd x)) (snd (snd x))) mticks m = m)
   \<and> (tp_pauseRef t \<longrightarrow>
        tp_tick fl now h t = t \<and> fold (\<lambda>x. tp_tick fl (fst x) (snd x)) tticks t = t)
   \<and> (rw_pauseRef r \<longrightarrow>
        rw_tick now ms rnd h r = r
        \<and> fold (\<lambda>x. rw_tick (fst x) (fst (snd x)) (fst (snd (snd x))) (snd (snd (snd x))))
            rticks r = r)"
  by (simp add: pc_togglePause_def sv_togglePause_def sem_togglePause_def tp_togglePause_def
      rw_togglePause_def pc_paused_tick sv_paused_tick sem_paused_tick tp_paused_tick
      rw_paused_tick fold_noop)

text \<open>Each page started and then paused: two firings leave it as it is.\<close>

theorem paused_ticks_change_nothing_witness:
  "pc_pauseRef (pc_togglePause (pc_runSimulation pc_init))
   \<and> pc_tick ''12:00:00'' pc_fill 1 (pc_togglePause (pc_runSimulation pc_init)) =
       pc_togglePause (pc_runSimulation pc_init)
   \<and> sv_tick_fire 0.9 1 (sv_togglePause (sv_runSimulation sv_init)) =
       sv_togglePause (sv_runSimulation sv_init)
   \<and> sem_tick (\<lambda>x. x) ''12:00:00'' (\<lambda>k. 0.9) 1 (sem_togglePause (sem_runSimulation sem_init)) =
       sem_togglePause (sem_runSimulation sem_init)
   \<and> tp_tick (\<lambda>x. x) ''12:00:00'' 1 (tp_togglePause (tp_runSimulation tp_init)) =
       tp_togglePause (tp_runSimulation tp_init)
   \<and> rw_tick ''12:00:00'' 0 (\<lambda>k. 0.9) 1 (rw_togglePause (rw_runSimulation rw_init)) =
       rw_togglePause (rw_runSimulation rw_init)"
proof -
  have p: "pc_pauseRef (pc_togglePause (pc_runSimulation pc_init))"
    by (simp add: pc_togglePause_def pc_runSimulation_def pc_reset_def pc_init_def Let_def)
  have v: "sv_pauseRef (sv_togglePause (sv_runSimulation sv_init))"
    by (simp add: sv_togglePause_def sv_runSimulation_def sv_reset_def sv_init_def Let_def)
  have m: "sem_pauseRef (sem_togglePause (sem_runSimulation sem_init))"
    by (simp add: sem_togglePause_def sem_runSimulation_def sem_reset_def sem_init_def Let_def)
  have t: "tp_pauseRef (tp_togglePause (tp_runSimulation tp_init))"
    by (simp add: tp_togglePause_def tp_runSimulation_def tp_init_def tp_constructed_def
        tp_workers_effect_def Let_def)
  have r: "rw_pauseRef (rw_togglePause (rw_runSimulation rw_init))"
    by (simp add: rw_togglePause_def rw_runSimulation_def rw_init_def Let_def)
  show ?thesis
    using paused_ticks_change_nothing
      [where p = "pc_togglePause (pc_runSimulation pc_init)"
        and v = "sv_togglePause (sv_runSimulation sv_init)"
        and m = "sem_togglePause (sem_runSimulation sem_init)"
        and t = "tp_togglePause (tp_runSimulation tp_init)"
        and r = "rw_togglePause (rw_runSimulation rw_init)"
        and now = "''12:00:00''" and d = pc_fill and h = 1 and pticks = "[]" and ?rnd1.0 = "0.9"
        and vticks = "[]" and fl = "\<lambda>x. x" and rnd = "\<lambda>k. 0.9" and mticks = "[]"
        and tticks = "[]" and ms = 0 and rticks = "[]"]
      p v m t r
    by simp
qed

subsection \<open>Reset\<close>

lemma dl_reset_eq:
  "dl_reset s =
     dl_init\<lparr>dl_showExplanation := dl_showExplanation s, dl_intervalRef := dl_intervalRef s,
             dl_timers := clearRef (dl_intervalRef s) (dl_timers s)\<rparr>"
  by (simp add: dl_reset_def dl_init_def)

lemma av_reset_eq:
  "av_reset s =
     av_init\<lparr>av_intervalRef := av_intervalRef s,
             av_timers := clearRef (av_intervalRef s) (av_timers s)\<rparr>"
  by (simp add: av_reset_def av_init_def)

lemma mo_reset_eq:
  "mo_reset s =
     mo_init\<lparr>mo_scenario := mo_scenario s, mo_intervalRef := mo_intervalRef s,
             mo_timers := clearRef (mo_intervalRef s) (mo_timers s)\<rparr>"
  by (simp add: mo_reset_def mo_init_def)

lemma pc_reset_eq:
  "pc_reset s =
     pc_init\<lparr>pc_intervalRef := pc_intervalRef s,
             pc_timers := clearRef (pc_intervalRef s) (pc_timers s),
             pc_timeouts := pc_timeouts s\<rparr>"
  by (simp add: pc_reset_def pc_init_def)

lemma rw_reset_eq:
  "rw_reset s =
     rw_init\<lparr>rw_intervalRef := rw_intervalRef s,
             rw_timers := clearRef (rw_intervalRef s) (rw_timers s)\<rparr>"
  by (simp add: rw_reset_def rw_init_def)

lemma sem_reset_eq:
  "sem_reset s =
     sem_init\<lparr>sem_maxPermits := sem_maxPermits s, sem_availablePermits := sem_maxPermits s,
              sem_autoSpawn := sem_autoSpawn s, sem_intervalRef := sem_intervalRef s,
              sem_timers := clearRef (sem_intervalRef s) (sem_timers s)\<rparr>"
  by (simp add: sem_reset_def sem_init_def)

lemma sv_reset_eq:
  "sv_reset s =
     sv_init\<lparr>sv_showExplanation := sv_showExplanation s, sv_scenario := sv_scenario s,
             sv_threads := initThreads, sv_intervalRef := sv_intervalRef s,
             sv_timers := clearRef (sv_intervalRef s) (sv_timers s)\<rparr>"
  by (simp add: sv_reset_def sv_init_def)

lemma tp_reset_eq:
  "tp_reset s =
     tp_constructed\<lparr>tp_workerCount := tp_workerCount s,
                    tp_workers := make_workers (tp_workerCount s),
                    tp_intervalRef := tp_intervalRef s,
                    tp_timers := clearRef (tp_intervalRef s) (tp_timers s)\<rparr>"
  by (simp add: tp_reset_def tp_constructed_def)

lemma resetAll_eq:
  "resetAll s =
     rc_init\<lparr>rc_unsafeInterval := rc_unsafeInterval s, rc_atomicInterval := rc_atomicInterval s,
             rc_unsafeTimers := clearRef (rc_unsafeInterval s) (rc_unsafeTimers s),
             rc_atomicTimers := clearRef (rc_atomicInterval s) (rc_atomicTimers s)\<rparr>"
  by (simp add: resetAll_def rc_init_def)

lemma lp_reset_eq:
  "resetLockDemo s =
     s\<lparr>lp_lockDemo := lp_lockDemo lp_init,
       lp_lockTimers := clearRef (lp_lockInterval s) (lp_lockTimers s)\<rparr>"
  "resetCASDemo s =
     s\<lparr>lp_casDemo := lp_casDemo lp_init,
       lp_casTimers := clearRef (lp_casInterval s) (lp_casTimers s)\<rparr>"
  by (simp_all add: resetLockDemo_def resetCASDemo_def lp_init_def)

lemma clearRef_dead: "closure_of (clearRef (Some h) T) h = None"
  by (simp add: clearRef_def)

text \<open>
  C2, as the code has it. On every page the reset function, in whatever state it is
  called, cancels the interval that the page's ref holds and returns the fields of the
  run to their initial values. It leaves alone what the user has set: \<open>maxPermits\<close> and
  \<open>autoSpawn\<close> of the semaphore page, \<open>workerCount\<close> of the thread pool page, the
  \<open>scenario\<close> of the starvation and memory ordering pages and the \<open>showExplanation\<close>
  flags. Three fields return to a value made from these settings or from the start of a
  run, not to the value the page was constructed with: the semaphore's
  \<open>availablePermits\<close> becomes \<open>maxPermits\<close>, the thread pool's \<open>workers\<close> become
  \<open>workerCount\<close> idle workers, and the starvation page's \<open>threads\<close> become the five
  initial threads (it is constructed with none). The race-condition page resets both of
  its demos at once, the locks page each demo by its own button. The timeouts of the
  producer-consumer page are not cancelled.
\<close>

theorem reset_restores_run_state:
  "dl_reset d =
     dl_init\<lparr>dl_showExplanation := dl_showExplanation d, dl_intervalRef := dl_intervalRef d,
             dl_timers := clearRef (dl_intervalRef d) (dl_timers d)\<rparr>
   \<and> av_reset a =
       av_init\<lparr>av_intervalRef := av_intervalRef a,
               av_timers := clearRef (av_intervalRef a) (av_timers a)\<rparr>
   \<and> mo_reset m =
       mo_init\<lparr>mo_scenario := mo_scenario m, mo_intervalRef := mo_intervalRef m,
               mo_timers := clearRef (mo_intervalRef m) (mo_timers m)\<rparr>
   \<and> pc_reset p =
       pc_init\<lparr>pc_intervalRef := pc_intervalRef p,
               pc_timers := clearRef (pc_intervalRef p) (pc_timers p),
               pc_timeouts := pc_timeouts p\<rparr>
   \<and> rw_reset r =
       rw_init\<lparr>rw_intervalRef := rw_intervalRef r,
               rw_timers := clearRef (rw_intervalRef r) (rw_timers r)\<rparr>
   \<and> sem_reset e =
       sem_init\<lparr>sem_maxPermits := sem_maxPermits e, sem_availablePermits := sem_maxPermits e,
                sem_autoSpawn := sem_autoSpawn e, sem_intervalRef := sem_intervalRef e,
                sem_timers := clearRef (sem_intervalRef e) (sem_timers e)\<rparr>
   \<and> sv_reset v =
       sv_init\<lparr>sv_showExplanation := sv_showExplanation v, sv_scenario := sv_scenario v,
               sv_threads := initThreads, sv_intervalRef := sv_intervalRef v,
               sv_timers := clearRef (sv_intervalRef v) (sv_timers v)\<rparr>
   \<and> tp_reset t =
       tp_constructed\<lparr>tp_workerCount := tp_workerCount t,
                      tp_workers := make_workers (tp_workerCount t),
                      tp_intervalRef := tp_intervalRef t,
                      tp_timers := clearRef (tp_intervalRef t) (tp_timers t)\<rparr>
   \<and> resetAll c =
       rc_init\<lparr>rc_unsafeInterval := rc_unsafeInterval c, rc_atomicInterval := rc_atomicInterval c,
               rc_unsafeTimers := clearRef (rc_unsafeInterval c) (rc_unsafeTimers c),
               rc_atomicTimers := clearRef (rc_atomicInterval c) (rc_atomicTimers c)\<rparr>
   \<and> resetLockDemo l =
       l\<lparr>lp_lockDemo := lp_lockDemo lp_init,
         lp_lockTimers := clearRef (lp_lockInterval l) (lp_lockTimers l)\<rparr>
   \<and> resetCASDemo l =
       l\<lparr>lp_casDemo := lp_casDemo lp_init,
         lp_casTimers := clearRef (lp_casInterval l) (lp_casTimers l)\<rparr>
   \<and> closure_of (clearRef (Some h) T) h = None"
  by (simp add: dl_reset_eq av_reset_eq mo_reset_eq pc_reset_eq rw_reset_eq sem_reset_eq
      sv_reset_eq tp_reset_eq resetAll_eq lp_reset_eq clearRef_dead)

text \<open>A reset in the middle of the deadlock run: the page is as constructed, the timer dead.\<close>

theorem reset_restores_run_state_witness:
  "dl_logs (dl_ticks 1 [''10:00:00'', ''10:00:01'', ''10:00:03''] (runDeadlockScenario dl_init)) \<noteq> []
   \<and> dl_logs (dl_reset (dl_ticks 1 [''10:00:00'', ''10:00:01'', ''10:00:03'']
         (runDeadlockScenario dl_init))) = []
   \<and> dl_threads (dl_reset (dl_ticks 1 [''10:00:00'', ''10:00:01'', ''10:00:03'']
         (runDeadlockScenario dl_init))) = dl_threads dl_init
   \<and> closure_of (dl_timers (dl_reset (dl_ticks 1 [''10:00:00'', ''10:00:01'', ''10:00:03'']
         (runDeadlockScenario dl_init)))) 1 = None"
proof -
  let ?s = "dl_ticks 1 [''10:00:00'', ''10:00:01'', ''10:00:03''] (runDeadlockScenario dl_init)"
  have ref: "dl_intervalRef ?s = Some 1" and log: "dl_logs ?s \<noteq> []"
    by (simp_all add: dl_run_defs dl_init_def no_timers_def)
  have empty: "dl_logs dl_init = []"
    by (simp add: dl_init_def)
  from reset_restores_run_state [of ?s _ _ _ _ _ _ _ _ _ 1 "dl_timers ?s"]
  have eq: "dl_reset ?s =
      dl_init\<lparr>dl_showExplanation := dl_showExplanation ?s, dl_intervalRef := dl_intervalRef ?s,
              dl_timers := clearRef (dl_intervalRef ?s) (dl_timers ?s)\<rparr>"
    and dead: "closure_of (clearRef (Some 1) (dl_timers ?s)) 1 = None"
    by blast+
  have "dl_logs (dl_reset ?s) = []" "dl_threads (dl_reset ?s) = dl_threads dl_init"
    unfolding eq by (simp_all add: empty)
  moreover have "closure_of (dl_timers (dl_reset ?s)) 1 = None"
    unfolding eq ref using dead by simp
  ultimately show ?thesis
    using log by simp
qed

text \<open>
  The claim as stated fails on the semaphore page: after the user has raised the
  maximum to 4, reset puts 4 permits back, while the page was constructed with 3 of 3.
\<close>

theorem reset_defaults_counterexample:
  "sem_availablePermits sem_init = 3
   \<and> sem_maxPermits sem_init = 3
   \<and> sem_availablePermits (sem_reset (updateMaxPermits 1 sem_init)) = 4
   \<and> sem_maxPermits (sem_reset (updateMaxPermits 1 sem_init)) = 4
   \<and> sem_reset (updateMaxPermits 1 sem_init) \<noteq> sem_init"
proof -
  have a: "sem_availablePermits (sem_reset (updateMaxPermits 1 sem_init)) = 4"
    by (simp add: sem_reset_def updateMaxPermits_def sem_init_def Let_def)
  have b: "sem_availablePermits sem_init = 3"
    by (simp add: sem_init_def)
  have "sem_reset (updateMaxPermits 1 sem_init) \<noteq> sem_init"
  proof
    assume "sem_reset (updateMaxPermits 1 sem_init) = sem_init"
    then have "sem_availablePermits (sem_reset (updateMaxPermits 1 sem_init)) =
        sem_availablePermits sem_init"
      by simp
    with a b show False by simp
  qed
  then show ?thesis
    using a b by (simp add: sem_reset_def updateMaxPermits_def sem_init_def Let_def)
qed

subsection \<open>Start\<close>

lemma single_timer_restart:
  "single_timer T r \<Longrightarrow> single_timer (setInterval c (clearRef r T)) (Some (next_handle T))"
  by (auto simp: single_timer_def closure_of_clearRef)

lemma single_timer_first:
  "no_timer T \<Longrightarrow> single_timer (setInterval c T) (Some (next_handle T))"
  by (auto simp: single_timer_def no_timer_def)

lemma dl_start_eq:
  "runDeadlockScenario s =
     dl_init\<lparr>dl_showExplanation := dl_showExplanation s, dl_isRunning := True,
             dl_intervalRef := Some (next_handle (dl_timers s)),
             dl_timers := setInterval 0 (clearRef (dl_intervalRef s) (dl_timers s))\<rparr>"
  by (simp add: runDeadlockScenario_def dl_reset_def dl_init_def Let_def)

lemma mo_start_eq:
  "mo_run sc s =
     mo_init\<lparr>mo_scenario := sc, mo_isRunning := True,
             mo_intervalRef := Some (next_handle (mo_timers s)),
             mo_timers := setInterval (sc, 0) (clearRef (mo_intervalRef s) (mo_timers s))\<rparr>"
  by (simp add: mo_run_def mo_reset_def mo_init_def Let_def)

lemma pc_start_eq:
  "pc_runSimulation s =
     pc_init\<lparr>pc_isRunning := True, pc_intervalRef := Some (next_handle (pc_timers s)),
             pc_timers :=
               setInterval
                 \<lparr>localItemCounter = 0, localQueue = [], localProduced = 0, localConsumed = 0\<rparr>
                 (clearRef (pc_intervalRef s) (pc_timers s)),
             pc_timeouts := pc_timeouts s\<rparr>"
  by (simp add: pc_runSimulation_def pc_reset_def pc_init_def Let_def)

lemma sem_start_eq:
  "sem_runSimulation s =
     sem_init\<lparr>sem_maxPermits := sem_maxPermits s, sem_availablePermits := sem_maxPermits s,
              sem_autoSpawn := sem_autoSpawn s, sem_isRunning := True,
              sem_intervalRef := Some (next_handle (sem_timers s)),
              sem_timers :=
                setInterval (sem_render s) (clearRef (sem_intervalRef s) (sem_timers s))\<rparr>"
  by (simp add: sem_runSimulation_def sem_reset_def sem_init_def Let_def)

lemma sv_start_eq:
  "sv_runSimulation s =
     sv_init\<lparr>sv_showExplanation := sv_showExplanation s, sv_scenario := sv_scenario s,
             sv_threads := initThreads, sv_isRunning := True,
             sv_intervalRef := Some (next_handle (sv_timers s)),
             sv_timers :=
               setInterval
                 \<lparr>localTick = 0, c_scenario = sv_scenario s, c_lockHolder = sv_lockHolder s,
                  c_tick = sv_tick s\<rparr>
                 (clearRef (sv_intervalRef s) (sv_timers s))\<rparr>"
  by (simp add: sv_runSimulation_def sv_reset_def sv_init_def Let_def)

lemma av_start_eq:
  "runDemo s =
     av_init\<lparr>av_asyncTasks := createDemoTasks, av_threadTasks := createDemoTasks,
             av_parallelTasks := createDemoTasks, av_isRunning := True,
             av_intervalRef := Some (next_handle (av_timers s)),
             av_timers :=
               setInterval
                 \<lparr>av_tick = 0, asyncCurrentTask = 0, asyncWaitingFor = [],
                  cap_asyncTasks = av_asyncTasks s, cap_threadTasks = av_threadTasks s,
                  cap_parallelTasks = av_parallelTasks s\<rparr>
                 (clearRef (av_intervalRef s) (av_timers s))\<rparr>"
  by (simp add: runDemo_def av_reset_def av_init_def Let_def)

lemma rc_start_eq:
  "runUnsafeDemo s =
     s\<lparr>rc_unsafeCounter := Num 0, rc_unsafeLog := [], rc_lostUpdates := 0,
       rc_unsafeRunning := True, rc_unsafeThreads := rc_threads0,
       rc_unsafeInterval := Some (next_handle (rc_unsafeTimers s)),
       rc_unsafeTimers :=
         setInterval
           \<lparr>ruc_counter = Num 0, ruc_step = 0, ruc_lost = 0,
            ruc_threadLocalValues = (\<lambda>_. Undefined)\<rparr>
           (rc_unsafeTimers s)\<rparr>"
  "runAtomicDemo s =
     s\<lparr>rc_atomicCounter := 0, rc_atomicLog := [], rc_atomicRunning := True,
       rc_atomicThreads := rc_threads0,
       rc_atomicInterval := Some (next_handle (rc_atomicTimers s)),
       rc_atomicTimers := setInterval (0, 0) (rc_atomicTimers s)\<rparr>"
  by (simp_all add: runUnsafeDemo_def runAtomicDemo_def Let_def)

lemma lp_start_eq:
  "startLockDemo s =
     s\<lparr>lp_lockDemo :=
         \<lparr>lk_active = True, lk_waiting = [2, 3, 4], lk_currentHolder = Some 1,
          lk_completedThreads = [], lk_phase = LkAcquiring,
          lk_executionLog = [''Thread 1 acquired the lock'']\<rparr>,
       lp_lockInterval := Some (next_handle (lp_lockTimers s)),
       lp_lockTimers := setInterval 0 (lp_lockTimers s)\<rparr>"
  "startCASDemo s =
     s\<lparr>lp_casDemo :=
         \<lparr>cas_attempts = [], cas_val = 100, cas_isRunning = True, cas_phase = CasIdle,
          cas_currentThread = None\<rparr>,
       lp_casInterval := Some (next_handle (lp_casTimers s)),
       lp_casTimers := setInterval (0, 100) (lp_casTimers s)\<rparr>"
  by (simp_all add: startLockDemo_def startCASDemo_def Let_def slice1_def)

lemma tp_start_eq:
  "tp_runSimulation s =
     s\<lparr>tp_isRunning := True, tp_intervalRef := Some (next_handle (tp_timers s)),
       tp_timers := setInterval () (tp_timers s)\<rparr>"
  by (simp add: tp_runSimulation_def Let_def)

lemma rw_start_eq:
  "rw_runSimulation s =
     s\<lparr>rw_isRunning := True, rw_intervalRef := Some (next_handle (rw_timers s)),
       rw_timers := setInterval (rw_render s) (rw_timers s)\<rparr>"
  by (simp add: rw_runSimulation_def Let_def)

lemma no_timer_cleared: "single_timer T r \<Longrightarrow> no_timer (clearRef r T)"
  by (auto simp: single_timer_def no_timer_def closure_of_clearRef)

lemma single_timer_none: "no_timer T \<Longrightarrow> single_timer T r"
  by (simp add: single_timer_def no_timer_def)

lemma tp_addLog_frame [simp]:
  "tp_isRunning (tp_addLog now m s) = tp_isRunning s"
  "tp_timers (tp_addLog now m s) = tp_timers s"
  "tp_intervalRef (tp_addLog now m s) = tp_intervalRef s"
  by (simp_all add: tp_addLog_def)

lemma tp_worker_step_frame:
  "tp_isRunning (tp_page (snd (tp_worker_step fl now w l))) = tp_isRunning (tp_page l)
   \<and> tp_timers (tp_page (snd (tp_worker_step fl now w l))) = tp_timers (tp_page l)
   \<and> tp_intervalRef (tp_page (snd (tp_worker_step fl now w l))) = tp_intervalRef (tp_page l)"
  by (simp add: tp_worker_step_def Let_def case_prod_beta split: option.splits)

lemma tp_workers_loop_frame:
  "tp_isRunning (tp_page (snd (tp_workers_loop fl now ws l))) = tp_isRunning (tp_page l)
   \<and> tp_timers (tp_page (snd (tp_workers_loop fl now ws l))) = tp_timers (tp_page l)
   \<and> tp_intervalRef (tp_page (snd (tp_workers_loop fl now ws l))) = tp_intervalRef (tp_page l)"
  by (induction ws arbitrary: l) (simp_all add: Let_def case_prod_beta tp_worker_step_frame)

lemma tp_tick_frame:
  "tp_isRunning (tp_tick fl now h s) = tp_isRunning s"
  "tp_timers (tp_tick fl now h s) = tp_timers s"
  "tp_intervalRef (tp_tick fl now h s) = tp_intervalRef s"
  using tp_workers_loop_frame
    [of fl now "tp_workers s" "\<lparr>newQueue = tp_taskQueue s, newCompleted = [], tp_page = s\<rparr>"]
  by (simp_all add: tp_tick_def Let_def case_prod_beta split: option.splits)

lemma tp_tick_idle: "no_timer (tp_timers s) \<Longrightarrow> tp_tick fl now h s = s"
  by (simp add: tp_tick_def no_timer_def)

lemma tp_apply_inv:
  assumes single: "single_timer (tp_timers s) (tp_intervalRef s)"
    and idle: "\<not> tp_isRunning s \<longrightarrow> tp_idle s"
  shows "single_timer (tp_timers (tp_apply fl e s)) (tp_intervalRef (tp_apply fl e s))
    \<and> (\<not> tp_isRunning (tp_apply fl e s) \<longrightarrow> tp_idle (tp_apply fl e s))"
proof (cases e)
  case TpStart
  then show ?thesis
    using single idle
    by (simp add: tp_runSimulation_def Let_def tp_idle_def single_timer_first)
next
  case TpReset
  have "no_timer (clearRef (tp_intervalRef s) (tp_timers s))"
    by (rule no_timer_cleared [OF single])
  then show ?thesis
    by (simp add: TpReset tp_reset_def tp_idle_def single_timer_none)
next
  case TpTogglePause
  then show ?thesis
    using single idle by (simp add: tp_togglePause_def)
next
  case (TpAddTask now rnd)
  then show ?thesis
    using single idle by (simp add: addTask_def Let_def)
next
  case (TpAddBatch now rnd)
  then show ?thesis
    using single idle by (simp add: addBatchTasks_def Let_def)
next
  case (TpTick now h)
  show ?thesis
  proof (cases "tp_isRunning s")
    case True
    then show ?thesis
      using single by (simp add: TpTick tp_tick_frame)
  next
    case False
    then have "tp_tick fl now h s = s"
      using idle by (simp add: tp_idle_def tp_tick_idle)
    then show ?thesis
      using single idle by (simp add: TpTick)
  qed
next
  case (TpWorkerCount n)
  then show ?thesis
    using single idle by (simp add: tp_setWorkerCount_def tp_workers_effect_def tp_idle_def)
qed

lemma tp_init_inv:
  "single_timer (tp_timers tp_init) (tp_intervalRef tp_init)" "tp_idle tp_init"
  by (simp_all add: tp_init_def tp_workers_effect_def tp_constructed_def tp_idle_def
      single_timer_def no_timer_def)

lemma tp_exec_inv:
  "single_timer (tp_timers s) (tp_intervalRef s) \<Longrightarrow> (\<not> tp_isRunning s \<longrightarrow> tp_idle s) \<Longrightarrow>
   single_timer (tp_timers (tp_exec fl evs s)) (tp_intervalRef (tp_exec fl evs s))
   \<and> (\<not> tp_isRunning (tp_exec fl evs s) \<longrightarrow> tp_idle (tp_exec fl evs s))"
  unfolding tp_exec_def
proof (induction evs arbitrary: s)
  case Nil
  then show ?case by simp
next
  case (Cons e evs)
  from tp_apply_inv [OF Cons.prems, of fl e]
  show ?case
    by (simp add: Cons.IH)
qed

lemma tp_start_idle:
  assumes "tp_idle s" "\<not> tp_isRunning s"
  shows "tp_runSimulation s =
     tp_init\<lparr>tp_workerCount := tp_workerCount s, tp_workers := make_workers (tp_workerCount s),
             tp_isRunning := True, tp_intervalRef := Some (next_handle (tp_timers s)),
             tp_timers := setInterval () (tp_timers s)\<rparr>"
  using assms
  by (simp add: tp_runSimulation_def Let_def tp_idle_def tp_init_def tp_workers_effect_def
      tp_constructed_def)

lemma rw_addLog_frame [simp]:
  "rw_isRunning (rw_addLog now m ty s) = rw_isRunning s"
  "rw_timers (rw_addLog now m ty s) = rw_timers s"
  "rw_intervalRef (rw_addLog now m ty s) = rw_intervalRef s"
  by (simp_all add: rw_addLog_def)

lemma rw_add_frame [simp]:
  "rw_isRunning (addReader now ms v s) = rw_isRunning s"
  "rw_timers (addReader now ms v s) = rw_timers s"
  "rw_intervalRef (addReader now ms v s) = rw_intervalRef s"
  "rw_isRunning (addWriter now ms v s) = rw_isRunning s"
  "rw_timers (addWriter now ms v s) = rw_timers s"
  "rw_intervalRef (addWriter now ms v s) = rw_intervalRef s"
  by (simp_all add: addReader_def addWriter_def Let_def)

lemma rw_finish_read_frame [simp]:
  "rw_isRunning (fold (rw_finish_read now) rs s) = rw_isRunning s"
  "rw_timers (fold (rw_finish_read now) rs s) = rw_timers s"
  "rw_intervalRef (fold (rw_finish_read now) rs s) = rw_intervalRef s"
  by (induction rs arbitrary: s) (simp_all add: rw_finish_read_def Let_def)

lemma rw_promote_reader_frame [simp]:
  "rw_isRunning (fold (rw_promote_reader now) rs s) = rw_isRunning s"
  "rw_timers (fold (rw_promote_reader now) rs s) = rw_timers s"
  "rw_intervalRef (fold (rw_promote_reader now) rs s) = rw_intervalRef s"
  by (induction rs arbitrary: s) (simp_all add: rw_promote_reader_def Let_def)

lemma rw_step_frame [simp]:
  "rw_isRunning (rw_writer_done now v w s) = rw_isRunning s"
  "rw_timers (rw_writer_done now v w s) = rw_timers s"
  "rw_intervalRef (rw_writer_done now v w s) = rw_intervalRef s"
  "rw_isRunning (rw_promote_writer now s) = rw_isRunning s"
  "rw_timers (rw_promote_writer now s) = rw_timers s"
  "rw_intervalRef (rw_promote_writer now s) = rw_intervalRef s"
  by (simp_all add: rw_writer_done_def rw_promote_writer_def Let_def split: list.splits)

lemma rw_tick_frame:
  "rw_isRunning (rw_tick now ms rnd h s) = rw_isRunning s"
  "rw_timers (rw_tick now ms rnd h s) = rw_timers s"
  "rw_intervalRef (rw_tick now ms rnd h s) = rw_intervalRef s"
  by (simp_all add: rw_tick_def Let_def case_prod_beta split: option.splits)

lemma rw_tick_idle: "no_timer (rw_timers s) \<Longrightarrow> rw_tick now ms rnd h s = s"
  by (simp add: rw_tick_def no_timer_def)

lemma rw_apply_inv:
  assumes single: "single_timer (rw_timers s) (rw_intervalRef s)"
    and idle: "\<not> rw_isRunning s \<longrightarrow> rw_idle s"
  shows "single_timer (rw_timers (rw_apply e s)) (rw_intervalRef (rw_apply e s))
    \<and> (\<not> rw_isRunning (rw_apply e s) \<longrightarrow> rw_idle (rw_apply e s))"
proof (cases e)
  case RwStart
  then show ?thesis
    using single idle
    by (simp add: rw_runSimulation_def Let_def rw_idle_def single_timer_first)
next
  case RwReset
  have "no_timer (clearRef (rw_intervalRef s) (rw_timers s))"
    by (rule no_timer_cleared [OF single])
  then show ?thesis
    by (simp add: RwReset rw_reset_def rw_idle_def single_timer_none)
next
  case RwTogglePause
  then show ?thesis
    using single idle by (simp add: rw_togglePause_def)
next
  case (RwAddReader now ms)
  then show ?thesis
    using single idle by simp
next
  case (RwAddWriter now ms)
  then show ?thesis
    using single idle by simp
next
  case (RwTick now ms rnd h)
  show ?thesis
  proof (cases "rw_isRunning s")
    case True
    then show ?thesis
      using single by (simp add: RwTick rw_tick_frame)
  next
    case False
    then have "rw_tick now ms rnd h s = s"
      using idle by (simp add: rw_idle_def rw_tick_idle)
    then show ?thesis
      using single idle by (simp add: RwTick)
  qed
qed

lemma rw_init_inv:
  "single_timer (rw_timers rw_init) (rw_intervalRef rw_init)" "rw_idle rw_init"
  by (simp_all add: rw_init_def rw_idle_def single_timer_def no_timer_def)

lemma rw_exec_inv:
  "single_timer (rw_timers s) (rw_intervalRef s) \<Longrightarrow> (\<not> rw_isRunning s \<longrightarrow> rw_idle s) \<Longrightarrow>
   single_timer (rw_timers (rw_exec evs s)) (rw_intervalRef (rw_exec evs s))
   \<and> (\<not> rw_isRunning (rw_exec evs s) \<longrightarrow> rw_idle (rw_exec evs s))"
  unfolding rw_exec_def
proof (induction evs arbitrary: s)
  case Nil
  then show ?case by simp
next
  case (Cons e evs)
  from rw_apply_inv [OF Cons.prems, of e]
  show ?case
    by (simp add: Cons.IH)
qed

lemma rw_start_idle:
  assumes "rw_idle s" "\<not> rw_isRunning s"
  shows "rw_runSimulation s =
     rw_init\<lparr>rw_isRunning := True, rw_intervalRef := Some (next_handle (rw_timers s)),
             rw_timers := setInterval (rw_render rw_init) (rw_timers s)\<rparr>"
  using assms
  by (simp add: rw_runSimulation_def Let_def rw_idle_def rw_init_def rw_render_def)

text \<open>
  C4, as the code has it. After the start function of a page, every field of the run
  has its start value (the initial value, with the running flag raised; the settings
  are kept; the starvation page starts with its five threads and the async page with its
  four tasks in each lane) and the log is empty, but for the lock demo, whose log starts
  with the line of its first step. The start functions of the deadlock, memory ordering,
  producer-consumer, semaphore, starvation and async-versus-threads pages get there from
  any state, by calling \<open>reset()\<close> first, which also cancels the interval the ref held:
  the new interval is the only one alive if the old one was. The thread pool and the
  reader-writer page offer Start only while they are not running, and whatever has
  happened to such a page, every field then has its initial value, so that the start
  leaves the same state; at most one interval of the page is ever alive. The demos of
  the race-condition and locks pages assign their start state directly; the new
  interval is the only one of its demo if none was alive. These two pages have two demos
  each, whose scripts play at the same time on separate fields.
\<close>

theorem start_state:
  "runDeadlockScenario d =
     dl_init\<lparr>dl_showExplanation := dl_showExplanation d, dl_isRunning := True,
             dl_intervalRef := Some (next_handle (dl_timers d)),
             dl_timers := setInterval 0 (clearRef (dl_intervalRef d) (dl_timers d))\<rparr>
   \<and> mo_run sc m =
       mo_init\<lparr>mo_scenario := sc, mo_isRunning := True,
               mo_intervalRef := Some (next_handle (mo_timers m)),
               mo_timers := setInterval (sc, 0) (clearRef (mo_intervalRef m) (mo_timers m))\<rparr>
   \<and> pc_runSimulation p =
       pc_init\<lparr>pc_isRunning := True, pc_intervalRef := Some (next_handle (pc_timers p)),
               pc_timers :=
                 setInterval
                   \<lparr>localItemCounter = 0, localQueue = [], localProduced = 0, localConsumed = 0\<rparr>
                   (clearRef (pc_intervalRef p) (pc_timers p)),
               pc_timeouts := pc_timeouts p\<rparr>
   \<and> sem_runSimulation e =
       sem_init\<lparr>sem_maxPermits := sem_maxPermits e, sem_availablePermits := sem_maxPermits e,
                sem_autoSpawn := sem_autoSpawn e, sem_isRunning := True,
                sem_intervalRef := Some (next_handle (sem_timers e)),
                sem_timers :=
                  setInterval (sem_render e) (clearRef (sem_intervalRef e) (sem_timers e))\<rparr>
   \<and> sv_runSimulation v =
       sv_init\<lparr>sv_showExplanation := sv_showExplanation v, sv_scenario := sv_scenario v,
               sv_threads := initThreads, sv_isRunning := True,
               sv_intervalRef := Some (next_handle (sv_timers v)),
               sv_timers :=
                 setInterval
                   \<lparr>localTick = 0, c_scenario = sv_scenario v, c_lockHolder = sv_lockHolder v,
                    c_tick = sv_tick v\<rparr>
                   (clearRef (sv_intervalRef v) (sv_timers v))\<rparr>
   \<and> runDemo a =
       av_init\<lparr>av_asyncTasks := createDemoTasks, av_threadTasks := createDemoTasks,
               av_parallelTasks := createDemoTasks, av_isRunning := True,
               av_intervalRef := Some (next_handle (av_timers a)),
               av_timers :=
                 setInterval
                   \<lparr>av_tick = 0, asyncCurrentTask = 0, asyncWaitingFor = [],
                    cap_asyncTasks = av_asyncTasks a, cap_threadTasks = av_threadTasks a,
                    cap_parallelTasks = av_parallelTasks a\<rparr>
                   (clearRef (av_intervalRef a) (av_timers a))\<rparr>
   \<and> runUnsafeDemo c =
       c\<lparr>rc_unsafeCounter := Num 0, rc_unsafeLog := [], rc_lostUpdates := 0,
         rc_unsafeRunning := True, rc_unsafeThreads := rc_threads0,
         rc_unsafeInterval := Some (next_handle (rc_unsafeTimers c)),
         rc_unsafeTimers :=
           setInterval
             \<lparr>ruc_counter = Num 0, ruc_step = 0, ruc_lost = 0,
              ruc_threadLocalValues = (\<lambda>_. Undefined)\<rparr>
             (rc_unsafeTimers c)\<rparr>
   \<and> runAtomicDemo c =
       c\<lparr>rc_atomicCounter := 0, rc_atomicLog := [], rc_atomicRunning := True,
         rc_atomicThreads := rc_threads0,
         rc_atomicInterval := Some (next_handle (rc_atomicTimers c)),
         rc_atomicTimers := setInterval (0, 0) (rc_atomicTimers c)\<rparr>
   \<and> startLockDemo l =
       l\<lparr>lp_lockDemo :=
           \<lparr>lk_active = True, lk_waiting = [2, 3, 4], lk_currentHolder = Some 1,
            lk_completedThreads = [], lk_phase = LkAcquiring,
            lk_executionLog = [''Thread 1 acquired the lock'']\<rparr>,
         lp_lockInterval := Some (next_handle (lp_lockTimers l)),
         lp_lockTimers := setInterval 0 (lp_lockTimers l)\<rparr>
   \<and> startCASDemo l =
       l\<lparr>lp_casDemo :=
           \<lparr>cas_attempts = [], cas_val = 100, cas_isRunning = True, cas_phase = CasIdle,
            cas_currentThread = None\<rparr>,
         lp_casInterval := Some (next_handle (lp_casTimers l)),
         lp_casTimers := setInterval (0, 100) (lp_casTimers l)\<rparr>
   \<and> (let t = tp_exec fl te tp_init
       in single_timer (tp_timers t) (tp_intervalRef t)
        \<and> (\<not> tp_isRunning t \<longrightarrow>
             tp_runSimulation t =
               tp_init\<lparr>tp_workerCount := tp_workerCount t,
                       tp_workers := make_workers (tp_workerCount t), tp_isRunning := True,
                       tp_intervalRef := Some (next_handle (tp_timers t)),
                       tp_timers := setInterval () (tp_timers t)\<rparr>))
   \<and> (let r = rw_exec re rw_init
       in single_timer (rw_timers r) (rw_intervalRef r)
        \<and> (\<not> rw_isRunning r \<longrightarrow>
             rw_runSimulation r =
               rw_init\<lparr>rw_isRunning := True,
                       rw_intervalRef := Some (next_handle (rw_timers r)),
                       rw_timers := setInterval (rw_render rw_init) (rw_timers r)\<rparr>))
   \<and> (single_timer (T :: 'x timers) ref \<longrightarrow>
        single_timer (setInterval x (clearRef ref T)) (Some (next_handle T)))
   \<and> (no_timer T \<longrightarrow> single_timer (setInterval x T) (Some (next_handle T)))"
proof -
  note tp = tp_exec_inv [OF tp_init_inv(1), of fl te]
  note rw = rw_exec_inv [OF rw_init_inv(1), of re]
  have "\<not> tp_isRunning (tp_exec fl te tp_init) \<longrightarrow>
      tp_runSimulation (tp_exec fl te tp_init) =
        tp_init\<lparr>tp_workerCount := tp_workerCount (tp_exec fl te tp_init),
                tp_workers := make_workers (tp_workerCount (tp_exec fl te tp_init)),
                tp_isRunning := True,
                tp_intervalRef := Some (next_handle (tp_timers (tp_exec fl te tp_init))),
                tp_timers := setInterval () (tp_timers (tp_exec fl te tp_init))\<rparr>"
    using tp tp_init_inv(2) tp_start_idle [of "tp_exec fl te tp_init"] by blast
  moreover have "\<not> rw_isRunning (rw_exec re rw_init) \<longrightarrow>
      rw_runSimulation (rw_exec re rw_init) =
        rw_init\<lparr>rw_isRunning := True,
                rw_intervalRef := Some (next_handle (rw_timers (rw_exec re rw_init))),
                rw_timers := setInterval (rw_render rw_init) (rw_timers (rw_exec re rw_init))\<rparr>"
    using rw rw_init_inv(2) rw_start_idle [of "rw_exec re rw_init"] by blast
  moreover have "single_timer (tp_timers (tp_exec fl te tp_init)) (tp_intervalRef (tp_exec fl te tp_init))"
    "single_timer (rw_timers (rw_exec re rw_init)) (rw_intervalRef (rw_exec re rw_init))"
    using tp rw tp_init_inv(2) rw_init_inv(2) by blast+
  ultimately show ?thesis
    unfolding Let_def
    by (simp only: dl_start_eq mo_start_eq pc_start_eq sem_start_eq sv_start_eq av_start_eq
        rc_start_eq lp_start_eq simp_thms)
      (blast intro: single_timer_restart single_timer_first)
qed

text \<open>
  A second start of the deadlock demo after its seven steps: the seven lines are gone
  and the threads are the initial ones. A thread pool and a reader-writer page that were
  started, used and reset: a start leaves no task, no reader and no log line.
\<close>

theorem start_state_witness:
  "length (dl_logs (dl_ticks 1 [''a'', ''b'', ''c'', ''d'', ''e'', ''f'', ''g'']
                     (runDeadlockScenario dl_init))) = 7
   \<and> dl_logs (runDeadlockScenario
        (dl_ticks 1 [''a'', ''b'', ''c'', ''d'', ''e'', ''f'', ''g''] (runDeadlockScenario dl_init)))
       = []
   \<and> dl_threads (runDeadlockScenario
        (dl_ticks 1 [''a'', ''b'', ''c'', ''d'', ''e'', ''f'', ''g''] (runDeadlockScenario dl_init)))
       = dl_threads dl_init
   \<and> length (tp_taskQueue (tp_exec (\<lambda>x. x) [TpStart, TpAddTask ''12:00:00'' 0] tp_init)) = 1
   \<and> \<not> tp_isRunning (tp_exec (\<lambda>x. x) [TpStart, TpAddTask ''12:00:00'' 0, TpReset] tp_init)
   \<and> tp_taskQueue (tp_runSimulation
        (tp_exec (\<lambda>x. x) [TpStart, TpAddTask ''12:00:00'' 0, TpReset] tp_init)) = []
   \<and> tp_logs (tp_runSimulation
        (tp_exec (\<lambda>x. x) [TpStart, TpAddTask ''12:00:00'' 0, TpReset] tp_init)) = []
   \<and> length (rw_activeReaders (rw_exec [RwStart, RwAddReader ''12:00:00'' 0] rw_init)) = 1
   \<and> \<not> rw_isRunning (rw_exec [RwStart, RwAddReader ''12:00:00'' 0, RwReset] rw_init)
   \<and> rw_activeReaders (rw_runSimulation
        (rw_exec [RwStart, RwAddReader ''12:00:00'' 0, RwReset] rw_init)) = []
   \<and> rw_logs (rw_runSimulation
        (rw_exec [RwStart, RwAddReader ''12:00:00'' 0, RwReset] rw_init)) = []
   \<and> single_timer (setInterval (0::nat) (clearRef None no_timers)) (Some 1)
   \<and> single_timer (setInterval (0::nat) no_timers) (Some 1)"
proof -
  let ?s = "dl_ticks 1 [''a'', ''b'', ''c'', ''d'', ''e'', ''f'', ''g''] (runDeadlockScenario dl_init)"
  let ?t = "tp_exec (\<lambda>x. x) [TpStart, TpAddTask ''12:00:00'' 0, TpReset] tp_init"
  let ?r = "rw_exec [RwStart, RwAddReader ''12:00:00'' 0, RwReset] rw_init"
  have a: "single_timer (no_timers :: nat timers) None" "no_timer (no_timers :: nat timers)"
    by (simp_all add: single_timer_def no_timer_def)
  have n: "next_handle (no_timers :: nat timers) = 1"
    by (simp add: no_timers_def)
  have s7: "?s = dl_deadlocked [''a'', ''b'', ''c'', ''d'', ''e'', ''f'', ''g''] dl_init"
    using dl_run7 [of dl_init] unfolding dl_init_next_handle .
  have before: "length (dl_logs ?s) = 7"
    unfolding s7 by (simp add: dl_deadlocked_def)
  have tp1: "length (tp_taskQueue (tp_exec (\<lambda>x. x) [TpStart, TpAddTask ''12:00:00'' 0] tp_init)) = 1"
    by (simp add: tp_exec_def tp_runSimulation_def addTask_def tp_addLog_def tp_init_def
        tp_workers_effect_def tp_constructed_def Let_def)
  have tp2: "\<not> tp_isRunning ?t"
    by (simp add: tp_exec_def tp_reset_def)
  have rw1: "length (rw_activeReaders (rw_exec [RwStart, RwAddReader ''12:00:00'' 0] rw_init)) = 1"
    by (simp add: rw_exec_def rw_runSimulation_def addReader_def rw_addLog_def rw_init_def
        rw_render_def Let_def)
  have rw2: "\<not> rw_isRunning ?r"
    by (simp add: rw_exec_def rw_reset_def)
  from start_state
    [where d = ?s and T = "no_timers :: nat timers" and ref = None and x = 0
      and fl = "\<lambda>x. x" and te = "[TpStart, TpAddTask ''12:00:00'' 0, TpReset]"
      and re = "[RwStart, RwAddReader ''12:00:00'' 0, RwReset]", unfolded Let_def]
  have eq: "runDeadlockScenario ?s =
     dl_init\<lparr>dl_showExplanation := dl_showExplanation ?s, dl_isRunning := True,
             dl_intervalRef := Some (next_handle (dl_timers ?s)),
             dl_timers := setInterval 0 (clearRef (dl_intervalRef ?s) (dl_timers ?s))\<rparr>"
    and tp: "\<not> tp_isRunning ?t \<longrightarrow>
        tp_runSimulation ?t =
          tp_init\<lparr>tp_workerCount := tp_workerCount ?t,
                  tp_workers := make_workers (tp_workerCount ?t), tp_isRunning := True,
                  tp_intervalRef := Some (next_handle (tp_timers ?t)),
                  tp_timers := setInterval () (tp_timers ?t)\<rparr>"
    and rw: "\<not> rw_isRunning ?r \<longrightarrow>
        rw_runSimulation ?r =
          rw_init\<lparr>rw_isRunning := True, rw_intervalRef := Some (next_handle (rw_timers ?r)),
                  rw_timers := setInterval (rw_render rw_init) (rw_timers ?r)\<rparr>"
    and one: "single_timer (no_timers :: nat timers) None \<longrightarrow>
        single_timer (setInterval 0 (clearRef None (no_timers :: nat timers))) (Some (next_handle (no_timers :: nat timers)))"
    and two: "no_timer (no_timers :: nat timers) \<longrightarrow>
        single_timer (setInterval 0 (no_timers :: nat timers)) (Some (next_handle (no_timers :: nat timers)))"
    by blast+
  have "dl_logs (runDeadlockScenario ?s) = []"
    "dl_threads (runDeadlockScenario ?s) = dl_threads dl_init"
    unfolding eq by (simp_all add: dl_init_def)
  moreover have "tp_taskQueue (tp_runSimulation ?t) = []" "tp_logs (tp_runSimulation ?t) = []"
    using tp tp2
    by (simp_all add: tp_init_def tp_workers_effect_def tp_constructed_def)
  moreover have "rw_activeReaders (rw_runSimulation ?r) = []" "rw_logs (rw_runSimulation ?r) = []"
    using rw rw2 by (simp_all add: rw_init_def)
  ultimately show ?thesis
    using before one two a n tp1 tp2 rw1 rw2 by simp
qed

text \<open>
  The claim as stated fails on the fresh race-condition and locks pages: the one start
  button of the first leaves two intervals alive, and the start of the lock demo leaves
  a line in the log and a state that is not the initial one.
\<close>

theorem start_counterexample:
  "closure_of (rc_unsafeTimers (runBothDemos rc_init)) 1 \<noteq> None
   \<and> closure_of (rc_atomicTimers (runBothDemos rc_init)) 1 \<noteq> None
   \<and> lk_executionLog (lp_lockDemo (startLockDemo lp_init)) = [''Thread 1 acquired the lock'']
   \<and> lk_currentHolder (lp_lockDemo (startLockDemo lp_init)) = Some 1
   \<and> lk_currentHolder (lp_lockDemo lp_init) = None"
  by (simp add: runBothDemos_def runUnsafeDemo_def runAtomicDemo_def rc_init_def no_timers_def
      startLockDemo_def lp_init_def lock_demo0_def Let_def)

subsection \<open>The logs\<close>

lemma length_kept: "k < 0 \<Longrightarrow> length (slice1 k xs @ [x]) = min (length xs) (nat (- k)) + 1"
  by (auto simp: slice1_def Let_def)

lemma dl_addLog_len [simp]: "length (dl_logs (dl_addLog now m s)) \<le> 9"
  using length_slice1_neg [of "- 8" "dl_logs s"] by (simp add: dl_addLog_def)

lemma dl_steps_len:
  assumes "k < length dl_steps"
  shows "length (dl_logs ((dl_steps ! k) now s)) \<le> 9"
proof -
  have "\<forall>f \<in> set dl_steps. length (dl_logs (f now s)) \<le> 9"
    by (simp add: dl_steps_def dl_wants_def dl_acquires_def Let_def)
  with assms show ?thesis
    using nth_mem by blast
qed

lemma dl_apply_len: "length (dl_logs s) \<le> 9 \<Longrightarrow> length (dl_logs (dl_apply e s)) \<le> 9"
  by (cases e)
    (simp_all add: runDeadlockScenario_def dl_reset_def dl_tick_def Let_def dl_steps_len
      split: option.splits)

lemma dl_exec_len: "length (dl_logs s) \<le> 9 \<Longrightarrow> length (dl_logs (dl_exec evs s)) \<le> 9"
  unfolding dl_exec_def by (induction evs arbitrary: s) (simp_all add: dl_apply_len)

lemma mo_addLog_len [simp]: "length (mo_logs (mo_addLog m ty s)) \<le> 13"
  using length_slice1_neg [of "- 12" "mo_logs s"] by (simp add: mo_addLog_def)

lemma mo_steps_len:
  assumes "k < length (mo_steps sc)"
  shows "length (mo_logs ((mo_steps sc ! k) s)) \<le> 13"
proof -
  have "\<forall>f \<in> set (mo_steps sc). length (mo_logs (f s)) \<le> 13"
    by (cases sc) (simp_all add: mo_steps_def mo_broken_steps_def mo_fixed_steps_def)
  with assms show ?thesis
    using nth_mem by blast
qed

lemma mo_apply_len: "length (mo_logs s) \<le> 13 \<Longrightarrow> length (mo_logs (mo_apply e s)) \<le> 13"
  by (cases e)
    (simp_all add: mo_run_def mo_reset_def mo_tick_def Let_def mo_steps_len split: option.splits)

lemma mo_exec_len: "length (mo_logs s) \<le> 13 \<Longrightarrow> length (mo_logs (mo_exec evs s)) \<le> 13"
  unfolding mo_exec_def by (induction evs arbitrary: s) (simp_all add: mo_apply_len)

lemma pc_addLog_len [simp]: "length (pc_logs (pc_addLog now m ty s)) \<le> 13"
  using length_slice1_neg [of "- 12" "pc_logs s"] by (simp add: pc_addLog_def)

lemma pc_produce_len: "length (pc_logs (snd (pc_produce now i cs))) \<le> 13"
  by (simp add: pc_produce_def Let_def)

lemma pc_consume_len: "length (pc_logs (snd (pc_consume now i cs))) \<le> 13"
  by (simp add: pc_consume_def Let_def split: list.splits)

lemma pc_apply_len: "length (pc_logs s) \<le> 13 \<Longrightarrow> length (pc_logs (pc_apply e s)) \<le> 13"
proof (cases e)
  case (PcTick now d h)
  assume "length (pc_logs s) \<le> 13"
  then show ?thesis
    by (simp add: PcTick pc_tick_def Let_def pc_produce_len pc_consume_len split: option.splits)
next
  case (PcTimeout n)
  assume "length (pc_logs s) \<le> 13"
  then show ?thesis
    by (simp add: PcTimeout pc_timeout_fires_def pc_run_timeout_def split: pc_timeout.splits)
qed (simp_all add: pc_runSimulation_def pc_reset_def pc_togglePause_def Let_def)

lemma pc_exec_len: "length (pc_logs s) \<le> 13 \<Longrightarrow> length (pc_logs (pc_exec evs s)) \<le> 13"
  unfolding pc_exec_def by (induction evs arbitrary: s) (simp_all add: pc_apply_len)

lemma av_addLog_len [simp]: "length (av_logs (av_addLog m s)) \<le> 11"
  using length_slice1_neg [of "- 10" "av_logs s"] by (simp add: av_addLog_def)

lemma av_wait_filter_len:
  "length (av_logs s) \<le> 11 \<Longrightarrow>
   length (av_logs (snd (snd (av_wait_filter fl ids tasks s)))) \<le> 11"
  by (induction fl ids tasks s rule: av_wait_filter.induct)
    (simp_all add: Let_def case_prod_beta split: option.splits)

lemma av_loop_len:
  "length (av_logs s) \<le> 11 \<Longrightarrow>
   length (av_logs (snd (snd (snd (av_loop fl tick cur waiting tasks s))))) \<le> 11"
proof (induction fl tick cur waiting tasks s rule: av_loop.induct)
  case (1 fl tick cur waiting tasks s)
  show ?case
  proof (cases "cur < length tasks")
    case False
    then show ?thesis
      using "1.prems" by (subst av_loop.simps) simp
  next
    case True
    note io = "1.IH"(1) [OF True refl refl refl refl]
    note skip = "1.IH"(2) [OF True refl refl refl refl]
    show ?thesis
    proof (cases "at_status (tasks ! cur)")
      case AvPending
      then show ?thesis
        using True "1.prems" io by (subst av_loop.simps) (simp add: Let_def)
    next
      case AvRunning
      then show ?thesis
        using True "1.prems" io by (subst av_loop.simps) (simp add: Let_def)
    next
      case AvWaiting
      then show ?thesis
        using True "1.prems" skip by (subst av_loop.simps) (simp add: Let_def)
    next
      case AvCompleted
      then show ?thesis
        using True "1.prems" skip by (subst av_loop.simps) (simp add: Let_def)
    qed
  qed
qed

lemma av_async_step_len:
  "length (av_logs s) \<le> 11 \<Longrightarrow> length (av_logs (snd (av_async_step fl c s))) \<le> 11"
proof -
  assume a: "length (av_logs s) \<le> 11"
  obtain keep tasks1 s1 where w: "av_wait_filter fl (asyncWaitingFor c) (av_asyncTasks s) s = (keep, tasks1, s1)"
    by (cases "av_wait_filter fl (asyncWaitingFor c) (av_asyncTasks s) s") auto
  obtain cur waiting tasks2 s2 where
    l: "av_loop fl (av_tick c) (asyncCurrentTask c) keep tasks1 s1 = (cur, waiting, tasks2, s2)"
    by (cases "av_loop fl (av_tick c) (asyncCurrentTask c) keep tasks1 s1") auto
  have "length (av_logs s1) \<le> 11"
    using av_wait_filter_len [OF a, of fl "asyncWaitingFor c" "av_asyncTasks s"] by (simp add: w)
  then have "length (av_logs s2) \<le> 11"
    using av_loop_len [of s1 fl "av_tick c" "asyncCurrentTask c" keep tasks1] by (simp add: l)
  then show ?thesis
    using a by (simp add: av_async_step_def Let_def w l)
qed

lemma av_thread_step_len:
  "length (av_logs s) \<le> 11 \<Longrightarrow> length (av_logs (av_thread_step fl c s)) \<le> 11"
  by (simp add: av_thread_step_def Let_def split: option.splits)

lemma av_parallel_step_len:
  "length (av_logs s) \<le> 11 \<Longrightarrow> length (av_logs (av_parallel_step fl c s)) \<le> 11"
  by (simp add: av_parallel_step_def Let_def)

lemma av_tick_fire_len:
  "length (av_logs s) \<le> 11 \<Longrightarrow> length (av_logs (av_tick_fire fl h s)) \<le> 11"
proof -
  assume a: "length (av_logs s) \<le> 11"
  show ?thesis
  proof (cases "closure_of (av_timers s) h")
    case None
    then show ?thesis using a by (simp add: av_tick_fire_def)
  next
    case (Some c0)
    obtain c2 s1 where st: "av_async_step fl (c0\<lparr>av_tick := av_tick c0 + 1\<rparr>) s = (c2, s1)"
      by (cases "av_async_step fl (c0\<lparr>av_tick := av_tick c0 + 1\<rparr>) s") auto
    have "length (av_logs s1) \<le> 11"
      using av_async_step_len [OF a, of fl "c0\<lparr>av_tick := av_tick c0 + 1\<rparr>"] by (simp add: st)
    then have "length (av_logs (av_parallel_step fl c2 (av_thread_step fl c2 s1))) \<le> 11"
      by (intro av_parallel_step_len av_thread_step_len)
    then show ?thesis
      by (simp add: av_tick_fire_def Some Let_def st)
  qed
qed

lemma av_apply_len: "length (av_logs s) \<le> 11 \<Longrightarrow> length (av_logs (av_apply fl e s)) \<le> 11"
  by (cases e) (simp_all add: runDemo_def av_reset_def Let_def av_tick_fire_len)

lemma av_exec_len: "length (av_logs s) \<le> 11 \<Longrightarrow> length (av_logs (av_exec fl evs s)) \<le> 11"
  unfolding av_exec_def by (induction evs arbitrary: s) (simp_all add: av_apply_len)

lemma sem_addLog_len [simp]: "length (sem_logs (sem_addLog now m ty s)) \<le> 13"
  using length_slice1_neg [of "- 12" "sem_logs s"] by (simp add: sem_addLog_def)

lemma spawnRequest_len [simp]: "length (sem_logs (spawnRequest now v s)) \<le> 13"
  by (simp add: spawnRequest_def Let_def)

lemma sem_release_len:
  "length (sem_logs s) \<le> 13 \<Longrightarrow> length (sem_logs (fold (sem_release now v) cs s)) \<le> 13"
  by (induction cs arbitrary: s) (simp_all add: sem_release_def Let_def)

lemma sem_promoted_log_len:
  "length (sem_logs s) \<le> 13 \<Longrightarrow> length (sem_logs (fold (sem_promoted_log now) rs s)) \<le> 13"
  by (induction rs arbitrary: s) (simp_all add: sem_promoted_log_def)

lemma sem_tick_len:
  assumes a: "length (sem_logs s) \<le> 13"
  shows "length (sem_logs (sem_tick fl now rnd h s)) \<le> 13"
proof (cases "closure_of (sem_timers s) h")
  case None
  then show ?thesis using a by (simp add: sem_tick_def)
next
  case (Some v)
  show ?thesis
    using a
    by (simp add: sem_tick_def Some Let_def case_prod_beta sem_release_len sem_promoted_log_len)
qed

lemma sem_apply_len:
  "length (sem_logs s) \<le> 13 \<Longrightarrow> length (sem_logs (sem_apply fl e s)) \<le> 13"
  by (cases e)
    (simp_all add: sem_runSimulation_def sem_reset_def sem_togglePause_def sem_addRequest_def
      updateMaxPermits_def setAutoSpawn_def Let_def sem_tick_len)

lemma sem_exec_len:
  "length (sem_logs s) \<le> 13 \<Longrightarrow> length (sem_logs (sem_exec fl evs s)) \<le> 13"
  unfolding sem_exec_def by (induction evs arbitrary: s) (simp_all add: sem_apply_len)

lemma sv_addLog_len [simp]: "length (sv_logs (sv_addLog t m s)) \<le> 13"
  using length_slice1_neg [of "- 12" "sv_logs s"] by (simp add: sv_addLog_def)

lemma sv_tick_fire_len:
  "length (sv_logs s) \<le> 13 \<Longrightarrow> length (sv_logs (sv_tick_fire rnd h s)) \<le> 13"
  by (simp add: sv_tick_fire_def Let_def case_prod_beta split: option.splits)

lemma sv_apply_len: "length (sv_logs s) \<le> 13 \<Longrightarrow> length (sv_logs (sv_apply e s)) \<le> 13"
  by (cases e)
    (simp_all add: sv_runSimulation_def sv_reset_def sv_togglePause_def sv_setScenario_def
      Let_def sv_tick_fire_len)

lemma sv_exec_len: "length (sv_logs s) \<le> 13 \<Longrightarrow> length (sv_logs (sv_exec evs s)) \<le> 13"
  unfolding sv_exec_def by (induction evs arbitrary: s) (simp_all add: sv_apply_len)

lemma tp_addLog_len [simp]: "length (tp_logs (tp_addLog now m s)) \<le> 16"
  using length_slice1_neg [of "- 15" "tp_logs s"] by (simp add: tp_addLog_def)

lemma tp_worker_step_len:
  "length (tp_logs (tp_page l)) \<le> 16 \<Longrightarrow>
   length (tp_logs (tp_page (snd (tp_worker_step fl now w l)))) \<le> 16"
  by (simp add: tp_worker_step_def Let_def case_prod_beta split: option.splits)

lemma tp_workers_loop_len:
  "length (tp_logs (tp_page l)) \<le> 16 \<Longrightarrow>
   length (tp_logs (tp_page (snd (tp_workers_loop fl now ws l)))) \<le> 16"
  by (induction ws arbitrary: l) (simp_all add: Let_def case_prod_beta tp_worker_step_len)

lemma tp_tick_len:
  assumes a: "length (tp_logs s) \<le> 16"
  shows "length (tp_logs (tp_tick fl now h s)) \<le> 16"
proof -
  have "length (tp_logs (tp_page (snd (tp_workers_loop fl now (tp_workers s)
          \<lparr>newQueue = tp_taskQueue s, newCompleted = [], tp_page = s\<rparr>)))) \<le> 16"
    by (rule tp_workers_loop_len) (simp add: a)
  with a show ?thesis
    by (simp add: tp_tick_def Let_def case_prod_beta split: option.splits)
qed

lemma tp_apply_len: "length (tp_logs s) \<le> 16 \<Longrightarrow> length (tp_logs (tp_apply fl e s)) \<le> 16"
  by (cases e)
    (simp_all add: tp_runSimulation_def tp_reset_def tp_togglePause_def addTask_def
      addBatchTasks_def tp_setWorkerCount_def tp_workers_effect_def Let_def tp_tick_len)

lemma tp_exec_len: "length (tp_logs s) \<le> 16 \<Longrightarrow> length (tp_logs (tp_exec fl evs s)) \<le> 16"
  unfolding tp_exec_def by (induction evs arbitrary: s) (simp_all add: tp_apply_len)

lemma rw_addLog_len [simp]: "length (rw_logs (rw_addLog now m ty s)) \<le> 13"
  using length_slice1_neg [of "- 12" "rw_logs s"] by (simp add: rw_addLog_def)

lemma addReader_len [simp]: "length (rw_logs (addReader now ms v s)) \<le> 13"
  by (simp add: addReader_def Let_def)

lemma addWriter_len [simp]: "length (rw_logs (addWriter now ms v s)) \<le> 13"
  by (simp add: addWriter_def Let_def)

lemma rw_finish_read_len:
  "length (rw_logs s) \<le> 13 \<Longrightarrow> length (rw_logs (fold (rw_finish_read now) rs s)) \<le> 13"
  by (induction rs arbitrary: s) (simp_all add: rw_finish_read_def Let_def)

lemma rw_promote_reader_len:
  "length (rw_logs s) \<le> 13 \<Longrightarrow> length (rw_logs (fold (rw_promote_reader now) rs s)) \<le> 13"
  by (induction rs arbitrary: s) (simp_all add: rw_promote_reader_def Let_def)

lemma rw_step_len:
  "length (rw_logs s) \<le> 13 \<Longrightarrow> length (rw_logs (rw_writer_done now v w s)) \<le> 13"
  "length (rw_logs s) \<le> 13 \<Longrightarrow> length (rw_logs (rw_promote_writer now s)) \<le> 13"
  by (simp_all add: rw_writer_done_def rw_promote_writer_def Let_def split: list.splits)

lemma rw_tick_len:
  assumes a: "length (rw_logs s) \<le> 13"
  shows "length (rw_logs (rw_tick now ms rnd h s)) \<le> 13"
proof (cases "closure_of (rw_timers s) h")
  case None
  then show ?thesis using a by (simp add: rw_tick_def)
next
  case (Some v)
  show ?thesis
    using a
    by (simp add: rw_tick_def Some Let_def case_prod_beta rw_step_len rw_finish_read_len
        rw_promote_reader_len split: option.splits)
qed

lemma rw_apply_len: "length (rw_logs s) \<le> 13 \<Longrightarrow> length (rw_logs (rw_apply e s)) \<le> 13"
  by (cases e)
    (simp_all add: rw_runSimulation_def rw_reset_def rw_togglePause_def Let_def rw_tick_len)

lemma rw_exec_len: "length (rw_logs s) \<le> 13 \<Longrightarrow> length (rw_logs (rw_exec evs s)) \<le> 13"
  unfolding rw_exec_def by (induction evs arbitrary: s) (simp_all add: rw_apply_len)

lemma lock_run12:
  "length (lk_executionLog (lp_lockDemo
     (fold (\<lambda>u. lock_tick (next_handle (lp_lockTimers s0)))
        [(), (), (), (), (), (), (), (), (), (), (), ()] (startLockDemo s0)))) = 13"
  "closure_of (lp_lockTimers
     (fold (\<lambda>u. lock_tick (next_handle (lp_lockTimers s0)))
        [(), (), (), (), (), (), (), (), (), (), (), ()] (startLockDemo s0)))
     (next_handle (lp_lockTimers s0)) = None"
  by (simp_all add: lock_tick_def startLockDemo_def Let_def slice1_def clearRef_def)

text \<open>
  C5, as the code has it. \<open>addLog\<close> keeps the last \<open>N\<close> entries and then appends the new
  one, so a log holds up to \<open>N + 1\<close> entries: whatever happens to the page from its
  construction on, at most 9 on the deadlock page, 11 on the async-versus-threads page,
  13 on the memory ordering, producer-consumer, reader-writer, semaphore and starvation
  pages and 16 on the thread pool page. The logs of the race-condition page and of the
  lock demo receive one entry for each step of the script: a run ends with 9, 3 and 13
  entries, and its timer is cleared.
\<close>

theorem logs_bounded:
  "length (dl_logs (dl_exec de dl_init)) \<le> 9
   \<and> length (av_logs (av_exec fl ae av_init)) \<le> 11
   \<and> length (mo_logs (mo_exec me mo_init)) \<le> 13
   \<and> length (pc_logs (pc_exec pe pc_init)) \<le> 13
   \<and> length (rw_logs (rw_exec re rw_init)) \<le> 13
   \<and> length (sem_logs (sem_exec fl se sem_init)) \<le> 13
   \<and> length (sv_logs (sv_exec ve sv_init)) \<le> 13
   \<and> length (tp_logs (tp_exec fl te tp_init)) \<le> 16
   \<and> length (dl_logs (dl_addLog now m d)) = min (length (dl_logs d)) 8 + 1
   \<and> length (av_logs (av_addLog m a)) = min (length (av_logs a)) 10 + 1
   \<and> length (mo_logs (mo_addLog m mty mo)) = min (length (mo_logs mo)) 12 + 1
   \<and> length (pc_logs (pc_addLog now m pty p)) = min (length (pc_logs p)) 12 + 1
   \<and> length (rw_logs (rw_addLog now m rty r)) = min (length (rw_logs r)) 12 + 1
   \<and> length (sem_logs (sem_addLog now m ety e)) = min (length (sem_logs e)) 12 + 1
   \<and> length (sv_logs (sv_addLog n m v)) = min (length (sv_logs v)) 12 + 1
   \<and> length (tp_logs (tp_addLog now m t)) = min (length (tp_logs t)) 15 + 1
   \<and> length (rc_unsafeLog (unsafe_ticks (next_handle (rc_unsafeTimers c))
        [t1, t2, t3, t4, t5, t6, t7, t8, t9, t10] (runUnsafeDemo c))) = 9
   \<and> closure_of (rc_unsafeTimers (unsafe_ticks (next_handle (rc_unsafeTimers c))
        [t1, t2, t3, t4, t5, t6, t7, t8, t9, t10] (runUnsafeDemo c)))
        (next_handle (rc_unsafeTimers c)) = None
   \<and> length (rc_atomicLog (atomic_ticks (next_handle (rc_atomicTimers c)) [u1, u2, u3, u4]
        (runAtomicDemo c))) = 3
   \<and> closure_of (rc_atomicTimers (atomic_ticks (next_handle (rc_atomicTimers c)) [u1, u2, u3, u4]
        (runAtomicDemo c))) (next_handle (rc_atomicTimers c)) = None
   \<and> length (lk_executionLog (lp_lockDemo
        (fold (\<lambda>u. lock_tick (next_handle (lp_lockTimers l)))
           [(), (), (), (), (), (), (), (), (), (), (), ()] (startLockDemo l)))) = 13
   \<and> closure_of (lp_lockTimers
        (fold (\<lambda>u. lock_tick (next_handle (lp_lockTimers l)))
           [(), (), (), (), (), (), (), (), (), (), (), ()] (startLockDemo l)))
        (next_handle (lp_lockTimers l)) = None"
proof -
  have "length (dl_logs (dl_exec de dl_init)) \<le> 9"
    by (rule dl_exec_len) (simp add: dl_init_def)
  moreover have "length (av_logs (av_exec fl ae av_init)) \<le> 11"
    by (rule av_exec_len) (simp add: av_init_def)
  moreover have "length (mo_logs (mo_exec me mo_init)) \<le> 13"
    by (rule mo_exec_len) (simp add: mo_init_def)
  moreover have "length (pc_logs (pc_exec pe pc_init)) \<le> 13"
    by (rule pc_exec_len) (simp add: pc_init_def)
  moreover have "length (rw_logs (rw_exec re rw_init)) \<le> 13"
    by (rule rw_exec_len) (simp add: rw_init_def)
  moreover have "length (sem_logs (sem_exec fl se sem_init)) \<le> 13"
    by (rule sem_exec_len) (simp add: sem_init_def)
  moreover have "length (sv_logs (sv_exec ve sv_init)) \<le> 13"
    by (rule sv_exec_len) (simp add: sv_init_def)
  moreover have "length (tp_logs (tp_exec fl te tp_init)) \<le> 16"
    by (rule tp_exec_len)
      (simp add: tp_init_def tp_workers_effect_def tp_constructed_def)
  moreover have "length (dl_logs (dl_addLog now m d)) = min (length (dl_logs d)) 8 + 1"
    "length (av_logs (av_addLog m a)) = min (length (av_logs a)) 10 + 1"
    "length (mo_logs (mo_addLog m mty mo)) = min (length (mo_logs mo)) 12 + 1"
    "length (pc_logs (pc_addLog now m pty p)) = min (length (pc_logs p)) 12 + 1"
    "length (rw_logs (rw_addLog now m rty r)) = min (length (rw_logs r)) 12 + 1"
    "length (sem_logs (sem_addLog now m ety e)) = min (length (sem_logs e)) 12 + 1"
    "length (sv_logs (sv_addLog n m v)) = min (length (sv_logs v)) 12 + 1"
    "length (tp_logs (tp_addLog now m t)) = min (length (tp_logs t)) 15 + 1"
    by (simp_all add: dl_addLog_def av_addLog_def mo_addLog_def pc_addLog_def rw_addLog_def
        sem_addLog_def sv_addLog_def tp_addLog_def slice1_def Let_def)
  ultimately show ?thesis
    by (simp only: unsafe_run10 atomic_run4 lock_run12 simp_thms)
qed

text \<open>Two short sessions, on the thread pool and on the deadlock page.\<close>

theorem logs_bounded_witness:
  "length (tp_logs (tp_exec (\<lambda>x. x) [TpStart, TpAddTask ''12:00:00'' 0, TpTick ''12:00:01'' 1]
                     tp_init)) \<le> 16
   \<and> length (dl_logs (dl_exec [DlStart, DlTick ''12:00:00'' 1, DlTick ''12:00:01'' 1] dl_init))
       \<le> 9"
proof
  show "length (tp_logs (tp_exec (\<lambda>x. x)
      [TpStart, TpAddTask ''12:00:00'' 0, TpTick ''12:00:01'' 1] tp_init)) \<le> 16"
    by (rule logs_bounded [THEN conjunct2, THEN conjunct2, THEN conjunct2, THEN conjunct2,
          THEN conjunct2, THEN conjunct2, THEN conjunct2, THEN conjunct1])
  show "length (dl_logs (dl_exec [DlStart, DlTick ''12:00:00'' 1, DlTick ''12:00:01'' 1] dl_init))
      \<le> 9"
    by (rule logs_bounded [THEN conjunct1])
qed

text \<open>
  The claim as stated fails on the thread pool page: sixteen tasks added after a start
  leave sixteen lines in its log.
\<close>

theorem log_counterexample:
  "length (tp_logs (tp_exec (\<lambda>x. x)
     [TpStart, TpAddTask ''12:00:00'' 0, TpAddTask ''12:00:00'' 0, TpAddTask ''12:00:00'' 0,
      TpAddTask ''12:00:00'' 0, TpAddTask ''12:00:00'' 0, TpAddTask ''12:00:00'' 0,
      TpAddTask ''12:00:00'' 0, TpAddTask ''12:00:00'' 0, TpAddTask ''12:00:00'' 0,
      TpAddTask ''12:00:00'' 0, TpAddTask ''12:00:00'' 0, TpAddTask ''12:00:00'' 0,
      TpAddTask ''12:00:00'' 0, TpAddTask ''12:00:00'' 0, TpAddTask ''12:00:00'' 0,
      TpAddTask ''12:00:00'' 0] tp_init)) = 16"
  by (simp add: tp_exec_def tp_runSimulation_def addTask_def tp_addLog_def tp_init_def
      tp_workers_effect_def tp_constructed_def Let_def slice1_def)

end
